theory Spec2Isabelle
  imports Main
begin

section \<open>Python values\<close>

text \<open>
  The values that the entity models and the demo program handle. A date is year, month, day;
  a (naive) datetime adds hour, minute, second, microsecond. A decimal is Python's
  \<^verbatim>\<open>Decimal\<close>: sign, coefficient and exponent (the value is
  \<open>\<plusminus> coefficient * 10 ^ exponent\<close>). An enum member of a \<^verbatim>\<open>(str, Enum)\<close> class is
  represented by its string value. Dictionaries are association lists in insertion order.
  A character stands for one code point below 256.
\<close>

datatype date = Date (d_year: nat) (d_month: nat) (d_day: nat)

datatype datetime = DateTime (dt_year: nat) (dt_month: nat) (dt_day: nat)
  (dt_hour: nat) (dt_minute: nat) (dt_second: nat) (dt_microsecond: nat)

datatype decimal = Decimal (dec_sign: bool) (dec_int: nat) (dec_exp: int)

datatype py =
    PyNone
  | PyBool bool
  | PyInt int
  | PyStr string
  | PyDecimal decimal
  | PyDate date
  | PyDateTime datetime
  | PyEnum string
  | PyList "py list"
  | PyDict "(string \<times> py) list"

subsection \<open>Dictionaries in insertion order\<close>

fun dict_set :: "'a \<Rightarrow> 'b \<Rightarrow> ('a \<times> 'b) list \<Rightarrow> ('a \<times> 'b) list" where
  "dict_set k v [] = [(k, v)]"
| "dict_set k v ((k', v') # kvs) =
     (if k = k' then (k, v) # kvs else (k', v') # dict_set k v kvs)"

text \<open>\<^verbatim>\<open>d.update(e)\<close>\<close>

definition dict_update :: "('a \<times> 'b) list \<Rightarrow> ('a \<times> 'b) list \<Rightarrow> ('a \<times> 'b) list" where
  "dict_update d e = foldl (\<lambda>acc (k, v). dict_set k v acc) d e"

definition dict_keys :: "('a \<times> 'b) list \<Rightarrow> 'a list" where
  "dict_keys d = map fst d"

subsection \<open>Decimal digits and \<^verbatim>\<open>str()\<close>\<close>

definition digit_char :: "nat \<Rightarrow> char" where
  "digit_char n = ''0123456789'' ! n"

function show_nat :: "nat \<Rightarrow> string" where
  "show_nat n = (if n < 10 then [digit_char n] else show_nat (n div 10) @ [digit_char (n mod 10)])"
  by pat_completeness auto
termination
  by (relation "measure id") auto

declare show_nat.simps [simp del]

definition show_int :: "int \<Rightarrow> string" where
  "show_int i = (if i < 0 then CHR ''-'' # show_nat (nat (- i)) else show_nat (nat i))"

text \<open>\<^verbatim>\<open>"%0wd" % n\<close>\<close>

definition zfill :: "nat \<Rightarrow> nat \<Rightarrow> string" where
  "zfill w n = replicate (w - length (show_nat n)) CHR ''0'' @ show_nat n"

text \<open>\<^verbatim>\<open>date.isoformat()\<close>, which is also \<^verbatim>\<open>str(date)\<close>.\<close>

definition date_isoformat :: "date \<Rightarrow> string" where
  "date_isoformat d = zfill 4 (d_year d) @ ''-'' @ zfill 2 (d_month d) @ ''-'' @ zfill 2 (d_day d)"

text \<open>
  \<^verbatim>\<open>datetime.isoformat(sep)\<close>: the microseconds are printed only when they are not zero.
  \<^verbatim>\<open>isoformat()\<close> separates date and time with \<^verbatim>\<open>T\<close>; \<^verbatim>\<open>str(datetime)\<close> is
  \<^verbatim>\<open>isoformat(sep=' ')\<close>.
\<close>

definition datetime_format :: "char \<Rightarrow> datetime \<Rightarrow> string" where
  "datetime_format sep t =
     zfill 4 (dt_year t) @ ''-'' @ zfill 2 (dt_month t) @ ''-'' @ zfill 2 (dt_day t) @ [sep]
     @ zfill 2 (dt_hour t) @ '':'' @ zfill 2 (dt_minute t) @ '':'' @ zfill 2 (dt_second t)
     @ (if dt_microsecond t = 0 then [] else ''.'' @ zfill 6 (dt_microsecond t))"

definition datetime_isoformat :: "datetime \<Rightarrow> string" where
  "datetime_isoformat t = datetime_format CHR ''T'' t"

definition datetime_str :: "datetime \<Rightarrow> string" where
  "datetime_str t = datetime_format CHR '' '' t"

text \<open>
  \<^verbatim>\<open>Decimal.__str__\<close>: plain notation when the exponent is not positive and the number has more
  than \<open>-6\<close> digits left of the point, scientific notation with one digit before the point
  otherwise.
\<close>

definition decimal_str :: "decimal \<Rightarrow> string" where
  "decimal_str d =
     (let ds = show_nat (dec_int d);
          leftdigits = dec_exp d + int (length ds);
          dotplace = (if dec_exp d \<le> 0 \<and> leftdigits > - 6 then leftdigits else 1);
          intpart = (if dotplace \<le> 0 then ''0''
                     else if dotplace \<ge> int (length ds)
                       then ds @ replicate (nat (dotplace - int (length ds))) CHR ''0''
                     else take (nat dotplace) ds);
          fracpart = (if dotplace \<le> 0 then ''.'' @ replicate (nat (- dotplace)) CHR ''0'' @ ds
                      else if dotplace \<ge> int (length ds) then []
                      else ''.'' @ drop (nat dotplace) ds);
          e = (if leftdigits = dotplace then []
               else ''E'' @ (if leftdigits - dotplace < 0 then ''-'' else ''+'')
                    @ show_nat (nat \<bar>leftdigits - dotplace\<bar>))
      in (if dec_sign d then ''-'' else []) @ intpart @ fracpart @ e)"

subsection \<open>\<^verbatim>\<open>json.dumps(obj, indent=2, default=str)\<close>\<close>

definition hex_char :: "nat \<Rightarrow> char" where
  "hex_char n = ''0123456789abcdef'' ! n"

text \<open>The encoder escapes the quote, the backslash and every character outside space..tilde.\<close>

definition escape_char :: "char \<Rightarrow> string" where
  "escape_char c =
     (if c = CHR 0x22 then [CHR 0x5C, CHR 0x22]
      else if c = CHR 0x5C then [CHR 0x5C, CHR 0x5C]
      else if c = CHR 0x0A then [CHR 0x5C, CHR ''n'']
      else if c = CHR 0x0D then [CHR 0x5C, CHR ''r'']
      else if c = CHR 0x09 then [CHR 0x5C, CHR ''t'']
      else if c = CHR 0x08 then [CHR 0x5C, CHR ''b'']
      else if c = CHR 0x0C then [CHR 0x5C, CHR ''f'']
      else if (of_char c :: nat) < 32 \<or> (of_char c :: nat) > 126
        then [CHR 0x5C, CHR ''u'', CHR ''0'', CHR ''0'',
              hex_char ((of_char c :: nat) div 16), hex_char ((of_char c :: nat) mod 16)]
      else [c])"

definition encode_str :: "string \<Rightarrow> string" where
  "encode_str s = [CHR 0x22] @ concat (map escape_char s) @ [CHR 0x22]"

definition newline_indent :: "nat \<Rightarrow> string" where
  "newline_indent lvl = CHR 0x0A # replicate (2 * lvl) CHR '' ''"

fun join :: "string \<Rightarrow> string list \<Rightarrow> string" where
  "join sep [] = []"
| "join sep [x] = x"
| "join sep (x # y # ys) = x @ sep @ join sep (y # ys)"

text \<open>
  Decimals, dates and datetimes are not JSON serializable, so the encoder calls
  \<^verbatim>\<open>default\<close>, here \<^verbatim>\<open>str\<close>, and encodes the string it returns. A member of a
  \<^verbatim>\<open>(str, Enum)\<close> class is a \<^verbatim>\<open>str\<close> and is encoded as its value.
\<close>

fun dumps :: "nat \<Rightarrow> py \<Rightarrow> string" where
  "dumps lvl PyNone = ''null''"
| "dumps lvl (PyBool b) = (if b then ''true'' else ''false'')"
| "dumps lvl (PyInt i) = show_int i"
| "dumps lvl (PyStr s) = encode_str s"
| "dumps lvl (PyEnum s) = encode_str s"
| "dumps lvl (PyDecimal d) = encode_str (decimal_str d)"
| "dumps lvl (PyDate d) = encode_str (date_isoformat d)"
| "dumps lvl (PyDateTime t) = encode_str (datetime_str t)"
| "dumps lvl (PyList xs) =
     (if xs = [] then ''[]''
      else ''['' @ newline_indent (Suc lvl)
           @ join ('','' @ newline_indent (Suc lvl)) (map (dumps (Suc lvl)) xs)
           @ newline_indent lvl @ '']'')"
| "dumps lvl (PyDict kvs) =
     (if kvs = [] then ''{}''
      else ''{'' @ newline_indent (Suc lvl)
           @ join ('','' @ newline_indent (Suc lvl))
               (map (\<lambda>kv. encode_str (fst kv) @ '': '' @ dumps (Suc lvl) (snd kv)) kvs)
           @ newline_indent lvl @ ''}'')"

definition json_dumps :: "py \<Rightarrow> string" where
  "json_dumps obj = dumps 0 obj"

section \<open>The directed graph\<close>

text \<open>
  \<^verbatim>\<open>networkx.DiGraph\<close> keeps two insertion-ordered dictionaries: the node attributes
  (\<^verbatim>\<open>_node\<close>) and, for each node, its successors (\<^verbatim>\<open>_succ\<close>).
\<close>

record digraph =
  g_node :: "(string \<times> (string \<times> py) list) list"
  g_succ :: "(string \<times> string list) list"

definition DiGraph :: digraph where
  "DiGraph = \<lparr>g_node = [], g_succ = []\<rparr>"

definition add_node :: "string \<Rightarrow> (string \<times> py) list \<Rightarrow> digraph \<Rightarrow> digraph" where
  "add_node n attr G =
     (if n \<notin> set (dict_keys (g_succ G))
      then G\<lparr>g_succ := g_succ G @ [(n, [])], g_node := g_node G @ [(n, dict_update [] attr)]\<rparr>
      else G\<lparr>g_node := dict_set n
                 (dict_update (case map_of (g_node G) n of None \<Rightarrow> [] | Some d \<Rightarrow> d) attr)
                 (g_node G)\<rparr>)"

definition add_edge :: "string \<Rightarrow> string \<Rightarrow> digraph \<Rightarrow> digraph" where
  "add_edge u v G =
     (let G1 = (if u \<notin> set (dict_keys (g_succ G)) then add_node u [] G else G);
          G2 = (if v \<notin> set (dict_keys (g_succ G1)) then add_node v [] G1 else G1);
          nbrs = (case map_of (g_succ G2) u of None \<Rightarrow> [] | Some vs \<Rightarrow> vs)
      in G2\<lparr>g_succ := dict_set u (if v \<in> set nbrs then nbrs else nbrs @ [v]) (g_succ G2)\<rparr>)"

definition add_edges_from :: "(string \<times> string) list \<Rightarrow> digraph \<Rightarrow> digraph" where
  "add_edges_from es G = foldl (\<lambda>acc e. add_edge (fst e) (snd e) acc) G es"

text \<open>\<^verbatim>\<open>G.nodes(data=True)\<close> and \<^verbatim>\<open>G.edges()\<close>.\<close>

definition nodes_data :: "digraph \<Rightarrow> (string \<times> (string \<times> py) list) list" where
  "nodes_data G = g_node G"

definition edges :: "digraph \<Rightarrow> (string \<times> string) list" where
  "edges G = concat (map (\<lambda>(u, vs). map (\<lambda>v. (u, v)) vs) (g_succ G))"

section \<open>Entity models\<close>

subsection \<open>Field declarations\<close>

text \<open>
  Every entity class is a pydantic \<^verbatim>\<open>BaseModel\<close>: a list of annotated fields, each with a
  type, whether it is \<^verbatim>\<open>Optional\<close>, a default and the constraints given to
  \<^verbatim>\<open>Field(...)\<close>; and the class constant \<^verbatim>\<open>MINIMAL_FIELDS\<close> of its mixin.
\<close>

datatype ftype = TInt | TStr | TBool | TDecimal | TDate | TDateTime
  | TEnum "string list" | TLiteral "string list"

datatype fdefault = Required | Default py | DefaultFactoryNow

datatype constraint = Gt int | Ge int | MaxLength nat | MaxDigits nat | DecimalPlaces nat

datatype field = Field (f_name: string) (f_type: ftype) (f_optional: bool)
  (f_default: fdefault) (f_constraints: "constraint list")

datatype model = Model (m_name: string) (m_fields: "field list") (MINIMAL_FIELDS: "string list")

text \<open>An instance knows its class and holds its attribute dictionary, in declaration order.\<close>

datatype obj = Obj (obj_model: model) (obj_dict: "(string \<times> py) list")

datatype errtype =
    Missing | WrongType | Unparsable | NoneNotAllowed | NotInEnum
  | GreaterThan | GreaterThanEqual | StringTooLong
  | DecimalMaxDigits | DecimalMaxPlaces | DecimalWholeDigits

datatype exn = ValidationError string "(string \<times> errtype) list" | KeyError string

subsection \<open>Reading numbers, dates and timestamps from strings\<close>

definition digit_val :: "char \<Rightarrow> nat option" where
  "digit_val c = map_of (zip ''0123456789'' [0, 1, 2, 3, 4, 5, 6, 7, 8, 9]) c"

definition is_digit :: "char \<Rightarrow> bool" where
  "is_digit c = (digit_val c \<noteq> None)"

definition digits_val :: "string \<Rightarrow> nat" where
  "digits_val s = foldl (\<lambda>a c. 10 * a + (case digit_val c of Some n \<Rightarrow> n | None \<Rightarrow> 0)) 0 s"

definition parse_nat :: "string \<Rightarrow> nat option" where
  "parse_nat s = (if s \<noteq> [] \<and> list_all is_digit s then Some (digits_val s) else None)"

definition parse_exponent :: "string \<Rightarrow> int option" where
  "parse_exponent s =
     (case s of
        [] \<Rightarrow> None
      | c # r \<Rightarrow>
          if c = CHR ''-'' then map_option (\<lambda>n. - int n) (parse_nat r)
          else if c = CHR ''+'' then map_option int (parse_nat r)
          else map_option int (parse_nat s))"

text \<open>
  \<^verbatim>\<open>Decimal(s)\<close> for a numeric string: an optional sign, digits with an optional point
  (at least one digit), an optional exponent. The coefficient is the integer and fraction
  digits together, the exponent is lowered by the number of fraction digits.
\<close>

definition parse_decimal :: "string \<Rightarrow> decimal option" where
  "parse_decimal s =
     (let sign = (case s of [] \<Rightarrow> False | c # _ \<Rightarrow> c = CHR ''-'');
          r = (case s of [] \<Rightarrow> [] | c # t \<Rightarrow> if c = CHR ''-'' \<or> c = CHR ''+'' then t else s);
          mant = takeWhile (\<lambda>c. c \<noteq> CHR ''E'' \<and> c \<noteq> CHR ''e'') r;
          etail = dropWhile (\<lambda>c. c \<noteq> CHR ''E'' \<and> c \<noteq> CHR ''e'') r;
          ip = takeWhile (\<lambda>c. c \<noteq> CHR ''.'') mant;
          fp = (case dropWhile (\<lambda>c. c \<noteq> CHR ''.'') mant of [] \<Rightarrow> [] | _ # f \<Rightarrow> f);
          ex = (case etail of [] \<Rightarrow> Some 0 | _ # e \<Rightarrow> parse_exponent e)
      in if list_all is_digit ip \<and> list_all is_digit fp \<and> (ip \<noteq> [] \<or> fp \<noteq> [])
         then (case ex of
                 None \<Rightarrow> None
               | Some e \<Rightarrow> Some (Decimal sign (digits_val (ip @ fp)) (e - int (length fp))))
         else None)"

definition is_leap :: "nat \<Rightarrow> bool" where
  "is_leap y = (y mod 4 = 0 \<and> (y mod 100 \<noteq> 0 \<or> y mod 400 = 0))"

definition days_in_month :: "nat \<Rightarrow> nat \<Rightarrow> nat" where
  "days_in_month y m =
     (if m = 2 then (if is_leap y then 29 else 28)
      else if m = 4 \<or> m = 6 \<or> m = 9 \<or> m = 11 then 30 else 31)"

definition valid_date :: "date \<Rightarrow> bool" where
  "valid_date d =
     (1 \<le> d_year d \<and> d_year d \<le> 9999 \<and> 1 \<le> d_month d \<and> d_month d \<le> 12
      \<and> 1 \<le> d_day d \<and> d_day d \<le> days_in_month (d_year d) (d_month d))"

definition valid_datetime :: "datetime \<Rightarrow> bool" where
  "valid_datetime t =
     (valid_date (Date (dt_year t) (dt_month t) (dt_day t))
      \<and> dt_hour t < 24 \<and> dt_minute t < 60 \<and> dt_second t < 60 \<and> dt_microsecond t < 1000000)"

text \<open>A date string \<^verbatim>\<open>YYYY-MM-DD\<close>.\<close>

definition parse_date :: "string \<Rightarrow> date option" where
  "parse_date s =
     (if length s = 10 \<and> s ! 4 = CHR ''-'' \<and> s ! 7 = CHR ''-''
      then (case (parse_nat (take 4 s), parse_nat (take 2 (drop 5 s)), parse_nat (drop 8 s)) of
              (Some y, Some m, Some d) \<Rightarrow>
                if valid_date (Date y m d) then Some (Date y m d) else None
            | _ \<Rightarrow> None)
      else None)"

text \<open>
  A timestamp string \<^verbatim>\<open>YYYY-MM-DD\<close>, \<^verbatim>\<open>T\<close> or a space, \<^verbatim>\<open>HH:MM:SS\<close>, and optionally a point
  and one to six fraction digits.
\<close>

definition parse_datetime :: "string \<Rightarrow> datetime option" where
  "parse_datetime s =
     (let ds = take 10 s; rest = drop 11 s; hms = take 8 rest; frac = drop 8 rest
      in if length s \<ge> 19 \<and> (s ! 10 = CHR ''T'' \<or> s ! 10 = CHR '' '')
            \<and> hms ! 2 = CHR '':'' \<and> hms ! 5 = CHR '':''
         then (case (parse_date ds, parse_nat (take 2 hms), parse_nat (take 2 (drop 3 hms)),
                     parse_nat (drop 6 hms),
                     (case frac of
                        [] \<Rightarrow> Some 0
                      | c # fs \<Rightarrow>
                          if c = CHR ''.'' \<and> length fs \<le> 6
                          then map_option (\<lambda>n. n * 10 ^ (6 - length fs)) (parse_nat fs)
                          else None)) of
                 (Some d, Some h, Some mi, Some sec, Some us) \<Rightarrow>
                   if h < 24 \<and> mi < 60 \<and> sec < 60
                   then Some (DateTime (d_year d) (d_month d) (d_day d) h mi sec us) else None
               | _ \<Rightarrow> None)
         else None)"

subsection \<open>Validation\<close>

text \<open>
  Validation of one input against a field type. The inputs covered are an \<^verbatim>\<open>int\<close>, a
  \<^verbatim>\<open>str\<close>, a \<^verbatim>\<open>bool\<close>, and a value of the field's own Python type; a string is read for a decimal,
  date, timestamp or enumeration field as it is when the input comes from JSON. Any other
  combination is reported as a type error here.
\<close>

definition validate_type :: "ftype \<Rightarrow> py \<Rightarrow> errtype + py" where
  "validate_type t v =
     (case t of
        TInt \<Rightarrow> (case v of PyInt i \<Rightarrow> Inr (PyInt i) | _ \<Rightarrow> Inl WrongType)
      | TStr \<Rightarrow> (case v of PyStr s \<Rightarrow> Inr (PyStr s) | _ \<Rightarrow> Inl WrongType)
      | TBool \<Rightarrow> (case v of PyBool b \<Rightarrow> Inr (PyBool b) | _ \<Rightarrow> Inl WrongType)
      | TDecimal \<Rightarrow>
          (case v of
             PyDecimal d \<Rightarrow> Inr (PyDecimal d)
           | PyInt i \<Rightarrow> Inr (PyDecimal (Decimal (i < 0) (nat \<bar>i\<bar>) 0))
           | PyStr s \<Rightarrow>
               (case parse_decimal s of None \<Rightarrow> Inl Unparsable | Some d \<Rightarrow> Inr (PyDecimal d))
           | _ \<Rightarrow> Inl WrongType)
      | TDate \<Rightarrow>
          (case v of
             PyDate d \<Rightarrow> Inr (PyDate d)
           | PyStr s \<Rightarrow>
               (case parse_date s of None \<Rightarrow> Inl Unparsable | Some d \<Rightarrow> Inr (PyDate d))
           | _ \<Rightarrow> Inl WrongType)
      | TDateTime \<Rightarrow>
          (case v of
             PyDateTime d \<Rightarrow> Inr (PyDateTime d)
           | PyStr s \<Rightarrow>
               (case parse_datetime s of None \<Rightarrow> Inl Unparsable | Some d \<Rightarrow> Inr (PyDateTime d))
           | _ \<Rightarrow> Inl WrongType)
      | TEnum vs \<Rightarrow>
          (case v of
             PyEnum s \<Rightarrow> if s \<in> set vs then Inr (PyEnum s) else Inl NotInEnum
           | PyStr s \<Rightarrow> if s \<in> set vs then Inr (PyEnum s) else Inl NotInEnum
           | _ \<Rightarrow> Inl WrongType)
      | TLiteral vs \<Rightarrow>
          (case v of
             PyStr s \<Rightarrow> if s \<in> set vs then Inr (PyStr s) else Inl NotInEnum
           | _ \<Rightarrow> Inl WrongType))"

text \<open>
  The digits and decimal places of a decimal as the \<^verbatim>\<open>max_digits\<close> and
  \<^verbatim>\<open>decimal_places\<close> constraints count them: a positive exponent adds that many digits;
  a negative exponent gives the decimal places, and at least that many digits. Trailing
  zeros of the coefficient are not counted (the value is normalized first).
\<close>

function strip_zeros :: "nat \<Rightarrow> int \<Rightarrow> nat \<times> int" where
  "strip_zeros c e = (if c \<noteq> 0 \<and> c mod 10 = 0 then strip_zeros (c div 10) (e + 1) else (c, e))"
  by pat_completeness auto
termination
  by (relation "measure fst") auto

declare strip_zeros.simps [simp del]

definition normalize :: "decimal \<Rightarrow> decimal" where
  "normalize d =
     (if dec_int d = 0 then Decimal (dec_sign d) 0 0
      else (case strip_zeros (dec_int d) (dec_exp d) of (c, e) \<Rightarrow> Decimal (dec_sign d) c e))"

definition digits_info :: "decimal \<Rightarrow> nat \<times> nat" where
  "digits_info d =
     (let n = length (show_nat (dec_int d))
      in if dec_exp d \<ge> 0 then (n + nat (dec_exp d), 0)
         else (max n (nat (- dec_exp d)), nat (- dec_exp d)))"

definition max_digits_of :: "constraint list \<Rightarrow> nat option" where
  "max_digits_of cs = (case [n. MaxDigits n \<leftarrow> cs] of [] \<Rightarrow> None | n # _ \<Rightarrow> Some n)"

definition check_constraint :: "constraint list \<Rightarrow> constraint \<Rightarrow> py \<Rightarrow> errtype option" where
  "check_constraint cs c v =
     (case c of
        Gt n \<Rightarrow> (case v of PyInt i \<Rightarrow> if i > n then None else Some GreaterThan | _ \<Rightarrow> None)
      | Ge n \<Rightarrow> (case v of PyInt i \<Rightarrow> if i \<ge> n then None else Some GreaterThanEqual | _ \<Rightarrow> None)
      | MaxLength n \<Rightarrow>
          (case v of PyStr s \<Rightarrow> if length s \<le> n then None else Some StringTooLong | _ \<Rightarrow> None)
      | MaxDigits n \<Rightarrow>
          (case v of
             PyDecimal d \<Rightarrow>
               if fst (digits_info (normalize d)) > n then Some DecimalMaxDigits else None
           | _ \<Rightarrow> None)
      | DecimalPlaces p \<Rightarrow>
          (case v of
             PyDecimal d \<Rightarrow>
               if snd (digits_info (normalize d)) > p then Some DecimalMaxPlaces
               else (case max_digits_of cs of
                       None \<Rightarrow> None
                     | Some m \<Rightarrow>
                         if fst (digits_info d) - snd (digits_info d) > m - p
                         then Some DecimalWholeDigits else None)
           | _ \<Rightarrow> None))"

fun check_constraints :: "constraint list \<Rightarrow> constraint list \<Rightarrow> py \<Rightarrow> errtype option" where
  "check_constraints cs [] v = None"
| "check_constraints cs (c # rest) v =
     (case check_constraint cs c v of Some e \<Rightarrow> Some e | None \<Rightarrow> check_constraints cs rest v)"

definition validate_field :: "field \<Rightarrow> py \<Rightarrow> errtype + py" where
  "validate_field f v =
     (if v = PyNone then (if f_optional f then Inr PyNone else Inl NoneNotAllowed)
      else (case validate_type (f_type f) v of
              Inl e \<Rightarrow> Inl e
            | Inr v' \<Rightarrow>
                (case check_constraints (f_constraints f) (f_constraints f) v' of
                   Some e \<Rightarrow> Inl e
                 | None \<Rightarrow> Inr v')))"

text \<open>
  The value of one field at construction: the validated input when the keyword is given,
  otherwise the default (which is not validated), and for
  \<^verbatim>\<open>default_factory=datetime.datetime.now\<close> the reading of the clock that this call makes.
  A required field without input is an error.
\<close>

definition field_value :: "(string \<Rightarrow> datetime) \<Rightarrow> (string \<times> py) list \<Rightarrow> field \<Rightarrow> errtype + py" where
  "field_value now kw f =
     (case map_of kw (f_name f) of
        Some v \<Rightarrow> validate_field f v
      | None \<Rightarrow>
          (case f_default f of
             Required \<Rightarrow> Inl Missing
           | Default v \<Rightarrow> Inr v
           | DefaultFactoryNow \<Rightarrow> Inr (PyDateTime (now (f_name f)))))"

fun collect :: "(string \<times> (errtype + py)) list \<Rightarrow> (string \<times> errtype) list \<times> (string \<times> py) list" where
  "collect [] = ([], [])"
| "collect ((n, Inl e) # rs) = (case collect rs of (es, vs) \<Rightarrow> ((n, e) # es, vs))"
| "collect ((n, Inr v) # rs) = (case collect rs of (es, vs) \<Rightarrow> (es, (n, v) # vs))"

text \<open>
  The constructor \<^verbatim>\<open>Cls(**kw)\<close>: every field is validated, keywords that name no field
  are ignored, and one \<^verbatim>\<open>ValidationError\<close> lists all the errors found.
\<close>

definition construct :: "model \<Rightarrow> (string \<Rightarrow> datetime) \<Rightarrow> (string \<times> py) list \<Rightarrow> exn + obj" where
  "construct M now kw =
     (case collect (map (\<lambda>f. (f_name f, field_value now kw f)) (m_fields M)) of
        (es, vs) \<Rightarrow> if es = [] then Inr (Obj M vs) else Inl (ValidationError (m_name M) es))"

subsection \<open>Serialization and the minimal projection\<close>

text \<open>\<^verbatim>\<open>model_dump()\<close>: the attribute dictionary, values as Python objects.\<close>

definition model_dump :: "obj \<Rightarrow> (string \<times> py) list" where
  "model_dump x = obj_dict x"

text \<open>
  A value as it is after \<^verbatim>\<open>model_dump_json\<close> and \<^verbatim>\<open>json.loads\<close>: a decimal becomes the
  string \<^verbatim>\<open>str(d)\<close>, a date or timestamp its \<^verbatim>\<open>isoformat()\<close>, an enum member its value.
\<close>

fun json_value :: "py \<Rightarrow> py" where
  "json_value (PyDecimal d) = PyStr (decimal_str d)"
| "json_value (PyDate d) = PyStr (date_isoformat d)"
| "json_value (PyDateTime t) = PyStr (datetime_isoformat t)"
| "json_value (PyEnum s) = PyStr s"
| "json_value v = v"

text \<open>
  \<^verbatim>\<open>json.loads(x.model_dump_json(include=S))\<close>: the fields of the class in declaration
  order, those whose name is in \<open>S\<close>.
\<close>

definition model_dump_json :: "string list option \<Rightarrow> obj \<Rightarrow> (string \<times> py) list" where
  "model_dump_json incl x =
     map (\<lambda>(k, v). (k, json_value v))
       (filter (\<lambda>(k, v). case incl of None \<Rightarrow> True | Some S \<Rightarrow> k \<in> set S) (obj_dict x))"

definition to_minimal_dict :: "obj \<Rightarrow> (string \<times> py) list" where
  "to_minimal_dict x = model_dump_json (Some (MINIMAL_FIELDS (obj_model x))) x"

text \<open>
  The mixins of \<^verbatim>\<open>AdjustAction\<close> and \<^verbatim>\<open>PlanAction\<close> return
  \<^verbatim>\<open>self.model_dump(include=self.MINIMAL_FIELDS)\<close> instead.
\<close>

definition to_minimal_dict_dump :: "obj \<Rightarrow> (string \<times> py) list" where
  "to_minimal_dict_dump x =
     filter (\<lambda>(k, v). k \<in> set (MINIMAL_FIELDS (obj_model x))) (model_dump x)"

section \<open>The entity classes of the demo\<close>

text \<open>\<^verbatim>\<open>billing_entity.py\<close>\<close>

definition EntityType :: "string list" where
  "EntityType = [''MERCHANT'', ''RESELLER'', ''DEVELOPER'', ''PSEUDO'', ''ARCHETYPE'']"

definition BillingEntity :: model where
  "BillingEntity = Model ''BillingEntity''
     [Field ''id'' TInt False Required [Gt 0],
      Field ''uuid'' TStr False Required [MaxLength 26],
      Field ''entity_uuid'' TStr False Required [MaxLength 13],
      Field ''entity_type'' (TEnum EntityType) False Required [],
      Field ''name'' TStr True (Default PyNone) [MaxLength 127],
      Field ''created_timestamp'' TDateTime False DefaultFactoryNow [],
      Field ''modified_timestamp'' TDateTime False DefaultFactoryNow []]
     [''entity_type'', ''name'']"

text \<open>\<^verbatim>\<open>fee_rate.py\<close>\<close>

definition ApplyType :: "string list" where
  "ApplyType = [''DEFAULT'', ''PER_ITEM'', ''PERCENTAGE'', ''BOTH'', ''NONE'', ''FLAT'']"

definition FeeRate :: model where
  "FeeRate = Model ''FeeRate''
     [Field ''id'' TInt False Required [Gt 0],
      Field ''uuid'' TStr False Required [MaxLength 26],
      Field ''billing_entity_uuid'' TStr False Required [MaxLength 26],
      Field ''fee_category'' TStr False Required [MaxLength 25],
      Field ''fee_code'' TStr False Required [MaxLength 25],
      Field ''currency'' TStr False Required [MaxLength 3],
      Field ''effective_date'' TDate False Required [],
      Field ''apply_type'' (TEnum ApplyType) False Required [],
      Field ''per_item_amount'' TDecimal True (Default PyNone) [MaxDigits 12, DecimalPlaces 3],
      Field ''percentage'' TDecimal True (Default PyNone) [MaxDigits 5, DecimalPlaces 2],
      Field ''created_timestamp'' TDateTime False DefaultFactoryNow [],
      Field ''modified_timestamp'' TDateTime False DefaultFactoryNow [],
      Field ''audit_id'' TStr True (Default PyNone) [MaxLength 26]]
     [''fee_category'', ''fee_code'', ''currency'', ''apply_type'', ''per_item_amount'',
      ''percentage'', ''effective_date'']"

text \<open>\<^verbatim>\<open>fee_summary.py\<close>\<close>

definition FeeSummary :: model where
  "FeeSummary = Model ''FeeSummary''
     [Field ''id'' TInt False Required [Gt 0],
      Field ''uuid'' TStr False Required [MaxLength 26],
      Field ''billing_entity_uuid'' TStr False Required [MaxLength 26],
      Field ''billing_date'' TDate False Required [],
      Field ''fee_category'' TStr False Required [MaxLength 25],
      Field ''fee_code'' TStr False Required [MaxLength 25],
      Field ''currency'' TStr False Required [MaxLength 3],
      Field ''total_period_units'' TDecimal False Required [MaxDigits 12, DecimalPlaces 4],
      Field ''abs_period_units'' TDecimal False Required [MaxDigits 12, DecimalPlaces 4],
      Field ''total_basis_amount'' TDecimal False Required [MaxDigits 12, DecimalPlaces 3],
      Field ''abs_basis_amount'' TDecimal False Required [MaxDigits 12, DecimalPlaces 3],
      Field ''total_fee_amount'' TDecimal False Required [MaxDigits 12, DecimalPlaces 3],
      Field ''fee_rate_uuid'' TStr False Required [MaxLength 26],
      Field ''request_uuid'' TStr False Required [MaxLength 26],
      Field ''invoice_info_uuid'' TStr True (Default PyNone) [MaxLength 26],
      Field ''fee_code_ledger_account_uuid'' TStr True (Default PyNone) [MaxLength 26],
      Field ''credit_ledger_account_uuid'' TStr True (Default PyNone) [MaxLength 26],
      Field ''debit_ledger_account_uuid'' TStr True (Default PyNone) [MaxLength 26],
      Field ''exclude_from_invoice'' TInt False Required [],
      Field ''created_timestamp'' TDateTime False Required [],
      Field ''modified_timestamp'' TDateTime False Required []]
     [''total_period_units'', ''total_fee_amount'', ''total_basis_amount'']"

text \<open>\<^verbatim>\<open>settlement.py\<close>\<close>

definition Settlement :: model where
  "Settlement = Model ''Settlement''
     [Field ''id'' TInt False Required [Gt 0],
      Field ''uuid'' TStr False Required [MaxLength 26],
      Field ''settlement_date'' TDate False Required [],
      Field ''billing_entity_uuid'' TStr False Required [MaxLength 26],
      Field ''entity_uuid'' TStr False Required [MaxLength 13],
      Field ''alternate_id'' TStr True (Default PyNone) [MaxLength 30],
      Field ''payable_receivable'' (TLiteral [''PAYABLE'', ''RECEIVABLE'']) False Required [],
      Field ''currency'' TStr False Required [MaxLength 3],
      Field ''total_amount'' TDecimal False Required [MaxDigits 12, DecimalPlaces 3],
      Field ''fee_amount'' TDecimal False Required [MaxDigits 12, DecimalPlaces 3],
      Field ''tax1_amount'' TDecimal False (Default (PyDecimal (Decimal False 0 (-3))))
        [MaxDigits 12, DecimalPlaces 3],
      Field ''tax2_amount'' TDecimal False (Default (PyDecimal (Decimal False 0 (-3))))
        [MaxDigits 12, DecimalPlaces 3],
      Field ''tax3_amount'' TDecimal False (Default (PyDecimal (Decimal False 0 (-3))))
        [MaxDigits 12, DecimalPlaces 3],
      Field ''tax4_amount'' TDecimal False (Default (PyDecimal (Decimal False 0 (-3))))
        [MaxDigits 12, DecimalPlaces 3],
      Field ''lookup_ledger_account_key'' TStr False Required [MaxLength 32],
      Field ''gl_code'' TStr True (Default PyNone) [MaxLength 40],
      Field ''item_code'' TStr True (Default PyNone) [MaxLength 30],
      Field ''last_invoice_num'' TStr True (Default PyNone) [MaxLength 30],
      Field ''request_uuid'' TStr True (Default PyNone) [MaxLength 26],
      Field ''created_timestamp'' TDateTime False DefaultFactoryNow [],
      Field ''modified_timestamp'' TDateTime False DefaultFactoryNow []]
     [''settlement_date'', ''payable_receivable'', ''currency'', ''total_amount'', ''fee_amount'']"

text \<open>
  Modelled from the spec: the class \<^verbatim>\<open>InvoiceInfo\<close>, which \<^verbatim>\<open>main.py\<close> imports from
  \<^verbatim>\<open>demo.models.ebb.invoice_info\<close>; that module is not among the sources. The functions
  below take the class as a parameter. This declaration follows the spec's entity pattern
  (numeric identifier, unique string identifier, string references with maximum lengths, a
  decimal amount with three places, a date, a creation timestamp set at construction) over the
  attributes that \<^verbatim>\<open>create_pydantic_objects\<close> passes, with the amount-determining ones
  as the minimal set. It is used where a concrete class is needed to run the program.
\<close>

definition InvoiceInfo :: model where
  "InvoiceInfo = Model ''InvoiceInfo''
     [Field ''id'' TInt False Required [Gt 0],
      Field ''uuid'' TStr False Required [MaxLength 26],
      Field ''billing_entity_uuid'' TStr False Required [MaxLength 26],
      Field ''entity_uuid'' TStr False Required [MaxLength 13],
      Field ''alternate_id'' TStr True (Default PyNone) [MaxLength 30],
      Field ''billing_date'' TDate False Required [],
      Field ''invoice_num'' TStr True (Default PyNone) [MaxLength 30],
      Field ''currency'' TStr False Required [MaxLength 3],
      Field ''total_amount'' TDecimal False Required [MaxDigits 12, DecimalPlaces 3],
      Field ''document_uuid'' TStr True (Default PyNone) [MaxLength 26],
      Field ''request_uuid'' TStr True (Default PyNone) [MaxLength 26],
      Field ''created_timestamp'' TDateTime False DefaultFactoryNow []]
     [''billing_date'', ''invoice_num'', ''currency'', ''total_amount'']"

section \<open>The demo program\<close>

subsection \<open>\<^verbatim>\<open>create_pydantic_objects\<close>: the keyword arguments of the twenty constructor calls\<close>

definition merchant_billing_entity_kwargs :: "(string \<times> py) list" where
  "merchant_billing_entity_kwargs =
     [(''id'', PyInt 1195),
      (''uuid'', PyStr ''JW8H2B9BT6B11R2HHXY3HYQCN6''),
      (''entity_uuid'', PyStr ''062X8PVY3XWB1''),
      (''entity_type'', PyEnum ''MERCHANT''),
      (''name'', PyStr ''MerchantMcMerchantface''),
      (''created_timestamp'', PyDateTime (DateTime 2025 2 26 17 6 39 670150)),
      (''modified_timestamp'', PyDateTime (DateTime 2025 2 26 17 6 39 670150))]"

definition clover_billing_entity_kwargs :: "(string \<times> py) list" where
  "clover_billing_entity_kwargs =
     [(''id'', PyInt 1),
      (''uuid'', PyStr ''M4JT4XQCPWPMW7WGA4G1Z5NGED''),
      (''entity_uuid'', PyStr ''S7VJZXH057ZHC''),
      (''entity_type'', PyEnum ''RESELLER''),
      (''name'', PyStr ''Clover''),
      (''created_timestamp'', PyDateTime (DateTime 2025 1 30 16 37 56 379038)),
      (''modified_timestamp'', PyDateTime (DateTime 2025 1 30 16 37 56 379038))]"

definition us_support_billing_entity_kwargs :: "(string \<times> py) list" where
  "us_support_billing_entity_kwargs =
     [(''id'', PyInt 3),
      (''uuid'', PyStr ''8E7KTPHJRBHP16EQB5RS2P8D0Q''),
      (''entity_uuid'', PyStr ''V9Z9C6EX72SY2''),
      (''entity_type'', PyEnum ''RESELLER''),
      (''name'', PyStr ''US Customer Support''),
      (''created_timestamp'', PyDateTime (DateTime 2025 1 30 16 37 56 379038)),
      (''modified_timestamp'', PyDateTime (DateTime 2025 1 30 16 37 56 379038))]"

definition invoice_info_kwargs :: "(string \<times> py) list" where
  "invoice_info_kwargs =
     [(''id'', PyInt 6200),
      (''uuid'', PyStr ''NFX80F4EH68BEW08384RX7RBMC''),
      (''billing_entity_uuid'', PyStr ''JW8H2B9BT6B11R2HHXY3HYQCN6''),
      (''entity_uuid'', PyStr ''062X8PVY3XWB1''),
      (''alternate_id'', PyStr ''209225173886''),
      (''billing_date'', PyDate (Date 2025 6 1)),
      (''invoice_num'', PyStr ''202506/000006200''),
      (''currency'', PyStr ''USD''),
      (''total_amount'', PyDecimal (Decimal False 25883 (-2))),
      (''document_uuid'', PyStr ''RED0GSNS27W2XG1FQ25VVFEEXH''),
      (''request_uuid'', PyStr ''CW6456TXW4N934RVY27G5E5CDB''),
      (''created_timestamp'', PyDateTime (DateTime 2025 6 2 15 6 43 378289))]"

definition fee_rate_1_kwargs :: "(string \<times> py) list" where
  "fee_rate_1_kwargs =
     [(''id'', PyInt 267888),
      (''uuid'', PyStr ''J65DRB7XHQQ1RTYJSBSTQQBW7K''),
      (''billing_entity_uuid'', PyStr ''M4JT4XQCPWPMW7WGA4G1Z5NGED''),
      (''fee_category'', PyStr ''APP_SUB_3P_RETAIL''),
      (''fee_code'', PyStr ''MW63DAWPN6JGY.S''),
      (''currency'', PyStr ''USD''),
      (''effective_date'', PyDate (Date 2017 2 15)),
      (''apply_type'', PyEnum ''PER_ITEM''),
      (''per_item_amount'', PyDecimal (Decimal False 999 (-2))),
      (''percentage'', PyNone),
      (''created_timestamp'', PyDateTime (DateTime 2025 2 25 19 36 38 626269)),
      (''modified_timestamp'', PyDateTime (DateTime 2025 2 25 19 36 38 626269)),
      (''audit_id'', PyNone)]"

definition fee_rate_2_kwargs :: "(string \<times> py) list" where
  "fee_rate_2_kwargs =
     [(''id'', PyInt 272274),
      (''uuid'', PyStr ''82G1K56V4V17DXXQHGMR3C328W''),
      (''billing_entity_uuid'', PyStr ''M4JT4XQCPWPMW7WGA4G1Z5NGED''),
      (''fee_category'', PyStr ''APP_SUB_3P_RETAIL''),
      (''fee_code'', PyStr ''E2ATEB4GHYFCE.S''),
      (''currency'', PyStr ''USD''),
      (''effective_date'', PyDate (Date 2016 2 9)),
      (''apply_type'', PyEnum ''PER_ITEM''),
      (''per_item_amount'', PyDecimal (Decimal False 5999 (-2))),
      (''percentage'', PyNone),
      (''created_timestamp'', PyDateTime (DateTime 2025 2 25 19 41 8 122154)),
      (''modified_timestamp'', PyDateTime (DateTime 2025 2 25 19 41 8 122154)),
      (''audit_id'', PyNone)]"

definition fee_rate_3_kwargs :: "(string \<times> py) list" where
  "fee_rate_3_kwargs =
     [(''id'', PyInt 244655),
      (''uuid'', PyStr ''VWH1Q0V9SS6FNRD48BYZB9YA9A''),
      (''billing_entity_uuid'', PyStr ''M4JT4XQCPWPMW7WGA4G1Z5NGED''),
      (''fee_category'', PyStr ''APP_SUB_3P_RETAIL''),
      (''fee_code'', PyStr ''BCMPKE5Z10A38.S''),
      (''currency'', PyStr ''USD''),
      (''effective_date'', PyDate (Date 2017 2 17)),
      (''apply_type'', PyEnum ''PER_ITEM''),
      (''per_item_amount'', PyDecimal (Decimal False 99 0)),
      (''percentage'', PyNone),
      (''created_timestamp'', PyDateTime (DateTime 2025 2 25 19 5 31 108052)),
      (''modified_timestamp'', PyDateTime (DateTime 2025 2 25 19 5 31 108052)),
      (''audit_id'', PyNone)]"

definition fee_rate_4_kwargs :: "(string \<times> py) list" where
  "fee_rate_4_kwargs =
     [(''id'', PyInt 173),
      (''uuid'', PyStr ''2G767D60KKG18208768S4C1HM8''),
      (''billing_entity_uuid'', PyStr ''8E7KTPHJRBHP16EQB5RS2P8D0Q''),
      (''fee_category'', PyStr ''DEVICE_RETAIL''),
      (''fee_code'', PyStr ''RegisterPDVT''),
      (''currency'', PyStr ''USD''),
      (''effective_date'', PyDate (Date 2025 1 1)),
      (''apply_type'', PyEnum ''PER_ITEM''),
      (''per_item_amount'', PyDecimal (Decimal False 1995 (-2))),
      (''percentage'', PyNone),
      (''created_timestamp'', PyDateTime (DateTime 2025 1 30 16 38 2 379723)),
      (''modified_timestamp'', PyDateTime (DateTime 2025 1 30 16 38 33 706835)),
      (''audit_id'', PyStr ''STEKRDE0YS244'')]"

definition fee_rate_5_kwargs :: "(string \<times> py) list" where
  "fee_rate_5_kwargs =
     [(''id'', PyInt 193),
      (''uuid'', PyStr ''KG9ABT30FRKVX39VRV82CBDKJF''),
      (''billing_entity_uuid'', PyStr ''8E7KTPHJRBHP16EQB5RS2P8D0Q''),
      (''fee_category'', PyStr ''DEVICE_RETAIL_MOD''),
      (''fee_code'', PyStr ''RegisterPDVTIncl1st''),
      (''currency'', PyStr ''USD''),
      (''effective_date'', PyDate (Date 2025 1 1)),
      (''apply_type'', PyEnum ''PER_ITEM''),
      (''per_item_amount'', PyDecimal (Decimal True 1995 (-2))),
      (''percentage'', PyNone),
      (''created_timestamp'', PyDateTime (DateTime 2025 1 30 16 38 2 480183)),
      (''modified_timestamp'', PyDateTime (DateTime 2025 1 30 16 38 33 706835)),
      (''audit_id'', PyStr ''STEKRDE0YS244'')]"

definition fee_rate_6_kwargs :: "(string \<times> py) list" where
  "fee_rate_6_kwargs =
     [(''id'', PyInt 169),
      (''uuid'', PyStr ''DF6FE39FRQHVXJKVVN9WTDSGWX''),
      (''billing_entity_uuid'', PyStr ''8E7KTPHJRBHP16EQB5RS2P8D0Q''),
      (''fee_category'', PyStr ''PLAN_RETAIL''),
      (''fee_code'', PyStr ''RegisterPDVT''),
      (''currency'', PyStr ''USD''),
      (''effective_date'', PyDate (Date 2025 1 1)),
      (''apply_type'', PyEnum ''PER_ITEM''),
      (''per_item_amount'', PyDecimal (Decimal False 4995 (-2))),
      (''percentage'', PyNone),
      (''created_timestamp'', PyDateTime (DateTime 2025 1 30 16 38 2 359401)),
      (''modified_timestamp'', PyDateTime (DateTime 2025 1 30 16 38 33 706835)),
      (''audit_id'', PyStr ''STEKRDE0YS244'')]"

definition fee_summary_1_kwargs :: "(string \<times> py) list" where
  "fee_summary_1_kwargs =
     [(''id'', PyInt 74347),
      (''uuid'', PyStr ''K576N1W35XYEVW7VH1JVDY1XRT''),
      (''billing_entity_uuid'', PyStr ''JW8H2B9BT6B11R2HHXY3HYQCN6''),
      (''billing_date'', PyDate (Date 2025 6 1)),
      (''fee_category'', PyStr ''APP_SUB_3P_RETAIL''),
      (''fee_code'', PyStr ''MW63DAWPN6JGY.S''),
      (''currency'', PyStr ''USD''),
      (''total_period_units'', PyDecimal (Decimal False 1 0)),
      (''abs_period_units'', PyDecimal (Decimal False 1 0)),
      (''total_basis_amount'', PyDecimal (Decimal False 0 0)),
      (''abs_basis_amount'', PyDecimal (Decimal False 0 0)),
      (''total_fee_amount'', PyDecimal (Decimal False 999 (-2))),
      (''fee_rate_uuid'', PyStr ''J65DRB7XHQQ1RTYJSBSTQQBW7K''),
      (''request_uuid'', PyStr ''KNFZA2P2E2KMGKMATSY1RSD8TY''),
      (''invoice_info_uuid'', PyStr ''NFX80F4EH68BEW08384RX7RBMC''),
      (''fee_code_ledger_account_uuid'', PyStr ''DMW4K1XGB16DAEQ2ZRSJACE1WS''),
      (''credit_ledger_account_uuid'', PyStr ''KBERX62EJMWD8KEVFZRX0H875Z''),
      (''debit_ledger_account_uuid'', PyStr ''5XNJ7KBDBGNKVRFZYMCZJ6G5E7''),
      (''exclude_from_invoice'', PyInt 0),
      (''created_timestamp'', PyDateTime (DateTime 2025 6 2 14 56 15 960436)),
      (''modified_timestamp'', PyDateTime (DateTime 2025 6 2 15 6 43 387646))]"

definition fee_summary_2_kwargs :: "(string \<times> py) list" where
  "fee_summary_2_kwargs =
     [(''id'', PyInt 74345),
      (''uuid'', PyStr ''4FM5SS3WW7WT7GZZWFMSS9YQP6''),
      (''billing_entity_uuid'', PyStr ''JW8H2B9BT6B11R2HHXY3HYQCN6''),
      (''billing_date'', PyDate (Date 2025 6 1)),
      (''fee_category'', PyStr ''APP_SUB_3P_RETAIL''),
      (''fee_code'', PyStr ''E2ATEB4GHYFCE.S''),
      (''currency'', PyStr ''USD''),
      (''total_period_units'', PyDecimal (Decimal False 1 0)),
      (''abs_period_units'', PyDecimal (Decimal False 1 0)),
      (''total_basis_amount'', PyDecimal (Decimal False 0 0)),
      (''abs_basis_amount'', PyDecimal (Decimal False 0 0)),
      (''total_fee_amount'', PyDecimal (Decimal False 5999 (-2))),
      (''fee_rate_uuid'', PyStr ''82G1K56V4V17DXXQHGMR3C328W''),
      (''request_uuid'', PyStr ''KNFZA2P2E2KMGKMATSY1RSD8TY''),
      (''invoice_info_uuid'', PyStr ''NFX80F4EH68BEW08384RX7RBMC''),
      (''fee_code_ledger_account_uuid'', PyStr ''2V1BQ7YMC6PJXESE3YA57EW31Q''),
      (''credit_ledger_account_uuid'', PyStr ''15WVBBCPN56BD7EGE5STR2R1EW''),
      (''debit_ledger_account_uuid'', PyStr ''2MV95DFMWYJ1KZZBGS3HX8F9XN''),
      (''exclude_from_invoice'', PyInt 0),
      (''created_timestamp'', PyDateTime (DateTime 2025 6 2 14 56 15 949495)),
      (''modified_timestamp'', PyDateTime (DateTime 2025 6 2 15 6 43 387646))]"

definition fee_summary_3_kwargs :: "(string \<times> py) list" where
  "fee_summary_3_kwargs =
     [(''id'', PyInt 74341),
      (''uuid'', PyStr ''MH2Q9759T1FKMP887PMRQFMV9R''),
      (''billing_entity_uuid'', PyStr ''JW8H2B9BT6B11R2HHXY3HYQCN6''),
      (''billing_date'', PyDate (Date 2025 6 1)),
      (''fee_category'', PyStr ''APP_SUB_3P_RETAIL''),
      (''fee_code'', PyStr ''BCMPKE5Z10A38.S''),
      (''currency'', PyStr ''USD''),
      (''total_period_units'', PyDecimal (Decimal False 1 0)),
      (''abs_period_units'', PyDecimal (Decimal False 1 0)),
      (''total_basis_amount'', PyDecimal (Decimal False 0 0)),
      (''abs_basis_amount'', PyDecimal (Decimal False 0 0)),
      (''total_fee_amount'', PyDecimal (Decimal False 99 0)),
      (''fee_rate_uuid'', PyStr ''VWH1Q0V9SS6FNRD48BYZB9YA9A''),
      (''request_uuid'', PyStr ''KNFZA2P2E2KMGKMATSY1RSD8TY''),
      (''invoice_info_uuid'', PyStr ''NFX80F4EH68BEW08384RX7RBMC''),
      (''fee_code_ledger_account_uuid'', PyStr ''AHZXC23GACNTQNYCX9S14PG914''),
      (''credit_ledger_account_uuid'', PyStr ''7FQZ30FPEWWM5MV65RY0ZB5D3G''),
      (''debit_ledger_account_uuid'', PyStr ''9X9TF60JDBMZQ7A0FHHK7E14W3''),
      (''exclude_from_invoice'', PyInt 0),
      (''created_timestamp'', PyDateTime (DateTime 2025 6 2 14 56 15 922833)),
      (''modified_timestamp'', PyDateTime (DateTime 2025 6 2 15 6 43 387646))]"

definition fee_summary_4_kwargs :: "(string \<times> py) list" where
  "fee_summary_4_kwargs =
     [(''id'', PyInt 74349),
      (''uuid'', PyStr ''VC74T4AJ9R5X148DSRS95R5PF3''),
      (''billing_entity_uuid'', PyStr ''JW8H2B9BT6B11R2HHXY3HYQCN6''),
      (''billing_date'', PyDate (Date 2025 6 1)),
      (''fee_category'', PyStr ''DEVICE_RETAIL''),
      (''fee_code'', PyStr ''RegisterPDVT''),
      (''currency'', PyStr ''USD''),
      (''total_period_units'', PyDecimal (Decimal False 3 0)),
      (''abs_period_units'', PyDecimal (Decimal False 3 0)),
      (''total_basis_amount'', PyDecimal (Decimal False 0 0)),
      (''abs_basis_amount'', PyDecimal (Decimal False 0 0)),
      (''total_fee_amount'', PyDecimal (Decimal False 5985 (-2))),
      (''fee_rate_uuid'', PyStr ''2G767D60KKG18208768S4C1HM8''),
      (''request_uuid'', PyStr ''KNFZA2P2E2KMGKMATSY1RSD8TY''),
      (''invoice_info_uuid'', PyStr ''NFX80F4EH68BEW08384RX7RBMC''),
      (''fee_code_ledger_account_uuid'', PyStr ''JZ4Q82HKC14JDAE8YYZZYWKB0X''),
      (''credit_ledger_account_uuid'', PyStr ''HSMJRPH5WVCCV4WKW04CX6ZJG5''),
      (''debit_ledger_account_uuid'', PyStr ''62PXBE9JK6QXA65WHY3G5G0K01''),
      (''exclude_from_invoice'', PyInt 0),
      (''created_timestamp'', PyDateTime (DateTime 2025 6 2 14 56 15 973521)),
      (''modified_timestamp'', PyDateTime (DateTime 2025 6 2 15 6 43 387646))]"

definition fee_summary_5_kwargs :: "(string \<times> py) list" where
  "fee_summary_5_kwargs =
     [(''id'', PyInt 74350),
      (''uuid'', PyStr ''9VEDCKTVN2PTAYAQ8TCQV3ZNGZ''),
      (''billing_entity_uuid'', PyStr ''JW8H2B9BT6B11R2HHXY3HYQCN6''),
      (''billing_date'', PyDate (Date 2025 6 1)),
      (''fee_category'', PyStr ''DEVICE_RETAIL_MOD''),
      (''fee_code'', PyStr ''RegisterPDVTIncl1st''),
      (''currency'', PyStr ''USD''),
      (''total_period_units'', PyDecimal (Decimal False 1 0)),
      (''abs_period_units'', PyDecimal (Decimal False 1 0)),
      (''total_basis_amount'', PyDecimal (Decimal False 0 0)),
      (''abs_basis_amount'', PyDecimal (Decimal False 0 0)),
      (''total_fee_amount'', PyDecimal (Decimal True 1995 (-2))),
      (''fee_rate_uuid'', PyStr ''KG9ABT30FRKVX39VRV82CBDKJF''),
      (''request_uuid'', PyStr ''KNFZA2P2E2KMGKMATSY1RSD8TY''),
      (''invoice_info_uuid'', PyStr ''NFX80F4EH68BEW08384RX7RBMC''),
      (''fee_code_ledger_account_uuid'', PyStr ''H1HH56GWY4VWTDP6VQ3977EKNG''),
      (''credit_ledger_account_uuid'', PyStr ''2SNQPEXR2T0PX6Y36NWQSRZNRJ''),
      (''debit_ledger_account_uuid'', PyStr ''62PXBE9JK6QXA65WHY3G5G0K01''),
      (''exclude_from_invoice'', PyInt 0),
      (''created_timestamp'', PyDateTime (DateTime 2025 6 2 14 56 15 979936)),
      (''modified_timestamp'', PyDateTime (DateTime 2025 6 2 15 6 43 387646))]"

definition fee_summary_6_kwargs :: "(string \<times> py) list" where
  "fee_summary_6_kwargs =
     [(''id'', PyInt 74351),
      (''uuid'', PyStr ''FD7GD3YK93ZZS4C1DA6C7W9AER''),
      (''billing_entity_uuid'', PyStr ''JW8H2B9BT6B11R2HHXY3HYQCN6''),
      (''billing_date'', PyDate (Date 2025 6 1)),
      (''fee_category'', PyStr ''PLAN_RETAIL''),
      (''fee_code'', PyStr ''RegisterPDVT''),
      (''currency'', PyStr ''USD''),
      (''total_period_units'', PyDecimal (Decimal False 1 0)),
      (''abs_period_units'', PyDecimal (Decimal False 1 0)),
      (''total_basis_amount'', PyDecimal (Decimal False 0 0)),
      (''abs_basis_amount'', PyDecimal (Decimal False 0 0)),
      (''total_fee_amount'', PyDecimal (Decimal False 4995 (-2))),
      (''fee_rate_uuid'', PyStr ''DF6FE39FRQHVXJKVVN9WTDSGWX''),
      (''request_uuid'', PyStr ''KNFZA2P2E2KMGKMATSY1RSD8TY''),
      (''invoice_info_uuid'', PyStr ''NFX80F4EH68BEW08384RX7RBMC''),
      (''fee_code_ledger_account_uuid'', PyStr ''GCCQKS6H40NBQKS6KC4F31WAZY''),
      (''credit_ledger_account_uuid'', PyStr ''HSMJRPH5WVCCV4WKW04CX6ZJG5''),
      (''debit_ledger_account_uuid'', PyStr ''62PXBE9JK6QXA65WHY3G5G0K01''),
      (''exclude_from_invoice'', PyInt 0),
      (''created_timestamp'', PyDateTime (DateTime 2025 6 2 14 56 15 987500)),
      (''modified_timestamp'', PyDateTime (DateTime 2025 6 2 15 6 43 387646))]"

definition settlement_1_kwargs :: "(string \<times> py) list" where
  "settlement_1_kwargs =
     [(''id'', PyInt 6256),
      (''uuid'', PyStr ''NH8V7V2V0CQ0BWCTGVN6QBV753''),
      (''settlement_date'', PyDate (Date 2025 6 1)),
      (''billing_entity_uuid'', PyStr ''JW8H2B9BT6B11R2HHXY3HYQCN6''),
      (''entity_uuid'', PyStr ''062X8PVY3XWB1''),
      (''alternate_id'', PyStr ''209225173886''),
      (''payable_receivable'', PyStr ''RECEIVABLE''),
      (''currency'', PyStr ''USD''),
      (''total_amount'', PyDecimal (Decimal False 999 (-2))),
      (''fee_amount'', PyDecimal (Decimal False 999 (-2))),
      (''tax1_amount'', PyDecimal (Decimal False 0 0)),
      (''tax2_amount'', PyDecimal (Decimal False 0 0)),
      (''tax3_amount'', PyDecimal (Decimal False 0 0)),
      (''tax4_amount'', PyDecimal (Decimal False 0 0)),
      (''lookup_ledger_account_key'', PyStr ''Incur.App.E8HJHPCT8AR08''),
      (''gl_code'', PyNone),
      (''item_code'', PyStr ''E8HJHPCT8AR08''),
      (''last_invoice_num'', PyStr ''202506/000006200''),
      (''request_uuid'', PyStr ''CQ95HJ649AXSDG6RF4Z71Z8ATD''),
      (''created_timestamp'', PyDateTime (DateTime 2025 6 2 16 9 51 666639)),
      (''modified_timestamp'', PyDateTime (DateTime 2025 6 2 16 9 52 0))]"

definition settlement_2_kwargs :: "(string \<times> py) list" where
  "settlement_2_kwargs =
     [(''id'', PyInt 6255),
      (''uuid'', PyStr ''GGG15XMEK13KN6ARGV2F5EXMKT''),
      (''settlement_date'', PyDate (Date 2025 6 1)),
      (''billing_entity_uuid'', PyStr ''JW8H2B9BT6B11R2HHXY3HYQCN6''),
      (''entity_uuid'', PyStr ''062X8PVY3XWB1''),
      (''alternate_id'', PyStr ''209225173886''),
      (''payable_receivable'', PyStr ''RECEIVABLE''),
      (''currency'', PyStr ''USD''),
      (''total_amount'', PyDecimal (Decimal False 5999 (-2))),
      (''fee_amount'', PyDecimal (Decimal False 5999 (-2))),
      (''tax1_amount'', PyDecimal (Decimal False 0 0)),
      (''tax2_amount'', PyDecimal (Decimal False 0 0)),
      (''tax3_amount'', PyDecimal (Decimal False 0 0)),
      (''tax4_amount'', PyDecimal (Decimal False 0 0)),
      (''lookup_ledger_account_key'', PyStr ''Incur.App.38NB0ETSWWP6C''),
      (''gl_code'', PyNone),
      (''item_code'', PyStr ''38NB0ETSWWP6C''),
      (''last_invoice_num'', PyStr ''202506/000006200''),
      (''request_uuid'', PyStr ''CQ95HJ649AXSDG6RF4Z71Z8ATD''),
      (''created_timestamp'', PyDateTime (DateTime 2025 6 2 16 9 51 641654)),
      (''modified_timestamp'', PyDateTime (DateTime 2025 6 2 16 9 52 0))]"

definition settlement_3_kwargs :: "(string \<times> py) list" where
  "settlement_3_kwargs =
     [(''id'', PyInt 6257),
      (''uuid'', PyStr ''8FNKVQ3SSHT2N7AVW3KH8DS00R''),
      (''settlement_date'', PyDate (Date 2025 6 1)),
      (''billing_entity_uuid'', PyStr ''JW8H2B9BT6B11R2HHXY3HYQCN6''),
      (''entity_uuid'', PyStr ''062X8PVY3XWB1''),
      (''alternate_id'', PyStr ''209225173886''),
      (''payable_receivable'', PyStr ''RECEIVABLE''),
      (''currency'', PyStr ''USD''),
      (''total_amount'', PyDecimal (Decimal False 99 0)),
      (''fee_amount'', PyDecimal (Decimal False 99 0)),
      (''tax1_amount'', PyDecimal (Decimal False 0 0)),
      (''tax2_amount'', PyDecimal (Decimal False 0 0)),
      (''tax3_amount'', PyDecimal (Decimal False 0 0)),
      (''tax4_amount'', PyDecimal (Decimal False 0 0)),
      (''lookup_ledger_account_key'', PyStr ''Incur.App.VX7BFWEXXQ1CW''),
      (''gl_code'', PyStr ''51501''),
      (''item_code'', PyStr ''VX7BFWEXXQ1CW''),
      (''last_invoice_num'', PyStr ''202506/000006200''),
      (''request_uuid'', PyStr ''CQ95HJ649AXSDG6RF4Z71Z8ATD''),
      (''created_timestamp'', PyDateTime (DateTime 2025 6 2 16 9 51 683242)),
      (''modified_timestamp'', PyDateTime (DateTime 2025 6 2 16 9 52 0))]"

definition settlement_4_kwargs :: "(string \<times> py) list" where
  "settlement_4_kwargs =
     [(''id'', PyInt 6258),
      (''uuid'', PyStr ''VS6EVR8GK3AWAKV8SAK4HJFC77''),
      (''settlement_date'', PyDate (Date 2025 6 1)),
      (''billing_entity_uuid'', PyStr ''JW8H2B9BT6B11R2HHXY3HYQCN6''),
      (''entity_uuid'', PyStr ''062X8PVY3XWB1''),
      (''alternate_id'', PyStr ''209225173886''),
      (''payable_receivable'', PyStr ''RECEIVABLE''),
      (''currency'', PyStr ''USD''),
      (''total_amount'', PyDecimal (Decimal False 8985 (-2))),
      (''fee_amount'', PyDecimal (Decimal False 8985 (-2))),
      (''tax1_amount'', PyDecimal (Decimal False 0 0)),
      (''tax2_amount'', PyDecimal (Decimal False 0 0)),
      (''tax3_amount'', PyDecimal (Decimal False 0 0)),
      (''tax4_amount'', PyDecimal (Decimal False 0 0)),
      (''lookup_ledger_account_key'', PyStr ''Incur.Plan''),
      (''gl_code'', PyStr ''51505''),
      (''item_code'', PyStr ''V20071.0000''),
      (''last_invoice_num'', PyStr ''202506/000006200''),
      (''request_uuid'', PyStr ''CQ95HJ649AXSDG6RF4Z71Z8ATD''),
      (''created_timestamp'', PyDateTime (DateTime 2025 6 2 16 9 51 700076)),
      (''modified_timestamp'', PyDateTime (DateTime 2025 6 2 16 9 52 0))]"

text \<open>
  The twenty constructor calls, in the order of the source: the key under which the object is
  returned, the class and the keyword arguments. The class of \<^verbatim>\<open>invoice_info\<close> is the
  parameter \<open>II\<close>.
\<close>

definition constructor_calls :: "model \<Rightarrow> (string \<times> model \<times> (string \<times> py) list) list" where
  "constructor_calls II =
     [(''merchant_billing_entity'', BillingEntity, merchant_billing_entity_kwargs),
      (''clover_billing_entity'', BillingEntity, clover_billing_entity_kwargs),
      (''us_support_billing_entity'', BillingEntity, us_support_billing_entity_kwargs),
      (''invoice_info'', II, invoice_info_kwargs),
      (''fee_rate_1'', FeeRate, fee_rate_1_kwargs),
      (''fee_rate_2'', FeeRate, fee_rate_2_kwargs),
      (''fee_rate_3'', FeeRate, fee_rate_3_kwargs),
      (''fee_rate_4'', FeeRate, fee_rate_4_kwargs),
      (''fee_rate_5'', FeeRate, fee_rate_5_kwargs),
      (''fee_rate_6'', FeeRate, fee_rate_6_kwargs),
      (''fee_summary_1'', FeeSummary, fee_summary_1_kwargs),
      (''fee_summary_2'', FeeSummary, fee_summary_2_kwargs),
      (''fee_summary_3'', FeeSummary, fee_summary_3_kwargs),
      (''fee_summary_4'', FeeSummary, fee_summary_4_kwargs),
      (''fee_summary_5'', FeeSummary, fee_summary_5_kwargs),
      (''fee_summary_6'', FeeSummary, fee_summary_6_kwargs),
      (''settlement_1'', Settlement, settlement_1_kwargs),
      (''settlement_2'', Settlement, settlement_2_kwargs),
      (''settlement_3'', Settlement, settlement_3_kwargs),
      (''settlement_4'', Settlement, settlement_4_kwargs)]"

text \<open>
  The calls run one after the other; the first \<^verbatim>\<open>ValidationError\<close> leaves the function.
  The clock reading of a \<^verbatim>\<open>default_factory\<close> call is \<open>clk key field\<close>: it may differ from
  one object to the next, from one field to the next and from one run to the next.
\<close>

fun construct_all ::
  "(string \<Rightarrow> string \<Rightarrow> datetime) \<Rightarrow> (string \<times> model \<times> (string \<times> py) list) list
    \<Rightarrow> exn + (string \<times> obj) list" where
  "construct_all clk [] = Inr []"
| "construct_all clk ((key, M, kw) # cs) =
     (case construct M (clk key) kw of
        Inl e \<Rightarrow> Inl e
      | Inr x \<Rightarrow>
          (case construct_all clk cs of
             Inl e \<Rightarrow> Inl e
           | Inr d \<Rightarrow> Inr ((key, x) # d)))"

definition create_pydantic_objects ::
  "model \<Rightarrow> (string \<Rightarrow> string \<Rightarrow> datetime) \<Rightarrow> exn + (string \<times> obj) list" where
  "create_pydantic_objects II clk = construct_all clk (constructor_calls II)"

subsection \<open>\<^verbatim>\<open>create_node_data\<close>\<close>

definition create_node_data :: "obj \<Rightarrow> string \<Rightarrow> (string \<times> py) list" where
  "create_node_data pydantic_obj table_name =
     (let full_dict = model_dump pydantic_obj;
          minimal_dict = to_minimal_dict pydantic_obj;
          others_dict = filter (\<lambda>(k, v). k \<notin> set (dict_keys minimal_dict)) full_dict
      in [(''table'', PyStr table_name),
          (''minimal'', PyDict minimal_dict),
          (''others'', PyDict others_dict)])"

subsection \<open>\<^verbatim>\<open>create_graph\<close>\<close>

text \<open>The twenty \<^verbatim>\<open>G.add_node\<close> calls: node identifier, key of the object, table name.\<close>

definition node_calls :: "(string \<times> string \<times> string) list" where
  "node_calls =
     [(''billing_entity_merchant'', ''merchant_billing_entity'', ''billing_entity''),
      (''billing_entity_clover'', ''clover_billing_entity'', ''billing_entity''),
      (''billing_entity_us_support'', ''us_support_billing_entity'', ''billing_entity''),
      (''invoice_info_1'', ''invoice_info'', ''invoice_info''),
      (''fee_rate_1'', ''fee_rate_1'', ''fee_rate''),
      (''fee_rate_2'', ''fee_rate_2'', ''fee_rate''),
      (''fee_rate_3'', ''fee_rate_3'', ''fee_rate''),
      (''fee_rate_4'', ''fee_rate_4'', ''fee_rate''),
      (''fee_rate_5'', ''fee_rate_5'', ''fee_rate''),
      (''fee_rate_6'', ''fee_rate_6'', ''fee_rate''),
      (''fee_summary_1'', ''fee_summary_1'', ''fee_summary''),
      (''fee_summary_2'', ''fee_summary_2'', ''fee_summary''),
      (''fee_summary_3'', ''fee_summary_3'', ''fee_summary''),
      (''fee_summary_4'', ''fee_summary_4'', ''fee_summary''),
      (''fee_summary_5'', ''fee_summary_5'', ''fee_summary''),
      (''fee_summary_6'', ''fee_summary_6'', ''fee_summary''),
      (''settlement_1'', ''settlement_1'', ''settlement''),
      (''settlement_2'', ''settlement_2'', ''settlement''),
      (''settlement_3'', ''settlement_3'', ''settlement''),
      (''settlement_4'', ''settlement_4'', ''settlement'')]"

fun add_nodes ::
  "(string \<times> obj) list \<Rightarrow> (string \<times> string \<times> string) list \<Rightarrow> digraph \<Rightarrow> exn + digraph" where
  "add_nodes data [] G = Inr G"
| "add_nodes data ((node_id, key, table_name) # cs) G =
     (case map_of data key of
        None \<Rightarrow> Inl (KeyError key)
      | Some x \<Rightarrow> add_nodes data cs (add_node node_id (create_node_data x table_name) G))"

definition invoice_to_fee_rates :: "(string \<times> string) list" where
  "invoice_to_fee_rates =
     [(''invoice_info_1'', ''fee_rate_1''),
      (''invoice_info_1'', ''fee_rate_2''),
      (''invoice_info_1'', ''fee_rate_3''),
      (''invoice_info_1'', ''fee_rate_4''),
      (''invoice_info_1'', ''fee_rate_5''),
      (''invoice_info_1'', ''fee_rate_6'')]"

definition fee_rates_to_fee_summaries :: "(string \<times> string) list" where
  "fee_rates_to_fee_summaries =
     [(''fee_rate_1'', ''fee_summary_1''),
      (''fee_rate_2'', ''fee_summary_2''),
      (''fee_rate_3'', ''fee_summary_3''),
      (''fee_rate_4'', ''fee_summary_4''),
      (''fee_rate_5'', ''fee_summary_5''),
      (''fee_rate_6'', ''fee_summary_6'')]"

definition fee_summaries_to_settlements :: "(string \<times> string) list" where
  "fee_summaries_to_settlements =
     [(''fee_summary_1'', ''settlement_1''),
      (''fee_summary_2'', ''settlement_2''),
      (''fee_summary_3'', ''settlement_3''),
      (''fee_summary_4'', ''settlement_4''),
      (''fee_summary_5'', ''settlement_4''),
      (''fee_summary_6'', ''settlement_4'')]"

definition settlements_to_billing_entities :: "(string \<times> string) list" where
  "settlements_to_billing_entities =
     [(''settlement_1'', ''billing_entity_clover''),
      (''settlement_1'', ''billing_entity_us_support''),
      (''settlement_2'', ''billing_entity_clover''),
      (''settlement_2'', ''billing_entity_us_support''),
      (''settlement_3'', ''billing_entity_clover''),
      (''settlement_3'', ''billing_entity_us_support''),
      (''settlement_4'', ''billing_entity_clover''),
      (''settlement_4'', ''billing_entity_us_support'')]"

text \<open>The edges in the order in which \<^verbatim>\<open>create_graph\<close> adds them.\<close>

definition declared_edges :: "(string \<times> string) list" where
  "declared_edges =
     (''billing_entity_merchant'', ''invoice_info_1'') # invoice_to_fee_rates
     @ fee_rates_to_fee_summaries @ fee_summaries_to_settlements
     @ settlements_to_billing_entities"

definition add_declared_edges :: "digraph \<Rightarrow> digraph" where
  "add_declared_edges G =
     add_edges_from settlements_to_billing_entities
       (add_edges_from fee_summaries_to_settlements
         (add_edges_from fee_rates_to_fee_summaries
           (add_edges_from invoice_to_fee_rates
             (add_edge ''billing_entity_merchant'' ''invoice_info_1'' G))))"

definition create_graph :: "model \<Rightarrow> (string \<Rightarrow> string \<Rightarrow> datetime) \<Rightarrow> exn + digraph" where
  "create_graph II clk =
     (case create_pydantic_objects II clk of
        Inl e \<Rightarrow> Inl e
      | Inr data \<Rightarrow>
          (case add_nodes data node_calls DiGraph of
             Inl e \<Rightarrow> Inl e
           | Inr G \<Rightarrow> Inr (add_declared_edges G)))"

subsection \<open>\<^verbatim>\<open>serialize_graph\<close>\<close>

definition graph_data :: "digraph \<Rightarrow> py" where
  "graph_data G =
     PyDict
       [(''nodes'', PyList (map (\<lambda>(node_id, node_data).
                       PyDict (dict_update [(''id'', PyStr node_id)] node_data)) (nodes_data G))),
        (''edges'', PyList (map (\<lambda>(source, target).
                       PyDict [(''source'', PyStr source), (''target'', PyStr target)]) (edges G)))]"

definition serialize_graph :: "digraph \<Rightarrow> string" where
  "serialize_graph G = json_dumps (graph_data G)"

subsection \<open>\<^verbatim>\<open>main\<close>\<close>

text \<open>
  \<^verbatim>\<open>str(e)\<close> of an exception. The text of a pydantic \<^verbatim>\<open>ValidationError\<close> is the line
  \<^verbatim>\<open>N validation error(s) for Cls\<close> and then, for every error, a line with the field name
  and a line, indented by two spaces, with the message of the error and what pydantic
  appends to it (the error type and the input in brackets and, on a further line, a
  documentation link). That message text is written by pydantic, not by this repository: it
  is the parameter \<open>detail\<close> (from the class name, the field name and the kind of error).
\<close>

definition exn_str :: "(string \<Rightarrow> string \<Rightarrow> errtype \<Rightarrow> string) \<Rightarrow> exn \<Rightarrow> string" where
  "exn_str detail e =
     (case e of
        ValidationError cls errs \<Rightarrow>
          show_nat (length errs) @ '' validation error''
          @ (if length errs = 1 then [] else ''s'') @ '' for '' @ cls
          @ concat (map (\<lambda>(loc, t). [CHR 0x0A] @ loc @ [CHR 0x0A] @ ''  '' @ detail cls loc t) errs)
      | KeyError k \<Rightarrow> [CHR 0x27] @ k @ [CHR 0x27])"

text \<open>The \<^verbatim>\<open>except\<close> clause of \<^verbatim>\<open>main\<close>: what it prints and the value it returns.\<close>

definition main_except :: "(string \<Rightarrow> string \<Rightarrow> errtype \<Rightarrow> string) \<Rightarrow> exn \<Rightarrow> string \<times> int" where
  "main_except detail e = (''Error: '' @ exn_str detail e @ [CHR 0x0A], 1)"

text \<open>
  \<^verbatim>\<open>main\<close>: what is printed on standard output, and the value returned.
\<close>

definition main ::
  "(string \<Rightarrow> string \<Rightarrow> errtype \<Rightarrow> string) \<Rightarrow> model \<Rightarrow> (string \<Rightarrow> string \<Rightarrow> datetime)
    \<Rightarrow> string \<times> int" where
  "main detail II clk =
     (case create_graph II clk of
        Inl e \<Rightarrow> main_except detail e
      | Inr graph \<Rightarrow> (serialize_graph graph @ [CHR 0x0A], 0))"

section \<open>The entity classes\<close>

text \<open>
  Every module of \<^verbatim>\<open>demo/models/ebb\<close> declares one entity class with its mixin. For each:
  the class name, the names of the declared fields in order, and the mixin's
  \<^verbatim>\<open>MINIMAL_FIELDS\<close>.
\<close>

definition entity_classes :: "(string \<times> string list \<times> string list) list" where
  "entity_classes =
     [(''AdjustAction'',
       [''id'', ''uuid'', ''billing_entity_uuid'', ''settlement_uuid'', ''developer_uuid'',
        ''developer_app_uuid'', ''adjust_reason'', ''adjust_action_type'', ''fee_category'',
        ''fee_code'', ''action_datetime'', ''num_units'', ''units_in_period'',
        ''basis_amount'', ''basis_currency'', ''reference'', ''adjust_action_fee_code_uuid'',
        ''fee_uuid'', ''event_uuid'', ''request_uuid'', ''date_to_post'', ''posting_date'',
        ''created_timestamp'', ''modified_timestamp''],
       [''adjust_reason'', ''adjust_action_type'', ''fee_category'', ''fee_code'',
        ''num_units'', ''units_in_period'']),
      (''AdjustActionType'',
       [''id'', ''uuid'', ''adjust_action_type'', ''fee_category_group'', ''revenue_group'',
        ''created_timestamp'', ''modified_timestamp''],
       [''adjust_action_type'', ''fee_category_group'', ''revenue_group'']),
      (''AdjustReason'',
       [''id'', ''uuid'', ''adjust_reason'', ''created_timestamp''],
       [''adjust_reason'']),
      (''AppMeterAction'',
       [''id'', ''uuid'', ''billing_entity_uuid'', ''developer_app_uuid'',
        ''app_metered_uuid'', ''app_meter_action_type'', ''fee_category'', ''fee_code'',
        ''action_datetime'', ''merchant_plan_uuid'', ''num_units'', ''units_in_period'',
        ''basis_amount'', ''basis_currency'', ''reference'',
        ''app_meter_action_fee_code_uuid'', ''fee_uuid'', ''event_uuid'', ''request_uuid'',
        ''date_to_post'', ''posting_date'', ''created_timestamp'', ''modified_timestamp''],
       [''app_meter_action_type'', ''fee_category'', ''fee_code'', ''num_units'',
        ''units_in_period'', ''basis_amount'', ''basis_currency'']),
      (''AppMeterActionFeeCode'',
       [''id'', ''uuid'', ''developer_app_uuid'', ''app_metered_uuid'',
        ''merchant_plan_uuid'', ''app_meter_action_type'', ''effective_date'',
        ''fee_category'', ''fee_code'', ''deleted_date'', ''created_timestamp'',
        ''modified_timestamp'', ''audit_id''],
       [''app_meter_action_type'', ''fee_category'', ''fee_code'', ''effective_date'']),
      (''AppMeterActionType'',
       [''id'', ''uuid'', ''app_meter_action_type'', ''created_timestamp''],
       [''app_meter_action_type'']),
      (''AppSubActionError'',
       [''id'', ''uuid'', ''app_sub_action_uuid'', ''request_uuid'', ''posting_date'',
        ''original_request_uuid'', ''original_posting_date'', ''posting_attempts'',
        ''error_code'', ''error_details'', ''resolved'', ''created_timestamp'',
        ''modified_timestamp''],
       [''error_code'', ''posting_attempts'', ''resolved'']),
      (''AutoAdjustAdvice'',
       [''id'', ''uuid'', ''billing_entity_uuid'', ''auto_adjust_rule_uuid'', ''start_date'',
        ''deleted_date'', ''total_periods'', ''evaluated_periods'', ''applied_periods'',
        ''max_units'', ''max_amount'', ''currency'', ''reference'', ''request_uuid'',
        ''created_timestamp'', ''modified_timestamp'', ''audit_id''],
       [''total_periods'', ''evaluated_periods'', ''applied_periods'', ''max_units'',
        ''max_amount'', ''currency'']),
      (''AutoAdjustQualifier'',
       [''id'', ''uuid'', ''auto_adjust_rule_uuid'', ''fee_category'', ''fee_code'',
        ''negate_fee_summary'', ''disqualify'', ''created_timestamp'', ''audit_id''],
       [''fee_category'', ''fee_code'', ''negate_fee_summary'', ''disqualify'']),
      (''AutoAdjustRule'',
       [''id'', ''uuid'', ''rule_status'', ''rule_alias'', ''rate_fee_category'',
        ''rate_fee_code'', ''target_entity_type'', ''short_desc'', ''full_desc'',
        ''created_timestamp'', ''modified_timestamp'', ''audit_id''],
       [''rule_status'', ''rate_fee_category'', ''rate_fee_code'', ''target_entity_type'',
        ''short_desc'']),
      (''BillingArchetype'',
       [''id'', ''uuid'', ''archetype_type'', ''created_timestamp''],
       [''archetype_type'']),
      (''BillingEntity'',
       [''id'', ''uuid'', ''entity_uuid'', ''entity_type'', ''name'', ''created_timestamp'',
        ''modified_timestamp''],
       [''entity_type'', ''name'']),
      (''BillingEntityConfig'',
       [''id'', ''uuid'', ''billing_entity_uuid'', ''hierarchy_type'', ''effective_date'',
        ''post_method'', ''plan_billing_method'', ''invoice_method'', ''settlement_method'',
        ''seasonal_rule_set_uuid'', ''created_timestamp'', ''modified_timestamp'',
        ''audit_id''],
       [''hierarchy_type'', ''post_method'', ''plan_billing_method'', ''invoice_method'',
        ''settlement_method'', ''effective_date'']),
      (''BillingEventHistory'',
       [''id'', ''environment'', ''entity_uuid'', ''entity_type'', ''event_uuid'', ''input'',
        ''message'', ''created_timestamp''],
       [''environment'', ''entity_type'', ''message'']),
      (''BillingHierarchy'',
       [''id'', ''uuid'', ''hierarchy_type'', ''billing_entity_uuid'', ''effective_date'',
        ''deleted_date'', ''parent_billing_hierarchy_uuid'', ''created_timestamp'',
        ''modified_timestamp''],
       [''hierarchy_type'', ''effective_date'', ''deleted_date'']),
      (''BillingHierarchyCycle'',
       [''id'', ''uuid'', ''processing_group_uuid'', ''billing_hierarchy_uuid'',
        ''cycle_date'', ''close_date'', ''effective_close_date'', ''billing_entity_uuid'',
        ''entity_uuid'', ''schedule_parent_be_uuid'', ''fee_rate_parent_be_uuid'',
        ''frequency'', ''billing_day'', ''next_billing_date'', ''last_billing_date'',
        ''arrears_billing_date'', ''units_in_next_period'', ''units_in_last_period'',
        ''units_in_arrears_period'', ''default_currency'', ''post_method'',
        ''plan_billing_method'', ''invoice_method'', ''invoice_number_format'',
        ''settlement_method'', ''created_timestamp'', ''modified_timestamp''],
       [''frequency'', ''billing_day'', ''next_billing_date'', ''default_currency'',
        ''post_method'', ''plan_billing_method'', ''invoice_method'']),
      (''BillingHierarchyType'',
       [''id'', ''uuid'', ''hierarchy_type'', ''description'', ''created_timestamp'',
        ''modified_timestamp''],
       [''hierarchy_type'', ''description'']),
      (''BillingPseudoEntity'',
       [''id'', ''uuid'', ''name'', ''created_timestamp'', ''modified_timestamp''],
       [''name'']),
      (''BillingSchedule'',
       [''id'', ''uuid'', ''billing_entity_uuid'', ''effective_date'', ''frequency'',
        ''billing_day'', ''next_billing_date'', ''last_billing_date'',
        ''units_in_next_period'', ''units_in_last_period'', ''default_currency'',
        ''close_date'', ''effective_close_date'', ''created_timestamp'',
        ''modified_timestamp''],
       [''frequency'', ''billing_day'', ''next_billing_date'', ''units_in_next_period'',
        ''default_currency'', ''effective_date'']),
      (''CellularAction'',
       [''id'', ''uuid'', ''billing_entity_uuid'', ''merchant_plan_uuid'', ''iccid'',
        ''carrier'', ''cellular_action_type'', ''fee_category'', ''fee_code'',
        ''action_datetime'', ''num_units'', ''units_in_period'', ''basis_amount'',
        ''basis_currency'', ''reference'', ''cellular_action_fee_code_uuid'', ''fee_uuid'',
        ''event_uuid'', ''request_uuid'', ''date_to_post'', ''posting_date'',
        ''created_timestamp'', ''modified_timestamp''],
       [''carrier'', ''cellular_action_type'', ''fee_category'', ''fee_code'', ''num_units'',
        ''units_in_period'', ''basis_amount'']),
      (''CellularActionFeeCode'',
       [''id'', ''uuid'', ''merchant_plan_uuid'', ''carrier'', ''cellular_action_type'',
        ''effective_date'', ''fee_category'', ''fee_code'', ''deleted_date'',
        ''created_timestamp'', ''modified_timestamp'', ''audit_id''],
       [''carrier'', ''cellular_action_type'', ''fee_category'', ''fee_code'',
        ''effective_date'']),
      (''ConsumerFailureHistory'',
       [''id'', ''uuid'', ''environment'', ''reference_id'', ''payload'', ''channel'',
        ''topic'', ''cause'', ''message'', ''comment'', ''created_timestamp''],
       [''environment'', ''channel'', ''topic'', ''cause'', ''comment'']),
      (''CycleValidation'',
       [''id'', ''uuid'', ''task_id'', ''task_type'', ''validation_group'',
        ''billing_entity_uuid'', ''hierarchy_type'', ''cycle_date'', ''currency'',
        ''status'', ''bypass_count'', ''bypass_amount'', ''accepted_count'',
        ''accepted_amount'', ''total_count'', ''total_amount'', ''request_uuid'',
        ''validation_request_uuid'', ''created_timestamp'', ''modified_timestamp''],
       [''task_type'', ''validation_group'', ''hierarchy_type'', ''status'', ''total_count'',
        ''total_amount'', ''currency'']),
      (''CycleValidationMutation'',
       [''id'', ''mutation_action'', ''mutation_timestamp'', ''cycle_validation_id'',
        ''uuid'', ''task_id'', ''task_type'', ''validation_group'', ''billing_entity_uuid'',
        ''hierarchy_type'', ''cycle_date'', ''currency'', ''status'', ''bypass_count'',
        ''bypass_amount'', ''accepted_count'', ''accepted_amount'', ''total_count'',
        ''total_amount'', ''request_uuid'', ''validation_request_uuid'',
        ''created_timestamp'', ''modified_timestamp''],
       [''mutation_action'', ''task_type'', ''validation_group'', ''status'',
        ''total_count'', ''total_amount'', ''currency'']),
      (''DeserializableFailure'',
       [''id'', ''uuid'', ''topic'', ''channel'', ''b64'', ''created_timestamp''],
       [''topic'', ''channel'']),
      (''FeeCategory'',
       [''id'', ''uuid'', ''fee_category'', ''sort_order'', ''created_timestamp'',
        ''modified_timestamp''],
       [''fee_category'', ''sort_order'']),
      (''FeeCode'',
       [''id'', ''uuid'', ''fee_category'', ''fee_code'', ''short_desc'', ''full_desc'',
        ''sort_order'', ''created_timestamp'', ''modified_timestamp''],
       [''fee_category'', ''fee_code'', ''short_desc'', ''sort_order'']),
      (''FeeCodeApp'',
       [''id'', ''uuid'', ''fee_category'', ''fee_code'', ''developer_uuid'',
        ''developer_app_uuid'', ''app_subscription_uuid'', ''app_metered_uuid'',
        ''created_timestamp'', ''modified_timestamp''],
       [''fee_category'', ''fee_code'']),
      (''FeeCodeLedgerAccount'',
       [''id'', ''uuid'', ''fee_category'', ''fee_code'', ''effective_date'',
        ''credit_ledger_account_key'', ''credit_billing_entity_uuid_source'',
        ''debit_ledger_account_key'', ''debit_billing_entity_uuid_source'', ''deleted_date'',
        ''created_timestamp'', ''modified_timestamp'', ''audit_id''],
       [''fee_category'', ''fee_code'', ''effective_date'', ''credit_ledger_account_key'',
        ''debit_ledger_account_key'']),
      (''FeeCtd'',
       [''id'', ''uuid'', ''billing_entity_uuid'', ''fee_category'', ''fee_code'',
        ''currency'', ''ctd_num_units'', ''abs_num_units'', ''ctd_basis_amount'',
        ''abs_basis_amount'', ''num_actions'', ''created_timestamp'', ''modified_timestamp''],
       [''fee_category'', ''fee_code'', ''currency'', ''ctd_num_units'',
        ''ctd_basis_amount'', ''num_actions'']),
      (''FeeRate'',
       [''id'', ''uuid'', ''billing_entity_uuid'', ''fee_category'', ''fee_code'',
        ''currency'', ''effective_date'', ''apply_type'', ''per_item_amount'',
        ''percentage'', ''created_timestamp'', ''modified_timestamp'', ''audit_id''],
       [''fee_category'', ''fee_code'', ''currency'', ''apply_type'', ''per_item_amount'',
        ''percentage'', ''effective_date'']),
      (''FeeRateErrorReport'',
       [''id'', ''uuid'', ''billing_entity_uuid'', ''fee_category'', ''fee_code'',
        ''currency'', ''apply_type'', ''resolved_status'', ''created_timestamp'',
        ''modified_timestamp''],
       [''fee_category'', ''fee_code'', ''currency'', ''apply_type'', ''resolved_status'']),
      (''FeeRateReportActionError'',
       [''id'', ''uuid'', ''billing_entity_uuid'', ''fee_rate_error_report_uuid'',
        ''action_error_uuid'', ''action_type'', ''created_timestamp''],
       [''action_type'', ''created_timestamp'']),
      (''FeeSummary'',
       [''id'', ''uuid'', ''billing_entity_uuid'', ''billing_date'', ''fee_category'',
        ''fee_code'', ''currency'', ''total_period_units'', ''abs_period_units'',
        ''total_basis_amount'', ''abs_basis_amount'', ''total_fee_amount'',
        ''fee_rate_uuid'', ''request_uuid'', ''invoice_info_uuid'',
        ''fee_code_ledger_account_uuid'', ''credit_ledger_account_uuid'',
        ''debit_ledger_account_uuid'', ''exclude_from_invoice'', ''created_timestamp'',
        ''modified_timestamp''],
       [''total_period_units'', ''total_fee_amount'', ''total_basis_amount'']),
      (''FeeTax'',
       [''id'', ''uuid'', ''fee_summary_uuid'', ''tax1_amount'', ''tax2_amount'',
        ''tax3_amount'', ''tax4_amount'', ''tax1_rate'', ''tax2_rate'', ''tax3_rate'',
        ''tax4_rate'', ''created_timestamp''],
       [''tax1_amount'', ''tax2_amount'', ''tax1_rate'', ''tax2_rate'']),
      (''FeeYtd'',
       [''id'', ''uuid'', ''billing_entity_uuid'', ''year'', ''fee_category'', ''fee_code'',
        ''currency'', ''total_period_units'', ''total_basis_amount'', ''total_fee_amount'',
        ''created_timestamp'', ''modified_timestamp''],
       [''year'', ''fee_category'', ''fee_code'', ''currency'', ''total_fee_amount'',
        ''total_period_units'']),
      (''FlywaySchemaHistory'',
       [''installed_rank'', ''version'', ''description'', ''type'', ''script'', ''checksum'',
        ''installed_by'', ''installed_on'', ''execution_time'', ''success''],
       [''version'', ''description'', ''type'', ''installed_on'', ''success'']),
      (''InvoiceAllianceCode'',
       [''id'', ''uuid'', ''billing_entity_uuid'', ''alliance_code'', ''invoice_count'',
        ''created_timestamp''],
       [''alliance_code'', ''invoice_count'']),
      (''InvoiceInfoAmount'',
       [''id'', ''uuid'', ''invoice_info_uuid'', ''currency'', ''amount'',
        ''fee_category_group'', ''created_timestamp''],
       [''currency'', ''amount'', ''fee_category_group'']),
      (''InvoiceInfoMutation'',
       [''id'', ''mutation_action'', ''mutation_timestamp'', ''invoice_info_id'', ''uuid'',
        ''billing_entity_uuid'', ''entity_uuid'', ''alternate_id'', ''billing_date'',
        ''invoice_num'', ''currency'', ''total_amount'', ''document_uuid'', ''request_uuid'',
        ''created_timestamp''],
       [''mutation_action'', ''billing_date'', ''invoice_num'', ''currency'',
        ''total_amount'']),
      (''InvoiceInfoSettlement'',
       [''id'', ''uuid'', ''invoice_info_uuid'', ''settlement_uuid'', ''request_uuid'',
        ''created_timestamp''],
       [''created_timestamp'']),
      (''InvoiceInfoSettlementMutation'',
       [''id'', ''mutation_action'', ''mutation_timestamp'', ''invoice_info_settlement_id'',
        ''uuid'', ''invoice_info_uuid'', ''settlement_uuid'', ''request_uuid'',
        ''created_timestamp''],
       [''mutation_action'', ''mutation_timestamp'']),
      (''JobAssassinationContract'',
       [''id'', ''job_identifier'', ''killed'', ''created_timestamp'', ''modified_timestamp''],
       [''job_identifier'', ''killed'', ''created_timestamp'']),
      (''LedgerAccount'',
       [''id'', ''uuid'', ''ledger_account_key'', ''billing_entity_uuid'', ''gl_code'',
        ''created_timestamp'', ''modified_timestamp''],
       [''ledger_account_key'', ''gl_code'']),
      (''LedgerAccountAction'',
       [''id'', ''uuid'', ''action'', ''created_timestamp''],
       [''action'']),
      (''LedgerAccountBalance'',
       [''id'', ''uuid'', ''ledger_account_uuid'', ''currency'', ''balance'',
        ''created_timestamp'', ''modified_timestamp''],
       [''currency'', ''balance'']),
      (''LedgerAccountKey'',
       [''id'', ''uuid'', ''ledger_account_key'', ''ledger_account_type'',
        ''default_gl_code'', ''short_desc'', ''full_desc'', ''created_timestamp'',
        ''modified_timestamp''],
       [''ledger_account_key'', ''ledger_account_type'', ''short_desc'']),
      (''LedgerAccountKeyPurpose'',
       [''id'', ''uuid'', ''purpose'', ''ledger_account_key'', ''created_timestamp'',
        ''audit_id''],
       [''purpose'', ''ledger_account_key'']),
      (''LedgerAccountPurpose'',
       [''id'', ''uuid'', ''purpose'', ''created_timestamp''],
       [''purpose'']),
      (''LedgerAccountSettlement'',
       [''id'', ''uuid'', ''ledger_account_key'', ''effective_date'',
        ''settlement_item_code'', ''settlement_desc'', ''fee_category_group'',
        ''revenue_group'', ''merchant_plan_uuid'', ''developer_uuid'',
        ''developer_app_uuid'', ''app_subscription_uuid'', ''app_metered_uuid'',
        ''created_timestamp'', ''modified_timestamp'', ''audit_id''],
       [''ledger_account_key'', ''effective_date'', ''settlement_item_code'',
        ''settlement_desc'']),
      (''LedgerAccountTransition'',
       [''id'', ''uuid'', ''action'', ''effective_date'', ''lookup_ledger_account_key'',
        ''credit_ledger_account_key'', ''credit_billing_entity_uuid_source'',
        ''debit_ledger_account_key'', ''debit_billing_entity_uuid_source'', ''deleted_date'',
        ''created_timestamp'', ''modified_timestamp'', ''audit_id''],
       [''action'', ''effective_date'', ''credit_ledger_account_key'',
        ''debit_ledger_account_key'']),
      (''LedgerJournal'',
       [''id'', ''uuid'', ''ledger_account_uuid'', ''journal_date'', ''ref_uuid_type'',
        ''ref_uuid'', ''cr_db'', ''currency'', ''amount'', ''created_timestamp''],
       [''journal_date'', ''cr_db'', ''currency'', ''amount'']),
      (''LedgerJournalMutation'',
       [''id'', ''mutation_action'', ''mutation_timestamp'', ''ledger_journal_id'', ''uuid'',
        ''ledger_account_uuid'', ''journal_date'', ''ref_uuid_type'', ''ref_uuid'',
        ''cr_db'', ''currency'', ''amount'', ''created_timestamp''],
       [''mutation_action'', ''cr_db'', ''currency'', ''amount'']),
      (''LexiAttribute'',
       [''id'', ''uuid'', ''word'', ''lexicon'', ''attr_name'', ''created_timestamp'',
        ''deleted_timestamp''],
       [''word'', ''lexicon'', ''attr_name'']),
      (''LexiRule'',
       [''id'', ''uuid'', ''parent_uuid'', ''lexicon'', ''rule_name'', ''description'',
        ''rule_condition'', ''target_attributes'', ''priority'', ''rule_type'',
        ''created_timestamp'', ''deleted_timestamp''],
       [''lexicon'', ''rule_name'', ''rule_type'', ''priority'']),
      (''Look'',
       [''id'', ''uuid'', ''hash'', ''namespace'', ''metadata'', ''processed_timestamp'',
        ''created_timestamp''],
       [''namespace'', ''hash'']),
      (''LookData'',
       [''id'', ''look_uuid'', ''payload'', ''created_timestamp''],
       [''payload'']),
      (''MerchantDetail'',
       [''id'', ''uuid'', ''billing_entity_uuid'', ''seasonal'', ''tax_exempt'',
        ''verified_terms_acceptance'', ''created_timestamp'', ''modified_timestamp'',
        ''audit_id''],
       [''seasonal'', ''tax_exempt'', ''verified_terms_acceptance'']),
      (''MiscActionFeeCode'',
       [''id'', ''uuid'', ''misc_specifier'', ''misc_action_type'', ''effective_date'',
        ''fee_category'', ''fee_code'', ''deleted_date'', ''created_timestamp'',
        ''modified_timestamp'', ''audit_id''],
       [''misc_specifier'', ''misc_action_type'', ''fee_category'', ''fee_code'',
        ''effective_date'']),
      (''MiscActionType'',
       [''id'', ''uuid'', ''misc_action_type'', ''created_timestamp''],
       [''misc_action_type'']),
      (''MiscSpecifier'',
       [''id'', ''uuid'', ''misc_specifier'', ''created_timestamp''],
       [''misc_specifier'']),
      (''ModelFeeSummary'',
       [''id'', ''uuid'', ''billing_entity_uuid'', ''billing_date'', ''fee_category'',
        ''fee_code'', ''currency'', ''total_period_units'', ''total_basis_amount'',
        ''total_fee_amount'', ''fee_rate_uuid'', ''request_uuid'', ''invoice_info_uuid'',
        ''fee_code_ledger_account_uuid'', ''credit_ledger_account_uuid'',
        ''debit_ledger_account_uuid'', ''created_timestamp'', ''modified_timestamp''],
       [''fee_category'', ''fee_code'', ''currency'', ''total_period_units'',
        ''total_basis_amount'', ''total_fee_amount'']),
      (''MonetaryAdjustment'',
       [''id'', ''uuid'', ''billing_entity_uuid'', ''adjust_fee_summary_uuid'',
        ''qualified_fee_summary_uuid'', ''rule_uuid'', ''rule_criteria_uuid'', ''rule_type'',
        ''request_uuid'', ''created_timestamp''],
       [''rule_type'']),
      (''MonetaryAdjustmentMutation'',
       [''id'', ''mutation_action'', ''mutation_timestamp'', ''monetary_adjustment_id'',
        ''uuid'', ''billing_entity_uuid'', ''adjust_fee_summary_uuid'',
        ''qualified_fee_summary_uuid'', ''rule_uuid'', ''rule_criteria_uuid'', ''rule_type'',
        ''request_uuid'', ''created_timestamp''],
       [''mutation_action'', ''rule_type'']),
      (''MonetaryRuleAlias'',
       [''id'', ''uuid'', ''rule_alias'', ''rule_type'', ''created_timestamp''],
       [''rule_alias'', ''rule_type'']),
      (''MonetaryRuleSet'',
       [''id'', ''uuid'', ''rule_status'', ''short_desc'', ''full_desc'',
        ''created_timestamp'', ''modified_timestamp'', ''audit_id''],
       [''rule_status'', ''short_desc'']),
      (''MonetaryRuleSetRule'',
       [''id'', ''uuid'', ''monetary_rule_set_uuid'', ''rule_uuid'', ''rule_type'',
        ''effective_date'', ''deleted_date'', ''created_timestamp'', ''modified_timestamp'',
        ''audit_id''],
       [''rule_type'', ''effective_date'']),
      (''PartnerConfig'',
       [''id'', ''uuid'', ''billing_entity_uuid'', ''hierarchy_type'', ''effective_date'',
        ''revenue_share_group'', ''post_method'', ''plan_billing_method'',
        ''invoice_method'', ''invoice_number_format'', ''settlement_method'',
        ''seasonal_rule_set_uuid'', ''created_timestamp'', ''modified_timestamp'',
        ''audit_id''],
       [''hierarchy_type'', ''revenue_share_group'', ''post_method'', ''invoice_method'',
        ''settlement_method'']),
      (''PlanAction'',
       [''id'', ''uuid'', ''billing_entity_uuid'', ''merchant_plan_uuid'', ''serial_number'',
        ''plan_action_type'', ''fee_category'', ''fee_code'', ''action_datetime'',
        ''num_units'', ''units_in_period'', ''basis_amount'', ''basis_currency'',
        ''reference'', ''plan_action_fee_code_uuid'', ''fee_uuid'', ''event_uuid'',
        ''request_uuid'', ''date_to_post'', ''posting_date'', ''created_timestamp'',
        ''modified_timestamp''],
       [''plan_action_type'', ''fee_category'', ''fee_code'', ''num_units'',
        ''units_in_period'']),
      (''PlanActionError'',
       [''id'', ''uuid'', ''plan_action_uuid'', ''request_uuid'', ''posting_date'',
        ''original_request_uuid'', ''original_posting_date'', ''posting_attempts'',
        ''error_code'', ''error_details'', ''resolved'', ''created_timestamp'',
        ''modified_timestamp''],
       [''error_code'', ''posting_attempts'', ''resolved'']),
      (''PlanActionType'',
       [''id'', ''uuid'', ''plan_action_type'', ''created_timestamp''],
       [''plan_action_type'']),
      (''ProcessingGroupDates'',
       [''id'', ''uuid'', ''billing_entity_uuid'', ''hierarchy_type'', ''cycle_date'',
        ''last_cycle_date'', ''posting_date'', ''last_posting_date'', ''billing_date'',
        ''last_billing_date'', ''settlement_date'', ''last_settlement_date'',
        ''created_timestamp'', ''modified_timestamp''],
       [''hierarchy_type'', ''cycle_date'', ''posting_date'', ''billing_date'',
        ''settlement_date'']),
      (''ProcessingNote'',
       [''id'', ''uuid'', ''billing_entity_uuid'', ''process_date'', ''note_code'',
        ''notes'', ''request_uuid'', ''created_timestamp''],
       [''note_code'', ''notes'', ''process_date'']),
      (''ProcessingNoteMutation'',
       [''id'', ''mutation_action'', ''mutation_timestamp'', ''processing_note_id'',
        ''uuid'', ''billing_entity_uuid'', ''process_date'', ''note_code'', ''notes'',
        ''request_uuid'', ''created_timestamp''],
       [''mutation_action'', ''note_code'']),
      (''PrototypeFeeRate'',
       [''id'', ''uuid'', ''prototype_fee_set_id'', ''billing_entity_uuid'',
        ''fee_category'', ''fee_code'', ''currency'', ''apply_type'', ''per_item_amount'',
        ''percentage'', ''created_timestamp'', ''modified_timestamp'', ''audit_id''],
       [''fee_category'', ''fee_code'', ''currency'', ''apply_type'', ''per_item_amount'',
        ''percentage'']),
      (''PrototypeFeeSet'',
       [''id'', ''uuid'', ''name'', ''disposition'', ''description'', ''effective_date'',
        ''disposition_datetime'', ''created_timestamp'', ''modified_timestamp''],
       [''name'', ''disposition'', ''effective_date'', ''description'']),
      (''RevenueAction'',
       [''id'', ''uuid'', ''billing_entity_uuid'', ''fee_category_group'', ''revenue_group'',
        ''developer_uuid'', ''developer_app_uuid'', ''app_subscription_uuid'',
        ''app_metered_uuid'', ''merchant_plan_uuid'', ''revenue_action_type'',
        ''fee_category'', ''fee_code'', ''action_datetime'', ''num_units'',
        ''units_in_period'', ''basis_amount'', ''basis_currency'', ''reference'',
        ''revenue_action_fee_code_uuid'', ''source_billing_entity_uuid'',
        ''settlement_action_uuid'', ''fee_uuid'', ''event_uuid'', ''request_uuid'',
        ''date_to_post'', ''posting_date'', ''created_timestamp'', ''modified_timestamp''],
       [''fee_category_group'', ''revenue_group'', ''revenue_action_type'', ''fee_category'',
        ''fee_code'', ''num_units'', ''basis_amount'']),
      (''RevenueActionFeeCode'',
       [''id'', ''uuid'', ''fee_category_group'', ''revenue_group'', ''revenue_share_group'',
        ''developer_uuid'', ''developer_app_uuid'', ''app_subscription_uuid'',
        ''app_metered_uuid'', ''merchant_plan_uuid'', ''revenue_action_type'',
        ''effective_date'', ''fee_category'', ''fee_code'', ''deleted_date'',
        ''created_timestamp'', ''modified_timestamp'', ''audit_id''],
       [''fee_category_group'', ''revenue_group'', ''revenue_action_type'', ''fee_category'',
        ''fee_code'', ''effective_date'']),
      (''RevenueShareGroup'',
       [''id'', ''uuid'', ''revenue_share_group'', ''short_desc'', ''description'',
        ''created_timestamp'', ''modified_timestamp''],
       [''revenue_share_group'', ''short_desc'']),
      (''ServerConfig'',
       [''id'', ''config_key'', ''config_value'', ''created_timestamp'',
        ''modified_timestamp''],
       [''config_key'', ''config_value'']),
      (''Settlement'',
       [''id'', ''uuid'', ''settlement_date'', ''billing_entity_uuid'', ''entity_uuid'',
        ''alternate_id'', ''payable_receivable'', ''currency'', ''total_amount'',
        ''fee_amount'', ''tax1_amount'', ''tax2_amount'', ''tax3_amount'', ''tax4_amount'',
        ''lookup_ledger_account_key'', ''gl_code'', ''item_code'', ''last_invoice_num'',
        ''request_uuid'', ''created_timestamp'', ''modified_timestamp''],
       [''settlement_date'', ''payable_receivable'', ''currency'', ''total_amount'',
        ''fee_amount'']),
      (''SettlementAction'',
       [''id'', ''uuid'', ''settlement_uuid'', ''action_date'', ''action'', ''currency'',
        ''total_amount'', ''fee_amount'', ''tax1_amount'', ''tax2_amount'', ''tax3_amount'',
        ''tax4_amount'', ''reject_code'', ''message'', ''ledger_account_transition_uuid'',
        ''credit_ledger_account_uuid'', ''debit_ledger_account_uuid'', ''created_timestamp''],
       [''action_date'', ''action'', ''currency'', ''total_amount'', ''fee_amount'']),
      (''SettlementMutation'',
       [''id'', ''mutation_action'', ''mutation_timestamp'', ''settlement_id'', ''uuid'',
        ''settlement_date'', ''billing_entity_uuid'', ''entity_uuid'', ''alternate_id'',
        ''payable_receivable'', ''currency'', ''total_amount'', ''fee_amount'',
        ''tax1_amount'', ''tax2_amount'', ''tax3_amount'', ''tax4_amount'',
        ''lookup_ledger_account_key'', ''gl_code'', ''item_code'', ''last_invoice_num'',
        ''request_uuid'', ''created_timestamp'', ''modified_timestamp''],
       [''mutation_action'', ''payable_receivable'', ''currency'', ''total_amount'',
        ''fee_amount'']),
      (''SkipFeeCategoryLexiTag'',
       [''id'', ''uuid'', ''fee_category'', ''created_timestamp''],
       [''fee_category'']),
      (''TierDetail'',
       [''id'', ''uuid'', ''tiered_rule_uuid'', ''min_units'', ''min_amount'', ''currency'',
        ''rate_fee_category'', ''rate_fee_code'', ''short_desc'', ''created_timestamp'',
        ''modified_timestamp'', ''audit_id''],
       [''min_units'', ''min_amount'', ''currency'', ''rate_fee_category'',
        ''rate_fee_code'', ''short_desc'']),
      (''TieredPricing'',
       [''id'', ''uuid'', ''billing_entity_uuid'', ''tiered_rule_uuid'', ''effective_date'',
        ''deleted_date'', ''created_timestamp'', ''modified_timestamp'', ''audit_id''],
       [''effective_date'']),
      (''TieredQualifier'',
       [''id'', ''uuid'', ''tiered_rule_uuid'', ''fee_category'', ''fee_code'',
        ''negate_fee_summary'', ''disqualify'', ''created_timestamp'', ''audit_id''],
       [''fee_category'', ''fee_code'', ''negate_fee_summary'', ''disqualify'']),
      (''TieredRule'',
       [''id'', ''uuid'', ''rule_status'', ''rule_alias'', ''tiered_basis'',
        ''tiered_model'', ''target_entity_type'', ''short_desc'', ''full_desc'',
        ''created_timestamp'', ''modified_timestamp'', ''audit_id''],
       [''rule_status'', ''rule_alias'', ''tiered_basis'', ''tiered_model'',
        ''target_entity_type'', ''short_desc''])]"

text \<open>
  The classes whose \<^verbatim>\<open>to_minimal_dict\<close> is \<^verbatim>\<open>self.model_dump(include=...)\<close>; all others use
  \<^verbatim>\<open>json.loads(self.model_dump_json(include=...))\<close>.
\<close>

definition dump_mode_classes :: "string list" where
  "dump_mode_classes = [''AdjustAction'', ''PlanAction'']"

section \<open>Notions used in the properties\<close>

text \<open>
  A constructor call does not consult the clock when every field with
  \<^verbatim>\<open>default_factory=datetime.datetime.now\<close> is given as a keyword.
\<close>

definition clock_free :: "model \<Rightarrow> (string \<times> py) list \<Rightarrow> bool" where
  "clock_free M kw =
     list_all (\<lambda>f. f_default f = DefaultFactoryNow \<longrightarrow> f_name f \<in> set (map fst kw)) (m_fields M)"

text \<open>
  The block \<^verbatim>\<open>if __name__ == "__main__": main()\<close>: standard output and the exit status of
  the process. The value that \<^verbatim>\<open>main\<close> returns is not used; the interpreter ends with
  status 0 once \<^verbatim>\<open>main\<close> has returned.
\<close>

definition run_module ::
  "(string \<Rightarrow> string \<Rightarrow> errtype \<Rightarrow> string) \<Rightarrow> model \<Rightarrow> (string \<Rightarrow> string \<Rightarrow> datetime)
    \<Rightarrow> string \<times> int" where
  "run_module detail II clk = (fst (main detail II clk), 0)"

text \<open>A clock that shows the same time at every reading.\<close>

definition constant_clock :: "datetime \<Rightarrow> string \<Rightarrow> string \<Rightarrow> datetime" where
  "constant_clock t key field_name = t"

text \<open>The number of lines of a text: its newline characters.\<close>

definition line_count :: "string \<Rightarrow> nat" where
  "line_count s = length (filter (\<lambda>c. c = CHR 0x0A) s)"

text \<open>
  A value that is within what a field declares: \<^verbatim>\<open>None\<close> for an \<^verbatim>\<open>Optional\<close> field;
  otherwise a value of the field's type that meets every constraint of the field: an integer
  above its bound, a string no longer than \<^verbatim>\<open>max_length\<close>, a member of the enumeration or
  one of the literal strings, a decimal with no more digits than \<^verbatim>\<open>max_digits\<close>, no more
  decimal places than \<^verbatim>\<open>decimal_places\<close> and no more digits before the point than the
  two leave.
\<close>

definition meets :: "constraint list \<Rightarrow> py \<Rightarrow> constraint \<Rightarrow> bool" where
  "meets cs v c =
     (case (c, v) of
        (Gt n, PyInt i) \<Rightarrow> n < i
      | (Ge n, PyInt i) \<Rightarrow> n \<le> i
      | (MaxLength n, PyStr s) \<Rightarrow> length s \<le> n
      | (MaxDigits m, PyDecimal d) \<Rightarrow> fst (digits_info (normalize d)) \<le> m
      | (DecimalPlaces p, PyDecimal d) \<Rightarrow>
          snd (digits_info (normalize d)) \<le> p
          \<and> (case max_digits_of cs of
                None \<Rightarrow> True
              | Some m \<Rightarrow> fst (digits_info d) - snd (digits_info d) \<le> m - p)
      | _ \<Rightarrow> True)"

definition of_type :: "ftype \<Rightarrow> py \<Rightarrow> bool" where
  "of_type t v =
     (case (t, v) of
        (TInt, PyInt i) \<Rightarrow> True
      | (TStr, PyStr s) \<Rightarrow> True
      | (TBool, PyBool b) \<Rightarrow> True
      | (TDecimal, PyDecimal d) \<Rightarrow> True
      | (TDate, PyDate d) \<Rightarrow> True
      | (TDateTime, PyDateTime d) \<Rightarrow> True
      | (TEnum vs, PyEnum s) \<Rightarrow> s \<in> set vs
      | (TLiteral vs, PyStr s) \<Rightarrow> s \<in> set vs
      | _ \<Rightarrow> False)"

definition conforms :: "field \<Rightarrow> py \<Rightarrow> bool" where
  "conforms f v =
     (if v = PyNone then f_optional f
      else of_type (f_type f) v \<and> list_all (meets (f_constraints f) v) (f_constraints f))"

text \<open>
  All keyword arguments of a call are within what the class declares, and no required field
  is left out.
\<close>

definition acceptable :: "model \<Rightarrow> (string \<times> py) list \<Rightarrow> bool" where
  "acceptable M kw =
     list_all (\<lambda>f. case map_of kw (f_name f) of
                      Some v \<Rightarrow> conforms f v
                    | None \<Rightarrow> f_default f \<noteq> Required) (m_fields M)"

text \<open>
  \<^verbatim>\<open>Cls.model_validate_json(text)\<close> on the text of a JSON object: the members of the
  object are validated like keyword arguments.
\<close>

definition model_validate_json ::
  "model \<Rightarrow> (string \<Rightarrow> datetime) \<Rightarrow> (string \<times> py) list \<Rightarrow> exn + obj" where
  "model_validate_json M now doc = construct M now doc"

section \<open>Properties\<close>


lemma dict_keys_dict_set: "set (dict_keys (dict_set k v d)) = insert k (set (dict_keys d))"
  unfolding dict_keys_def by (induction k v d rule: dict_set.induct) (simp_all, blast?)

lemma dict_keys_dict_set_mem: "k \<in> set (dict_keys d) \<Longrightarrow> dict_keys (dict_set k v d) = dict_keys d"
  unfolding dict_keys_def by (induction k v d rule: dict_set.induct) (simp_all, force?)

lemma dict_keys_dict_set_new: "k \<notin> set (dict_keys d) \<Longrightarrow> dict_set k v d = d @ [(k, v)]"
  by (induction d) (auto simp: dict_keys_def)

lemma map_of_dict_set: "map_of (dict_set k v d) k' = (if k' = k then Some v else map_of d k')"
  by (induction d) auto

lemma add_node_new:
  "n \<notin> set (dict_keys (g_succ G)) \<Longrightarrow>
   g_succ (add_node n attr G) = g_succ G @ [(n, [])] \<and>
   g_node (add_node n attr G) = g_node G @ [(n, dict_update [] attr)]"
  by (simp add: add_node_def)

lemma add_nodes_new:
  "add_nodes data cs G = Inr G' \<Longrightarrow> distinct (map fst cs) \<Longrightarrow>
   set (map fst cs) \<inter> set (dict_keys (g_succ G)) = {} \<Longrightarrow>
   g_succ G' = g_succ G @ map (\<lambda>c. (fst c, [])) cs \<and>
   map fst (g_node G') = map fst (g_node G) @ map fst cs"
proof (induction cs arbitrary: G)
  case Nil
  then show ?case by simp
next
  case (Cons c cs)
  obtain n key tbl where c: "c = (n, key, tbl)" by (cases c)
  from Cons.prems(1) c obtain x where x: "map_of data key = Some x"
    and rec: "add_nodes data cs (add_node n (create_node_data x tbl) G) = Inr G'"
    by (auto split: option.splits)
  have new: "n \<notin> set (dict_keys (g_succ G))" using Cons.prems(3) c by auto
  have d: "distinct (map fst cs)" and nn: "n \<notin> set (map fst cs)" using Cons.prems(2) c by auto
  have disj: "set (map fst cs) \<inter> set (dict_keys (g_succ (add_node n (create_node_data x tbl) G))) = {}"
    using Cons.prems(3) nn c by (auto simp: add_node_new[OF new] dict_keys_def)
  from Cons.IH[OF rec d disj] show ?case
    by (simp add: add_node_new[OF new] c)
qed

lemma add_edge_present:
  "u \<in> set (dict_keys (g_succ G)) \<Longrightarrow> v \<in> set (dict_keys (g_succ G)) \<Longrightarrow>
   add_edge u v G =
     G\<lparr>g_succ := dict_set u
        (let nbrs = (case map_of (g_succ G) u of None \<Rightarrow> [] | Some vs \<Rightarrow> vs)
         in if v \<in> set nbrs then nbrs else nbrs @ [v]) (g_succ G)\<rparr>"
  by (auto simp: add_edge_def Let_def split: option.splits)

lemma dict_set_map:
  "distinct N \<Longrightarrow> u \<in> set N \<Longrightarrow>
   dict_set u w (map (\<lambda>n. (n, f n)) N) = map (\<lambda>n. (n, if n = u then w else f n)) N"
  by (induction N) auto

lemma map_of_map_key: "u \<in> set N \<Longrightarrow> map_of (map (\<lambda>n. (n, f n)) N) u = Some (f u)"
  by (induction N) auto

lemma add_edges_from_snoc:
  "add_edges_from (es @ [e]) G = add_edge (fst e) (snd e) (add_edges_from es G)"
  by (simp add: add_edges_from_def)

lemma add_edges_from_succ:
  assumes N: "distinct N" and G: "g_succ G = map (\<lambda>n. (n, [])) N"
    and es: "distinct es" and mem: "\<forall>e \<in> set es. fst e \<in> set N \<and> snd e \<in> set N"
  shows "g_succ (add_edges_from es G) = map (\<lambda>n. (n, map snd [e \<leftarrow> es. fst e = n])) N
         \<and> g_node (add_edges_from es G) = g_node G"
  using es mem
proof (induction es rule: rev_induct)
  case Nil
  then show ?case by (simp add: add_edges_from_def G)
next
  case (snoc e es)
  let ?G = "add_edges_from es G"
  let ?f = "\<lambda>n. map snd [e \<leftarrow> es. fst e = n]"
  obtain u v where e: "e = (u, v)" by (cases e)
  have IH: "g_succ ?G = map (\<lambda>n. (n, ?f n)) N" "g_node ?G = g_node G"
    using snoc by auto
  have keys: "dict_keys (g_succ ?G) = N" by (simp add: IH dict_keys_def comp_def)
  have u: "u \<in> set N" and v: "v \<in> set N" using snoc.prems(2) e by auto
  have fresh: "v \<notin> set (?f u)" using snoc.prems(1) e by force
  have "add_edge u v ?G =
     ?G\<lparr>g_succ := dict_set u
        (let nbrs = (case map_of (g_succ ?G) u of None \<Rightarrow> [] | Some vs \<Rightarrow> vs)
         in if v \<in> set nbrs then nbrs else nbrs @ [v]) (g_succ ?G)\<rparr>"
    by (rule add_edge_present) (simp_all add: keys u v)
  also have "(case map_of (g_succ ?G) u of None \<Rightarrow> [] | Some vs \<Rightarrow> vs) = ?f u"
    by (simp add: IH(1) map_of_map_key[OF u])
  also have "(let nbrs = ?f u in if v \<in> set nbrs then nbrs else nbrs @ [v]) = ?f u @ [v]"
    using fresh by (simp add: Let_def)
  also have "dict_set u (?f u @ [v]) (g_succ ?G)
             = map (\<lambda>n. (n, if n = u then ?f u @ [v] else ?f n)) N"
    by (simp add: IH(1) dict_set_map[OF N u])
  also have "\<dots> = map (\<lambda>n. (n, map snd [e' \<leftarrow> es @ [e]. fst e' = n])) N"
    by (rule map_cong) (auto simp: e)
  finally show ?case
    by (simp add: add_edges_from_snoc e IH(2))
qed

lemma edges_of_succ:
  "g_succ G = map (\<lambda>n. (n, map snd [e \<leftarrow> es. fst e = n])) N \<Longrightarrow>
   edges G = concat (map (\<lambda>n. [e \<leftarrow> es. fst e = n]) N)"
proof -
  have *: "map (\<lambda>x. (n, snd x)) [e \<leftarrow> es. fst e = n] = [e \<leftarrow> es. fst e = n]" for n
    by (induction es) auto
  assume "g_succ G = map (\<lambda>n. (n, map snd [e \<leftarrow> es. fst e = n])) N"
  then show ?thesis by (simp add: edges_def comp_def *)
qed

lemma add_declared_edges_eq: "add_declared_edges G = add_edges_from declared_edges G"
  by (simp add: add_declared_edges_def add_edges_from_def declared_edges_def)

lemma declared_edges_grouped:
  "concat (map (\<lambda>n. [e \<leftarrow> declared_edges. fst e = n]) (map fst node_calls)) = declared_edges"
  by (simp add: declared_edges_def node_calls_def invoice_to_fee_rates_def
      fee_rates_to_fee_summaries_def fee_summaries_to_settlements_def
      settlements_to_billing_entities_def)

lemma declared_edges_distinct: "distinct declared_edges"
  by (simp add: declared_edges_def invoice_to_fee_rates_def
      fee_rates_to_fee_summaries_def fee_summaries_to_settlements_def
      settlements_to_billing_entities_def)

lemma node_ids_distinct: "distinct (map fst node_calls)"
  by (simp add: node_calls_def)

lemma declared_edges_mem: "\<forall>e \<in> set declared_edges. fst e \<in> set (map fst node_calls) \<and> snd e \<in> set (map fst node_calls)"
  by (simp add: declared_edges_def node_calls_def invoice_to_fee_rates_def
      fee_rates_to_fee_summaries_def fee_summaries_to_settlements_def
      settlements_to_billing_entities_def)


lemma show_nat_numeral:
  "show_nat (numeral k) =
     (if (numeral k :: nat) < 10 then [digit_char (numeral k)]
      else show_nat (numeral k div 10) @ [digit_char (numeral k mod 10)])"
  by (rule show_nat.simps)

lemma show_nat_0: "show_nat 0 = ''0''"
  by (simp add: show_nat.simps digit_char_def)

lemma show_nat_1: "show_nat 1 = ''1''" "show_nat (Suc 0) = ''1''"
  by (simp_all add: show_nat.simps digit_char_def)

lemma strip_zeros_numeral:
  "strip_zeros (numeral k) e =
     (if (numeral k :: nat) mod 10 = 0 then strip_zeros (numeral k div 10) (e + 1)
      else (numeral k, e))"
  by (subst strip_zeros.simps) simp

lemma strip_zeros_1: "strip_zeros 1 e = (1, e)" "strip_zeros (Suc 0) e = (Suc 0, e)"
  by (simp_all add: strip_zeros.simps)

lemmas eval_simps =
  show_nat_numeral show_nat_0 show_nat_1 strip_zeros_numeral strip_zeros_1 digit_char_def
  validate_field_def validate_type_def check_constraint_def max_digits_of_def
  digits_info_def normalize_def Let_def

lemma map_of_nth:
  "distinct (map fst kw) \<Longrightarrow> i < length kw \<Longrightarrow> map_of kw (fst (kw ! i)) = Some (snd (kw ! i))"
  by (metis map_of_eq_Some_iff nth_mem prod.collapse)

lemma collect_all_Inr: "collect (map (\<lambda>kv. (fst kv, Inr (snd kv))) kw) = ([], kw)"
  by (induction kw) auto

lemma construct_identity:
  assumes all: "list_all2 (\<lambda>f kv. f_name f = fst kv \<and> validate_field f (snd kv) = Inr (snd kv))
                  (m_fields M) kw"
    and dist: "distinct (map fst kw)"
  shows "construct M now kw = Inr (Obj M kw)"
proof -
  have len: "length (m_fields M) = length kw" using all by (rule list_all2_lengthD)
  have "map (\<lambda>f. (f_name f, field_value now kw f)) (m_fields M)
        = map (\<lambda>kv. (fst kv, Inr (snd kv))) kw"
  proof (rule nth_equalityI)
    show "length (map (\<lambda>f. (f_name f, field_value now kw f)) (m_fields M))
          = length (map (\<lambda>kv. (fst kv, Inr (snd kv))) kw)" using len by simp
  next
    fix i assume "i < length (map (\<lambda>f. (f_name f, field_value now kw f)) (m_fields M))"
    then have i: "i < length kw" "i < length (m_fields M)" using len by simp_all
    from all i have n: "f_name (m_fields M ! i) = fst (kw ! i)"
      and v: "validate_field (m_fields M ! i) (snd (kw ! i)) = Inr (snd (kw ! i))"
      by (auto simp: list_all2_conv_all_nth)
    show "map (\<lambda>f. (f_name f, field_value now kw f)) (m_fields M) ! i
          = map (\<lambda>kv. (fst kv, Inr (snd kv))) kw ! i"
      using i n v by (simp add: field_value_def map_of_nth[OF dist])
  qed
  then show ?thesis by (simp add: construct_def collect_all_Inr)
qed

lemma merchant_ok:
  "construct BillingEntity now merchant_billing_entity_kwargs
   = Inr (Obj BillingEntity merchant_billing_entity_kwargs)"
  by (rule construct_identity)
     (simp_all add: BillingEntity_def merchant_billing_entity_kwargs_def EntityType_def eval_simps)

lemma fee_rate_1_ok:
  "construct FeeRate now fee_rate_1_kwargs = Inr (Obj FeeRate fee_rate_1_kwargs)"
  by (rule construct_identity)
     (simp_all add: FeeRate_def fee_rate_1_kwargs_def ApplyType_def eval_simps)

lemma fee_summary_1_ok:
  "construct FeeSummary now fee_summary_1_kwargs = Inr (Obj FeeSummary fee_summary_1_kwargs)"
  by (rule construct_identity)
     (simp_all add: FeeSummary_def fee_summary_1_kwargs_def eval_simps)

lemma settlement_1_ok:
  "construct Settlement now settlement_1_kwargs = Inr (Obj Settlement settlement_1_kwargs)"
  by (rule construct_identity)
     (simp_all add: Settlement_def settlement_1_kwargs_def eval_simps)

lemma invoice_ok:
  "construct InvoiceInfo now invoice_info_kwargs = Inr (Obj InvoiceInfo invoice_info_kwargs)"
  by (rule construct_identity)
     (simp_all add: InvoiceInfo_def invoice_info_kwargs_def eval_simps)


lemma construct_merchant_billing_entity:
  "construct BillingEntity now merchant_billing_entity_kwargs = Inr (Obj BillingEntity merchant_billing_entity_kwargs)"
  by (rule construct_identity)
     (simp_all add: BillingEntity_def merchant_billing_entity_kwargs_def EntityType_def eval_simps)

lemma construct_clover_billing_entity:
  "construct BillingEntity now clover_billing_entity_kwargs = Inr (Obj BillingEntity clover_billing_entity_kwargs)"
  by (rule construct_identity)
     (simp_all add: BillingEntity_def clover_billing_entity_kwargs_def EntityType_def eval_simps)

lemma construct_us_support_billing_entity:
  "construct BillingEntity now us_support_billing_entity_kwargs = Inr (Obj BillingEntity us_support_billing_entity_kwargs)"
  by (rule construct_identity)
     (simp_all add: BillingEntity_def us_support_billing_entity_kwargs_def EntityType_def eval_simps)

lemma construct_invoice_info:
  "construct InvoiceInfo now invoice_info_kwargs = Inr (Obj InvoiceInfo invoice_info_kwargs)"
  by (rule construct_identity)
     (simp_all add: InvoiceInfo_def invoice_info_kwargs_def  eval_simps)

lemma construct_fee_rate_1:
  "construct FeeRate now fee_rate_1_kwargs = Inr (Obj FeeRate fee_rate_1_kwargs)"
  by (rule construct_identity)
     (simp_all add: FeeRate_def fee_rate_1_kwargs_def ApplyType_def eval_simps)

lemma construct_fee_rate_2:
  "construct FeeRate now fee_rate_2_kwargs = Inr (Obj FeeRate fee_rate_2_kwargs)"
  by (rule construct_identity)
     (simp_all add: FeeRate_def fee_rate_2_kwargs_def ApplyType_def eval_simps)

lemma construct_fee_rate_3:
  "construct FeeRate now fee_rate_3_kwargs = Inr (Obj FeeRate fee_rate_3_kwargs)"
  by (rule construct_identity)
     (simp_all add: FeeRate_def fee_rate_3_kwargs_def ApplyType_def eval_simps)

lemma construct_fee_rate_4:
  "construct FeeRate now fee_rate_4_kwargs = Inr (Obj FeeRate fee_rate_4_kwargs)"
  by (rule construct_identity)
     (simp_all add: FeeRate_def fee_rate_4_kwargs_def ApplyType_def eval_simps)

lemma construct_fee_rate_5:
  "construct FeeRate now fee_rate_5_kwargs = Inr (Obj FeeRate fee_rate_5_kwargs)"
  by (rule construct_identity)
     (simp_all add: FeeRate_def fee_rate_5_kwargs_def ApplyType_def eval_simps)

lemma construct_fee_rate_6:
  "construct FeeRate now fee_rate_6_kwargs = Inr (Obj FeeRate fee_rate_6_kwargs)"
  by (rule construct_identity)
     (simp_all add: FeeRate_def fee_rate_6_kwargs_def ApplyType_def eval_simps)

lemma construct_fee_summary_1:
  "construct FeeSummary now fee_summary_1_kwargs = Inr (Obj FeeSummary fee_summary_1_kwargs)"
  by (rule construct_identity)
     (simp_all add: FeeSummary_def fee_summary_1_kwargs_def  eval_simps)

lemma construct_fee_summary_2:
  "construct FeeSummary now fee_summary_2_kwargs = Inr (Obj FeeSummary fee_summary_2_kwargs)"
  by (rule construct_identity)
     (simp_all add: FeeSummary_def fee_summary_2_kwargs_def  eval_simps)

lemma construct_fee_summary_3:
  "construct FeeSummary now fee_summary_3_kwargs = Inr (Obj FeeSummary fee_summary_3_kwargs)"
  by (rule construct_identity)
     (simp_all add: FeeSummary_def fee_summary_3_kwargs_def  eval_simps)

lemma construct_fee_summary_4:
  "construct FeeSummary now fee_summary_4_kwargs = Inr (Obj FeeSummary fee_summary_4_kwargs)"
  by (rule construct_identity)
     (simp_all add: FeeSummary_def fee_summary_4_kwargs_def  eval_simps)

lemma construct_fee_summary_5:
  "construct FeeSummary now fee_summary_5_kwargs = Inr (Obj FeeSummary fee_summary_5_kwargs)"
  by (rule construct_identity)
     (simp_all add: FeeSummary_def fee_summary_5_kwargs_def  eval_simps)

lemma construct_fee_summary_6:
  "construct FeeSummary now fee_summary_6_kwargs = Inr (Obj FeeSummary fee_summary_6_kwargs)"
  by (rule construct_identity)
     (simp_all add: FeeSummary_def fee_summary_6_kwargs_def  eval_simps)

lemma construct_settlement_1:
  "construct Settlement now settlement_1_kwargs = Inr (Obj Settlement settlement_1_kwargs)"
  by (rule construct_identity)
     (simp_all add: Settlement_def settlement_1_kwargs_def  eval_simps)

lemma construct_settlement_2:
  "construct Settlement now settlement_2_kwargs = Inr (Obj Settlement settlement_2_kwargs)"
  by (rule construct_identity)
     (simp_all add: Settlement_def settlement_2_kwargs_def  eval_simps)

lemma construct_settlement_3:
  "construct Settlement now settlement_3_kwargs = Inr (Obj Settlement settlement_3_kwargs)"
  by (rule construct_identity)
     (simp_all add: Settlement_def settlement_3_kwargs_def  eval_simps)

lemma construct_settlement_4:
  "construct Settlement now settlement_4_kwargs = Inr (Obj Settlement settlement_4_kwargs)"
  by (rule construct_identity)
     (simp_all add: Settlement_def settlement_4_kwargs_def  eval_simps)


lemmas construct_sample =
  construct_merchant_billing_entity
  construct_clover_billing_entity
  construct_us_support_billing_entity
  construct_fee_rate_1
  construct_fee_rate_2
  construct_fee_rate_3
  construct_fee_rate_4
  construct_fee_rate_5
  construct_fee_rate_6
  construct_fee_summary_1
  construct_fee_summary_2
  construct_fee_summary_3
  construct_fee_summary_4
  construct_fee_summary_5
  construct_fee_summary_6
  construct_settlement_1
  construct_settlement_2
  construct_settlement_3
  construct_settlement_4

text \<open>The objects of a successful run: all are fixed but the invoice.\<close>

lemma create_pydantic_objects_eq:
  "create_pydantic_objects II clk =
     (case construct II (clk ''invoice_info'') invoice_info_kwargs of
        Inl e \<Rightarrow> Inl e
      | Inr x \<Rightarrow> Inr (map (\<lambda>(key, M, kw). (key, if key = ''invoice_info'' then x else Obj M kw))
                      (constructor_calls II)))"
  by (simp add: create_pydantic_objects_def constructor_calls_def construct_sample
      split: sum.splits)

lemma add_nodes_total:
  "\<forall>c \<in> set cs. fst (snd c) \<in> fst ` set data \<Longrightarrow> \<exists>G'. add_nodes data cs G = Inr G'"
proof (induction cs arbitrary: G)
  case Nil
  then show ?case by simp
next
  case (Cons c cs)
  obtain n key tbl where c: "c = (n, key, tbl)" by (cases c)
  from Cons.prems c have "key \<in> fst ` set data" by simp
  then obtain x where "map_of data key = Some x"
    by (metis domD dom_map_of_conv_image_fst)
  with Cons c show ?case by simp
qed

lemma create_pydantic_objects_keys:
  "create_pydantic_objects II clk = Inr data \<Longrightarrow> map fst data = map fst (constructor_calls II)"
  by (auto simp: create_pydantic_objects_eq split: sum.splits)

lemma node_keys_present:
  "\<forall>c \<in> set node_calls. fst (snd c) \<in> set (map fst (constructor_calls II))"
  by (simp add: node_calls_def constructor_calls_def)

lemma create_graph_Inr_iff:
  "(\<exists>G. create_graph II clk = Inr G) \<longleftrightarrow>
   (\<exists>x. construct II (clk ''invoice_info'') invoice_info_kwargs = Inr x)"
proof
  assume "\<exists>G. create_graph II clk = Inr G"
  then show "\<exists>x. construct II (clk ''invoice_info'') invoice_info_kwargs = Inr x"
    by (auto simp: create_graph_def create_pydantic_objects_eq split: sum.splits)
next
  assume "\<exists>x. construct II (clk ''invoice_info'') invoice_info_kwargs = Inr x"
  then obtain data where d: "create_pydantic_objects II clk = Inr data"
    by (auto simp: create_pydantic_objects_eq)
  have "\<forall>c \<in> set node_calls. fst (snd c) \<in> fst ` set data"
    using node_keys_present[of II] create_pydantic_objects_keys[OF d] by (metis set_map)
  from add_nodes_total[OF this] obtain G' where "add_nodes data node_calls DiGraph = Inr G'"
    by blast
  with d show "\<exists>G. create_graph II clk = Inr G" by (simp add: create_graph_def)
qed

lemma create_graph_structure:
  assumes "create_graph II clk = Inr G"
  shows "map fst (nodes_data G) = map fst node_calls" and "edges G = declared_edges"
proof -
  from assms obtain data G1 where d: "create_pydantic_objects II clk = Inr data"
    and G1: "add_nodes data node_calls DiGraph = Inr G1"
    and G: "G = add_declared_edges G1"
    by (auto simp: create_graph_def split: sum.splits)
  have s1: "g_succ G1 = map (\<lambda>n. (n, [])) (map fst node_calls)"
    and n1: "map fst (g_node G1) = map fst node_calls"
    using add_nodes_new[OF G1 node_ids_distinct] by (simp_all add: DiGraph_def dict_keys_def comp_def)
  note r = add_edges_from_succ[OF node_ids_distinct s1 declared_edges_distinct declared_edges_mem]
  show "map fst (nodes_data G) = map fst node_calls"
    using r n1 by (simp add: G add_declared_edges_eq nodes_data_def)
  show "edges G = declared_edges"
    using edges_of_succ[of G declared_edges "map fst node_calls"] r declared_edges_grouped
    by (simp add: G add_declared_edges_eq)
qed


text \<open>
  Claim C2. The graph that \<^verbatim>\<open>create_graph\<close> returns has exactly 20 nodes and exactly 27
  edges: one from the merchant billing entity to the invoice, six from the invoice to the six
  fee rates, one from each fee rate to its own fee summary, six from the fee summaries to the
  settlements (summaries 1 to 3 each to their own settlement, summaries 4 to 6 all to
  settlement 4), and two from each of the four settlements to the two other billing entities.
\<close>

theorem sample_graph_shape:
  assumes "create_graph II clk = Inr G"
  shows "length (nodes_data G) = 20 \<and> distinct (map fst (nodes_data G))
    \<and> length (edges G) = 27 \<and> distinct (edges G)
    \<and> edges G =
        (let fee_rates = [''fee_rate_1'', ''fee_rate_2'', ''fee_rate_3'',
                          ''fee_rate_4'', ''fee_rate_5'', ''fee_rate_6''];
             fee_summaries = [''fee_summary_1'', ''fee_summary_2'', ''fee_summary_3'',
                              ''fee_summary_4'', ''fee_summary_5'', ''fee_summary_6''];
             settlements = [''settlement_1'', ''settlement_2'', ''settlement_3'', ''settlement_4'']
         in [(''billing_entity_merchant'', ''invoice_info_1'')]
            @ map (\<lambda>r. (''invoice_info_1'', r)) fee_rates
            @ zip fee_rates fee_summaries
            @ zip fee_summaries [''settlement_1'', ''settlement_2'', ''settlement_3'',
                                 ''settlement_4'', ''settlement_4'', ''settlement_4'']
            @ concat (map (\<lambda>s. [(s, ''billing_entity_clover''),
                                  (s, ''billing_entity_us_support'')]) settlements))"
proof -
  note s = create_graph_structure[OF assms]
  have n: "length (nodes_data G) = 20"
    using arg_cong[OF s(1), of length] by (simp add: node_calls_def)
  have d: "distinct (map fst (nodes_data G))"
    by (simp add: s(1) node_ids_distinct)
  have e: "length (edges G) = 27"
    by (simp add: s(2) declared_edges_def invoice_to_fee_rates_def
      fee_rates_to_fee_summaries_def fee_summaries_to_settlements_def
      settlements_to_billing_entities_def)
  have de: "distinct (edges G)"
    by (simp add: s(2) declared_edges_distinct)
  have sh: "edges G =
        (let fee_rates = [''fee_rate_1'', ''fee_rate_2'', ''fee_rate_3'',
                          ''fee_rate_4'', ''fee_rate_5'', ''fee_rate_6''];
             fee_summaries = [''fee_summary_1'', ''fee_summary_2'', ''fee_summary_3'',
                              ''fee_summary_4'', ''fee_summary_5'', ''fee_summary_6''];
             settlements = [''settlement_1'', ''settlement_2'', ''settlement_3'', ''settlement_4'']
         in [(''billing_entity_merchant'', ''invoice_info_1'')]
            @ map (\<lambda>r. (''invoice_info_1'', r)) fee_rates
            @ zip fee_rates fee_summaries
            @ zip fee_summaries [''settlement_1'', ''settlement_2'', ''settlement_3'',
                                 ''settlement_4'', ''settlement_4'', ''settlement_4'']
            @ concat (map (\<lambda>s. [(s, ''billing_entity_clover''),
                                  (s, ''billing_entity_us_support'')]) settlements))"
    by (simp add: s(2) declared_edges_def invoice_to_fee_rates_def
      fee_rates_to_fee_summaries_def fee_summaries_to_settlements_def
      settlements_to_billing_entities_def Let_def)
  from n d e de sh show ?thesis by blast
qed

theorem sample_graph_shape_witness:
  "\<exists>G. create_graph InvoiceInfo (\<lambda>key field. DateTime 2025 6 2 15 6 43 378289) = Inr G
     \<and> length (nodes_data G) = 20 \<and> length (edges G) = 27"
proof -
  obtain G where G: "create_graph InvoiceInfo (\<lambda>key field. DateTime 2025 6 2 15 6 43 378289) = Inr G"
    using create_graph_Inr_iff[of InvoiceInfo] construct_invoice_info by blast
  from sample_graph_shape[OF G] G show ?thesis by blast
qed

text \<open>
  Claim C10. The graph that \<^verbatim>\<open>create_graph\<close> returns is acyclic: no non-empty sequence of
  its edges leads from a node back to itself.
\<close>

theorem sample_graph_acyclic:
  assumes "create_graph II clk = Inr G"
  shows "\<forall>n. (n, n) \<notin> (set (edges G))\<^sup>+"
proof -
  define stage :: "string \<Rightarrow> nat" where
    "stage = (\<lambda>n. if n = ''billing_entity_merchant'' then 5
                   else if n = ''invoice_info_1'' then 4
                   else if n \<in> set (map snd invoice_to_fee_rates) then 3
                   else if n \<in> set (map snd fee_rates_to_fee_summaries) then 2
                   else if n \<in> set (map snd fee_summaries_to_settlements) then 1
                   else 0)"
  have dec: "\<forall>e \<in> set declared_edges. stage (snd e) < stage (fst e)"
    by (simp add: stage_def declared_edges_def invoice_to_fee_rates_def
      fee_rates_to_fee_summaries_def fee_summaries_to_settlements_def
      settlements_to_billing_entities_def)
  have "acyclic (set declared_edges)"
    by (rule acyclicI_order[where f = stage]) (use dec in auto)
  then show ?thesis
    by (simp add: create_graph_structure(2)[OF assms] acyclic_def)
qed

theorem sample_graph_acyclic_witness:
  "\<exists>G. create_graph InvoiceInfo (\<lambda>key field. DateTime 2025 6 2 15 6 43 378289) = Inr G
     \<and> (\<forall>n. (n, n) \<notin> (set (edges G))\<^sup>+)"
proof -
  obtain G where G: "create_graph InvoiceInfo (\<lambda>key field. DateTime 2025 6 2 15 6 43 378289) = Inr G"
    using create_graph_Inr_iff[of InvoiceInfo] construct_invoice_info by blast
  from sample_graph_acyclic[OF G] G show ?thesis by blast
qed


lemma construct_clock_free:
  assumes "clock_free M kw"
  shows "construct M now kw = construct M now' kw"
proof -
  have "field_value now kw f = field_value now' kw f" if "f \<in> set (m_fields M)" for f
  proof (cases "map_of kw (f_name f)")
    case None
    then have "f_name f \<notin> set (map fst kw)" by (simp add: map_of_eq_None_iff)
    with assms that have "f_default f \<noteq> DefaultFactoryNow"
      by (auto simp: clock_free_def list_all_iff)
    with None show ?thesis by (cases "f_default f") (simp_all add: field_value_def)
  next
    case (Some v)
    then show ?thesis by (simp add: field_value_def)
  qed
  then have eq: "map (\<lambda>f. (f_name f, field_value now kw f)) (m_fields M)
             = map (\<lambda>f. (f_name f, field_value now' kw f)) (m_fields M)"
    by (intro map_cong) auto
  show ?thesis by (simp only: construct_def eq)
qed

lemma create_graph_clock_free:
  assumes "clock_free II invoice_info_kwargs"
  shows "create_graph II clk = create_graph II clk'"
proof -
  have "construct II (clk ''invoice_info'') invoice_info_kwargs
        = construct II (clk' ''invoice_info'') invoice_info_kwargs"
    using assms by (rule construct_clock_free)
  then have "create_pydantic_objects II clk = create_pydantic_objects II clk'"
    by (simp add: create_pydantic_objects_eq)
  then show ?thesis by (simp add: create_graph_def)
qed

text \<open>
  Claim C3. Building the sample graph and serializing it twice gives the same bytes, whatever
  the clock shows at either run; a run that returns a document is followed by a run that
  returns the same document. The class \<^verbatim>\<open>InvoiceInfo\<close> is a parameter: it must not declare
  a clock default for a field that \<^verbatim>\<open>create_pydantic_objects\<close> does not pass (the call
  passes no \<^verbatim>\<open>modified_timestamp\<close>). The other nineteen calls pass every timestamp.
\<close>

theorem serialization_deterministic:
  assumes "clock_free II invoice_info_kwargs"
  shows "main detail II clk = main detail II clk'
    \<and> (\<forall>G. create_graph II clk = Inr G \<longrightarrow>
          (\<exists>G'. create_graph II clk' = Inr G' \<and> serialize_graph G' = serialize_graph G))"
  using create_graph_clock_free[OF assms, of clk clk'] by (simp add: main_def)

theorem serialization_deterministic_witness:
  "clock_free InvoiceInfo invoice_info_kwargs
   \<and> (\<exists>G G'. create_graph InvoiceInfo (\<lambda>key field. DateTime 2025 6 2 15 6 43 378289) = Inr G
         \<and> create_graph InvoiceInfo (\<lambda>key field. DateTime 2026 1 1 0 0 0 1) = Inr G'
         \<and> serialize_graph G' = serialize_graph G)"
proof -
  have cf: "clock_free InvoiceInfo invoice_info_kwargs"
    by (simp add: clock_free_def InvoiceInfo_def invoice_info_kwargs_def)
  obtain G where G: "create_graph InvoiceInfo (\<lambda>key field. DateTime 2025 6 2 15 6 43 378289) = Inr G"
    using create_graph_Inr_iff[of InvoiceInfo] construct_invoice_info by blast
  from serialization_deterministic[OF cf,
      where clk = "\<lambda>key field. DateTime 2025 6 2 15 6 43 378289"
        and clk' = "\<lambda>key field. DateTime 2026 1 1 0 0 0 1"] G cf
  show ?thesis by blast
qed

lemma keys_filter: "map fst (filter (\<lambda>(k, v). P k) d) = filter P (map fst d)"
  by (induction d) auto

lemma dict_keys_model_dump_json:
  "dict_keys (model_dump_json (Some S) x) = filter (\<lambda>k. k \<in> set S) (dict_keys (obj_dict x))"
  by (simp add: model_dump_json_def dict_keys_def comp_def case_prod_beta keys_filter[symmetric])

lemma keys_to_minimal_dict:
  "dict_keys (to_minimal_dict x)
   = filter (\<lambda>k. k \<in> set (MINIMAL_FIELDS (obj_model x))) (dict_keys (obj_dict x))"
  by (simp add: to_minimal_dict_def dict_keys_model_dump_json)

lemma keys_to_minimal_dict_dump:
  "dict_keys (to_minimal_dict_dump x)
   = filter (\<lambda>k. k \<in> set (MINIMAL_FIELDS (obj_model x))) (dict_keys (obj_dict x))"
  by (simp add: to_minimal_dict_dump_def model_dump_def dict_keys_def keys_filter)

lemma map_of_map_filter:
  "P k \<Longrightarrow> map_of (map (\<lambda>(k, v). (k, g v)) (filter (\<lambda>(k, v). P k) d)) k
     = map_option g (map_of d k)"
  by (induction d) auto

lemma map_of_model_dump_json:
  "k \<in> set S \<Longrightarrow> map_of (model_dump_json (Some S) x) k = map_option json_value (map_of (obj_dict x) k)"
  by (simp add: model_dump_json_def map_of_map_filter[where P = "\<lambda>k. k \<in> set S"])

lemma collect_keys:
  "collect rs = ([], vs) \<Longrightarrow> map fst vs = map fst rs"
proof (induction rs arbitrary: vs)
  case Nil
  then show ?case by simp
next
  case (Cons r rs)
  obtain n y where r: "r = (n, y)" by (cases r)
  show ?case
  proof (cases y)
    case (Inl e)
    with Cons.prems r show ?thesis by (simp split: prod.splits)
  next
    case (Inr v)
    with Cons r show ?thesis by (auto split: prod.splits)
  qed
qed

lemma construct_keys:
  assumes "construct M now kw = Inr x"
  shows "obj_model x = M" and "dict_keys (obj_dict x) = map f_name (m_fields M)"
proof -
  from assms obtain vs where
    c: "collect (map (\<lambda>f. (f_name f, field_value now kw f)) (m_fields M)) = ([], vs)"
    and x: "x = Obj M vs"
    by (auto simp: construct_def split: prod.splits if_splits)
  show "obj_model x = M" by (simp add: x)
  from collect_keys[OF c] show "dict_keys (obj_dict x) = map f_name (m_fields M)"
    by (simp add: x dict_keys_def comp_def)
qed

lemma entity_classes_checked:
  "list_all (\<lambda>(cls, names, minimal). list_all (\<lambda>k. k \<in> set names) minimal) entity_classes"
  by code_simp

lemma entity_classes_minimal_subset:
  "(cls, names, minimal) \<in> set entity_classes \<Longrightarrow> set minimal \<subseteq> set names"
  using entity_classes_checked by (auto simp: list_all_iff)

lemma demo_classes_listed:
  "(m_name BillingEntity, map f_name (m_fields BillingEntity), MINIMAL_FIELDS BillingEntity)
     \<in> set entity_classes"
  "(m_name FeeRate, map f_name (m_fields FeeRate), MINIMAL_FIELDS FeeRate) \<in> set entity_classes"
  "(m_name FeeSummary, map f_name (m_fields FeeSummary), MINIMAL_FIELDS FeeSummary)
     \<in> set entity_classes"
  "(m_name Settlement, map f_name (m_fields Settlement), MINIMAL_FIELDS Settlement)
     \<in> set entity_classes"
  by (simp_all add: BillingEntity_def FeeRate_def FeeSummary_def Settlement_def entity_classes_def)


lemma minimal_keys_general:
  assumes "set (MINIMAL_FIELDS (obj_model x)) \<subseteq> set (dict_keys (obj_dict x))"
  shows "set (dict_keys (to_minimal_dict x)) = set (MINIMAL_FIELDS (obj_model x))"
    and "set (dict_keys (to_minimal_dict_dump x)) = set (MINIMAL_FIELDS (obj_model x))"
  using assms by (auto simp: keys_to_minimal_dict keys_to_minimal_dict_dump)

lemma minimal_null_general:
  assumes "k \<in> set (MINIMAL_FIELDS (obj_model x))" and "map_of (obj_dict x) k = Some PyNone"
  shows "map_of (to_minimal_dict x) k = Some PyNone"
    and "map_of (to_minimal_dict_dump x) k = Some PyNone"
proof -
  show "map_of (to_minimal_dict x) k = Some PyNone"
    using assms by (simp add: to_minimal_dict_def map_of_model_dump_json)
  have "map_of (filter (\<lambda>(k, v). k \<in> set S) d) k = map_of d k" if "k \<in> set S" for S and d :: "(string \<times> py) list"
    using that by (induction d) auto
  then show "map_of (to_minimal_dict_dump x) k = Some PyNone"
    using assms by (simp add: to_minimal_dict_dump_def model_dump_def)
qed

text \<open>
  Claim C1. For every entity class of the repository and every instance of it (an object
  whose attributes are the declared fields of the class), \<^verbatim>\<open>to_minimal_dict\<close> returns a
  mapping whose key set is the \<^verbatim>\<open>MINIMAL_FIELDS\<close> of the class, in either of the two forms
  in which the mixins write it; a field of the minimal set whose value is \<^verbatim>\<open>None\<close> is a
  key with the value \<^verbatim>\<open>None\<close>. For every \<^verbatim>\<open>FeeRate\<close> that the constructor returns, the
  keys include \<^verbatim>\<open>per_item_amount\<close> and \<^verbatim>\<open>apply_type\<close> and exclude \<^verbatim>\<open>uuid\<close> and
  \<^verbatim>\<open>billing_entity_uuid\<close>.
\<close>

theorem to_minimal_dict_keys:
  "(\<forall>(cls, names, minimal) \<in> set entity_classes. \<forall>x.
      dict_keys (obj_dict x) = names \<and> MINIMAL_FIELDS (obj_model x) = minimal \<longrightarrow>
        set (dict_keys (to_minimal_dict x)) = set minimal
        \<and> set (dict_keys (to_minimal_dict_dump x)) = set minimal
        \<and> (\<forall>k \<in> set minimal. map_of (obj_dict x) k = Some PyNone \<longrightarrow>
              map_of (to_minimal_dict x) k = Some PyNone
              \<and> map_of (to_minimal_dict_dump x) k = Some PyNone))
   \<and> (\<forall>now kw x. construct FeeRate now kw = Inr x \<longrightarrow>
          set (dict_keys (to_minimal_dict x)) = set (MINIMAL_FIELDS FeeRate)
          \<and> ''per_item_amount'' \<in> set (dict_keys (to_minimal_dict x))
          \<and> ''apply_type'' \<in> set (dict_keys (to_minimal_dict x))
          \<and> ''uuid'' \<notin> set (dict_keys (to_minimal_dict x))
          \<and> ''billing_entity_uuid'' \<notin> set (dict_keys (to_minimal_dict x)))"
proof (intro conjI ballI allI impI; (elim conjE)?)
  fix row x
  assume row: "row \<in> set entity_classes"
  show "case row of (cls, names, minimal) \<Rightarrow> \<forall>x.
      dict_keys (obj_dict x) = names \<and> MINIMAL_FIELDS (obj_model x) = minimal \<longrightarrow>
        set (dict_keys (to_minimal_dict x)) = set minimal
        \<and> set (dict_keys (to_minimal_dict_dump x)) = set minimal
        \<and> (\<forall>k \<in> set minimal. map_of (obj_dict x) k = Some PyNone \<longrightarrow>
              map_of (to_minimal_dict x) k = Some PyNone
              \<and> map_of (to_minimal_dict_dump x) k = Some PyNone)"
  proof (cases row)
    case (fields cls fs ms)
    with row have sub: "set ms \<subseteq> set fs" using entity_classes_minimal_subset by blast
    show ?thesis
      unfolding fields prod.case
      using sub minimal_keys_general minimal_null_general by blast
  qed
next
  fix now kw x
  assume c: "construct FeeRate now kw = Inr x"
  note k = construct_keys[OF c]
  have sub: "set (MINIMAL_FIELDS (obj_model x)) \<subseteq> set (dict_keys (obj_dict x))"
    by (simp add: k FeeRate_def)
  from minimal_keys_general(1)[OF sub]
  show keys: "set (dict_keys (to_minimal_dict x)) = set (MINIMAL_FIELDS FeeRate)"
    by (simp add: k)
  show "''per_item_amount'' \<in> set (dict_keys (to_minimal_dict x))"
    and "''apply_type'' \<in> set (dict_keys (to_minimal_dict x))"
    and "''uuid'' \<notin> set (dict_keys (to_minimal_dict x))"
    and "''billing_entity_uuid'' \<notin> set (dict_keys (to_minimal_dict x))"
    by (simp_all add: keys FeeRate_def)
qed


lemmas parse_simps =
  parse_decimal_def parse_date_def parse_datetime_def parse_nat_def parse_exponent_def
  digits_val_def is_digit_def digit_val_def valid_date_def days_in_month_def is_leap_def

lemma fee_rate_example:
  "construct FeeRate (\<lambda>field. DateTime 2023 10 27 10 0 0 123456)
     [(''id'', PyInt 1),
      (''uuid'', PyStr ''01H8X7Y7Z7QWERTYUIOPASDFGH''),
      (''billing_entity_uuid'', PyStr ''01H8X7Y7Z7QWERTYUIOPASDFGZ''),
      (''fee_category'', PyStr ''RECURRING''),
      (''fee_code'', PyStr ''MONTHLY_FEE''),
      (''currency'', PyStr ''USD''),
      (''effective_date'', PyStr ''2023-10-01''),
      (''apply_type'', PyStr ''PER_ITEM''),
      (''per_item_amount'', PyStr ''9.99'')]
   = Inr (Obj FeeRate
     [(''id'', PyInt 1),
      (''uuid'', PyStr ''01H8X7Y7Z7QWERTYUIOPASDFGH''),
      (''billing_entity_uuid'', PyStr ''01H8X7Y7Z7QWERTYUIOPASDFGZ''),
      (''fee_category'', PyStr ''RECURRING''),
      (''fee_code'', PyStr ''MONTHLY_FEE''),
      (''currency'', PyStr ''USD''),
      (''effective_date'', PyDate (Date 2023 10 1)),
      (''apply_type'', PyEnum ''PER_ITEM''),
      (''per_item_amount'', PyDecimal (Decimal False 999 (-2))),
      (''percentage'', PyNone),
      (''created_timestamp'', PyDateTime (DateTime 2023 10 27 10 0 0 123456)),
      (''modified_timestamp'', PyDateTime (DateTime 2023 10 27 10 0 0 123456)),
      (''audit_id'', PyNone)])"
  by (simp add: construct_def FeeRate_def ApplyType_def field_value_def eval_simps parse_simps)

theorem to_minimal_dict_keys_witness:
  "\<exists>x. construct FeeRate (\<lambda>field. DateTime 2023 10 27 10 0 0 123456)
     [(''id'', PyInt 1),
      (''uuid'', PyStr ''01H8X7Y7Z7QWERTYUIOPASDFGH''),
      (''billing_entity_uuid'', PyStr ''01H8X7Y7Z7QWERTYUIOPASDFGZ''),
      (''fee_category'', PyStr ''RECURRING''),
      (''fee_code'', PyStr ''MONTHLY_FEE''),
      (''currency'', PyStr ''USD''),
      (''effective_date'', PyStr ''2023-10-01''),
      (''apply_type'', PyStr ''PER_ITEM''),
      (''per_item_amount'', PyStr ''9.99'')] = Inr x
    \<and> (''FeeRate'', dict_keys (obj_dict x), MINIMAL_FIELDS (obj_model x)) \<in> set entity_classes
    \<and> map_of (obj_dict x) ''percentage'' = Some PyNone
    \<and> set (dict_keys (to_minimal_dict x)) = set (MINIMAL_FIELDS FeeRate)
    \<and> map_of (to_minimal_dict x) ''percentage'' = Some PyNone
    \<and> map_of (to_minimal_dict x) ''per_item_amount'' = Some (PyStr ''9.99'')
    \<and> ''per_item_amount'' \<in> set (dict_keys (to_minimal_dict x))
    \<and> ''apply_type'' \<in> set (dict_keys (to_minimal_dict x))
    \<and> ''uuid'' \<notin> set (dict_keys (to_minimal_dict x))
    \<and> ''billing_entity_uuid'' \<notin> set (dict_keys (to_minimal_dict x))"
proof -
  let ?x = "Obj FeeRate
     [(''id'', PyInt 1),
      (''uuid'', PyStr ''01H8X7Y7Z7QWERTYUIOPASDFGH''),
      (''billing_entity_uuid'', PyStr ''01H8X7Y7Z7QWERTYUIOPASDFGZ''),
      (''fee_category'', PyStr ''RECURRING''),
      (''fee_code'', PyStr ''MONTHLY_FEE''),
      (''currency'', PyStr ''USD''),
      (''effective_date'', PyDate (Date 2023 10 1)),
      (''apply_type'', PyEnum ''PER_ITEM''),
      (''per_item_amount'', PyDecimal (Decimal False 999 (-2))),
      (''percentage'', PyNone),
      (''created_timestamp'', PyDateTime (DateTime 2023 10 27 10 0 0 123456)),
      (''modified_timestamp'', PyDateTime (DateTime 2023 10 27 10 0 0 123456)),
      (''audit_id'', PyNone)]"
  have row: "(''FeeRate'', dict_keys (obj_dict ?x), MINIMAL_FIELDS (obj_model ?x)) \<in> set entity_classes"
    using demo_classes_listed(2) by (simp add: FeeRate_def dict_keys_def)
  have none: "map_of (obj_dict ?x) ''percentage'' = Some PyNone" by simp
  have amount: "map_of (to_minimal_dict ?x) ''per_item_amount'' = Some (PyStr ''9.99'')"
    by (simp add: to_minimal_dict_def model_dump_json_def FeeRate_def decimal_str_def eval_simps)
  have mem: "''percentage'' \<in> set (MINIMAL_FIELDS (obj_model ?x))" by (simp add: FeeRate_def)
  from to_minimal_dict_keys have
    a: "\<forall>(cls, names, minimal) \<in> set entity_classes. \<forall>x.
      dict_keys (obj_dict x) = names \<and> MINIMAL_FIELDS (obj_model x) = minimal \<longrightarrow>
        set (dict_keys (to_minimal_dict x)) = set minimal
        \<and> set (dict_keys (to_minimal_dict_dump x)) = set minimal
        \<and> (\<forall>k \<in> set minimal. map_of (obj_dict x) k = Some PyNone \<longrightarrow>
              map_of (to_minimal_dict x) k = Some PyNone
              \<and> map_of (to_minimal_dict_dump x) k = Some PyNone)"
    and b: "\<forall>now kw x. construct FeeRate now kw = Inr x \<longrightarrow>
          set (dict_keys (to_minimal_dict x)) = set (MINIMAL_FIELDS FeeRate)
          \<and> ''per_item_amount'' \<in> set (dict_keys (to_minimal_dict x))
          \<and> ''apply_type'' \<in> set (dict_keys (to_minimal_dict x))
          \<and> ''uuid'' \<notin> set (dict_keys (to_minimal_dict x))
          \<and> ''billing_entity_uuid'' \<notin> set (dict_keys (to_minimal_dict x))"
    by blast+
  from a row have "\<forall>k \<in> set (MINIMAL_FIELDS (obj_model ?x)). map_of (obj_dict ?x) k = Some PyNone \<longrightarrow>
              map_of (to_minimal_dict ?x) k = Some PyNone"
    by blast
  with mem none have pn: "map_of (to_minimal_dict ?x) ''percentage'' = Some PyNone" by blast
  from b fee_rate_example have
    "set (dict_keys (to_minimal_dict ?x)) = set (MINIMAL_FIELDS FeeRate)
          \<and> ''per_item_amount'' \<in> set (dict_keys (to_minimal_dict ?x))
          \<and> ''apply_type'' \<in> set (dict_keys (to_minimal_dict ?x))
          \<and> ''uuid'' \<notin> set (dict_keys (to_minimal_dict ?x))
          \<and> ''billing_entity_uuid'' \<notin> set (dict_keys (to_minimal_dict ?x))"
    by blast
  with fee_rate_example row none pn amount show ?thesis by blast
qed


text \<open>
  Claim C4. A timestamp in the \<^verbatim>\<open>others\<close> mapping is not rendered by the conversion of the
  minimal projection: \<^verbatim>\<open>json.dumps(..., default=str)\<close> writes \<^verbatim>\<open>str(datetime)\<close>, with a
  space between date and time, where the minimal projection writes \<^verbatim>\<open>isoformat()\<close>, with
  \<^verbatim>\<open>T\<close>. The node of the merchant billing entity has \<^verbatim>\<open>created_timestamp\<close> among its
  others; the two renderings of its value differ.
\<close>

theorem others_timestamp_not_isoformat:
  "construct BillingEntity (constant_clock (DateTime 2025 2 26 17 6 39 670150) ''merchant_billing_entity'')
      merchant_billing_entity_kwargs = Inr (Obj BillingEntity merchant_billing_entity_kwargs)
   \<and> create_node_data (Obj BillingEntity merchant_billing_entity_kwargs) ''billing_entity'' =
       [(''table'', PyStr ''billing_entity''),
        (''minimal'', PyDict [(''entity_type'', PyStr ''MERCHANT''),
                               (''name'', PyStr ''MerchantMcMerchantface'')]),
        (''others'', PyDict [(''id'', PyInt 1195),
                              (''uuid'', PyStr ''JW8H2B9BT6B11R2HHXY3HYQCN6''),
                              (''entity_uuid'', PyStr ''062X8PVY3XWB1''),
                              (''created_timestamp'', PyDateTime (DateTime 2025 2 26 17 6 39 670150)),
                              (''modified_timestamp'', PyDateTime (DateTime 2025 2 26 17 6 39 670150))])]
   \<and> dumps 4 (PyDateTime (DateTime 2025 2 26 17 6 39 670150))
       = [CHR 0x22] @ ''2025-02-26 17:06:39.670150'' @ [CHR 0x22]
   \<and> dumps 4 (json_value (PyDateTime (DateTime 2025 2 26 17 6 39 670150)))
       = [CHR 0x22] @ ''2025-02-26T17:06:39.670150'' @ [CHR 0x22]"
proof -
  have a: "create_node_data (Obj BillingEntity merchant_billing_entity_kwargs) ''billing_entity'' =
       [(''table'', PyStr ''billing_entity''),
        (''minimal'', PyDict [(''entity_type'', PyStr ''MERCHANT''),
                               (''name'', PyStr ''MerchantMcMerchantface'')]),
        (''others'', PyDict [(''id'', PyInt 1195),
                              (''uuid'', PyStr ''JW8H2B9BT6B11R2HHXY3HYQCN6''),
                              (''entity_uuid'', PyStr ''062X8PVY3XWB1''),
                              (''created_timestamp'', PyDateTime (DateTime 2025 2 26 17 6 39 670150)),
                              (''modified_timestamp'', PyDateTime (DateTime 2025 2 26 17 6 39 670150))])]"
    by (simp add: create_node_data_def model_dump_def to_minimal_dict_def model_dump_json_def
        BillingEntity_def merchant_billing_entity_kwargs_def dict_keys_def Let_def)
  have b: "dumps 4 (PyDateTime (DateTime 2025 2 26 17 6 39 670150))
       = [CHR 0x22] @ ''2025-02-26 17:06:39.670150'' @ [CHR 0x22]"
    by (simp add: datetime_str_def datetime_format_def zfill_def encode_str_def escape_char_def
        eval_simps)
  have c: "dumps 4 (json_value (PyDateTime (DateTime 2025 2 26 17 6 39 670150)))
       = [CHR 0x22] @ ''2025-02-26T17:06:39.670150'' @ [CHR 0x22]"
    by (simp add: datetime_isoformat_def datetime_format_def zfill_def encode_str_def
        escape_char_def eval_simps)
  from construct_merchant_billing_entity a b c show ?thesis by blast
qed

text \<open>
  The other values are rendered alike in both mappings: \<^verbatim>\<open>None\<close>, booleans, integers,
  strings, enum members, decimals and dates.
\<close>

lemma others_rendering_agrees:
  "\<forall>t. v \<noteq> PyDateTime t \<Longrightarrow> \<forall>xs. v \<noteq> PyList xs \<Longrightarrow> \<forall>kvs. v \<noteq> PyDict kvs \<Longrightarrow>
   dumps lvl (json_value v) = dumps lvl v"
  by (cases v) simp_all


lemma line_count_append: "line_count (a @ b) = line_count a + line_count b"
  by (simp add: line_count_def)

lemma line_count_error_lines:
  "2 * length errs
   \<le> line_count (concat (map (\<lambda>(loc, t). [CHR 0x0A] @ loc @ [CHR 0x0A] @ ''  '' @ detail cls loc t) errs))"
proof (induction errs)
  case Nil
  then show ?case by (simp add: line_count_def)
next
  case (Cons err errs)
  obtain loc t where err: "err = (loc, t)" by (cases err)
  have "2 \<le> line_count ([CHR 0x0A] @ loc @ [CHR 0x0A] @ ''  '' @ detail cls loc t)"
    by (simp add: line_count_def)
  with Cons show ?case
    by (simp add: err line_count_append del: append.simps)
qed

lemma line_count_validation_error:
  "2 * length errs \<le> line_count (exn_str detail (ValidationError cls errs))"
proof -
  have "line_count (concat (map (\<lambda>(loc, t). [CHR 0x0A] @ loc @ [CHR 0x0A] @ ''  '' @ detail cls loc t) errs))
        \<le> line_count (exn_str detail (ValidationError cls errs))"
    by (simp add: exn_str_def line_count_append del: append.simps)
  with line_count_error_lines[of errs detail cls] show ?thesis by linarith
qed

lemma construct_merchant_without_id:
  "construct BillingEntity now (tl merchant_billing_entity_kwargs)
   = Inl (ValidationError ''BillingEntity'' [(''id'', Missing)])"
  by (simp add: construct_def BillingEntity_def EntityType_def
      merchant_billing_entity_kwargs_def field_value_def eval_simps)

text \<open>
  Claim C5, as stated, fails: the error message is not one line. The exceptions that the
  constructors raise are pydantic's \<^verbatim>\<open>ValidationError\<close> (here the one of the first
  constructor call of \<^verbatim>\<open>create_pydantic_objects\<close> when its \<^verbatim>\<open>id\<close> is left out). Its text
  has a summary line and then, for each error, the field name and the message on lines of
  their own: whatever pydantic writes as the message, the \<^verbatim>\<open>except\<close> clause of \<^verbatim>\<open>main\<close>
  prints at least three lines for it.
\<close>

theorem main_error_message_counterexample:
  "construct BillingEntity
      (constant_clock (DateTime 2025 2 26 17 6 39 670150) ''merchant_billing_entity'')
      (tl merchant_billing_entity_kwargs)
     = Inl (ValidationError ''BillingEntity'' [(''id'', Missing)])
   \<and> (\<forall>detail. 3 \<le> line_count (fst (main_except detail
          (ValidationError ''BillingEntity'' [(''id'', Missing)]))))"
proof -
  have "3 \<le> line_count (fst (main_except detail
          (ValidationError ''BillingEntity'' [(''id'', Missing)])))" for detail
    using line_count_validation_error[of "[(''id'', Missing)]" detail "''BillingEntity''"]
    by (simp add: main_except_def line_count_append del: append.simps)
       (simp add: line_count_def)
  with construct_merchant_without_id show ?thesis by blast
qed

text \<open>
  Claim C5, amended. \<^verbatim>\<open>main\<close> prints the JSON document and a newline on standard output
  and returns 0 when the graph is built; when building it raises an exception, \<^verbatim>\<open>main\<close>
  prints \<^verbatim>\<open>Error: \<close> followed by the text of the exception and a newline, prints nothing of
  a document, and returns 1. It returns no other value. The message has as many lines as
  the text of the exception and one for the newline; the text of a \<^verbatim>\<open>ValidationError\<close> has
  at least two line breaks for each of its errors.
\<close>

theorem main_output_and_return_value:
  "(\<forall>G. create_graph II clk = Inr G \<longrightarrow> main detail II clk = (serialize_graph G @ [CHR 0x0A], 0))
   \<and> main detail II clk =
       (case create_graph II clk of
          Inr G \<Rightarrow> (serialize_graph G @ [CHR 0x0A], 0)
        | Inl e \<Rightarrow> main_except detail e)
   \<and> main_except detail e = (''Error: '' @ exn_str detail e @ [CHR 0x0A], 1)
   \<and> line_count (fst (main_except detail e)) = line_count (exn_str detail e) + 1
   \<and> 2 * length errs \<le> line_count (exn_str detail (ValidationError cls errs))
   \<and> (snd (main detail II clk) = 0 \<or> snd (main detail II clk) = 1)"
proof -
  have a: "main detail II clk =
       (case create_graph II clk of
          Inr G \<Rightarrow> (serialize_graph G @ [CHR 0x0A], 0)
        | Inl e \<Rightarrow> main_except detail e)"
    by (simp add: main_def split: sum.splits)
  have b: "main_except detail e = (''Error: '' @ exn_str detail e @ [CHR 0x0A], 1)"
    by (simp add: main_except_def)
  have c: "line_count (fst (main_except detail e)) = line_count (exn_str detail e) + 1"
    by (simp add: main_except_def line_count_def)
  have d: "snd (main detail II clk) = 0 \<or> snd (main detail II clk) = 1"
    by (cases "create_graph II clk") (simp_all add: main_def main_except_def)
  from a have s: "\<forall>G. create_graph II clk = Inr G \<longrightarrow>
      main detail II clk = (serialize_graph G @ [CHR 0x0A], 0)"
    by simp
  from s a b c d line_count_validation_error[of errs detail cls] show ?thesis by blast
qed

theorem main_output_and_return_value_witness:
  "\<exists>G. create_graph InvoiceInfo (constant_clock (DateTime 2025 6 2 15 6 43 378289)) = Inr G
      \<and> (\<forall>detail. main detail InvoiceInfo (constant_clock (DateTime 2025 6 2 15 6 43 378289))
            = (serialize_graph G @ [CHR 0x0A], 0))"
proof -
  obtain G where G: "create_graph InvoiceInfo (constant_clock (DateTime 2025 6 2 15 6 43 378289)) = Inr G"
    using create_graph_Inr_iff[of InvoiceInfo] construct_invoice_info by blast
  have "main detail InvoiceInfo (constant_clock (DateTime 2025 6 2 15 6 43 378289))
            = (serialize_graph G @ [CHR 0x0A], 0)" for detail
    using main_output_and_return_value[of InvoiceInfo
        "constant_clock (DateTime 2025 6 2 15 6 43 378289)" detail] G
    by blast
  with G show ?thesis by blast
qed

text \<open>
  Run as a script, the module ends with status 0 whatever \<^verbatim>\<open>main\<close> returns.
\<close>

lemma run_module_status: "snd (run_module detail II clk) = 0"
  by (simp add: run_module_def)


lemma foldl_add_node:
  "distinct (map fst nds) \<Longrightarrow> set (map fst nds) \<inter> set (dict_keys (g_succ G)) = {} \<Longrightarrow>
   g_succ (foldl (\<lambda>G (n, attr). add_node n attr G) G nds)
     = g_succ G @ map (\<lambda>n. (n, [])) (map fst nds)
   \<and> g_node (foldl (\<lambda>G (n, attr). add_node n attr G) G nds)
     = g_node G @ map (\<lambda>(n, attr). (n, dict_update [] attr)) nds"
proof (induction nds arbitrary: G)
  case Nil
  then show ?case by simp
next
  case (Cons nd nds)
  obtain n attr where nd: "nd = (n, attr)" by (cases nd)
  have new: "n \<notin> set (dict_keys (g_succ G))" using Cons.prems(2) nd by auto
  have d: "distinct (map fst nds)" and nn: "n \<notin> set (map fst nds)" using Cons.prems(1) nd by auto
  have disj: "set (map fst nds) \<inter> set (dict_keys (g_succ (add_node n attr G))) = {}"
    using Cons.prems(2) nn nd by (auto simp: add_node_new[OF new] dict_keys_def)
  from Cons.IH[OF d disj] show ?case
    by (simp add: add_node_new[OF new] nd)
qed

lemma add_nodes_attrs:
  "add_nodes data cs G = Inr G' \<Longrightarrow> distinct (map fst cs) \<Longrightarrow>
   set (map fst cs) \<inter> set (dict_keys (g_succ G)) = {} \<Longrightarrow>
   g_node G' = g_node G @ map (\<lambda>(n, key, tbl).
       (n, dict_update [] (create_node_data (the (map_of data key)) tbl))) cs"
proof (induction cs arbitrary: G)
  case Nil
  then show ?case by simp
next
  case (Cons c cs)
  obtain n key tbl where c: "c = (n, key, tbl)" by (cases c)
  from Cons.prems(1) c obtain x where x: "map_of data key = Some x"
    and rec: "add_nodes data cs (add_node n (create_node_data x tbl) G) = Inr G'"
    by (auto split: option.splits)
  have new: "n \<notin> set (dict_keys (g_succ G))" using Cons.prems(3) c by auto
  have d: "distinct (map fst cs)" and nn: "n \<notin> set (map fst cs)" using Cons.prems(2) c by auto
  have disj: "set (map fst cs) \<inter> set (dict_keys (g_succ (add_node n (create_node_data x tbl) G))) = {}"
    using Cons.prems(3) nn c by (auto simp: add_node_new[OF new] dict_keys_def)
  from Cons.IH[OF rec d disj] show ?case
    by (simp add: add_node_new[OF new] c x)
qed

lemma create_node_data_shape:
  "create_node_data x tbl =
     [(''table'', PyStr tbl),
      (''minimal'', PyDict (to_minimal_dict x)),
      (''others'', PyDict (filter (\<lambda>(k, v). k \<notin> set (MINIMAL_FIELDS (obj_model x))) (model_dump x)))]"
proof -
  have "filter (\<lambda>(k, v). k \<notin> set (dict_keys (to_minimal_dict x))) (obj_dict x)
        = filter (\<lambda>(k, v). k \<notin> set (MINIMAL_FIELDS (obj_model x))) (obj_dict x)"
  proof (rule filter_cong[OF refl])
    fix kv assume kv: "kv \<in> set (obj_dict x)"
    have "fst kv \<in> set (dict_keys (obj_dict x))" using kv by (simp add: dict_keys_def)
    then have "fst kv \<in> set (dict_keys (to_minimal_dict x))
               \<longleftrightarrow> fst kv \<in> set (MINIMAL_FIELDS (obj_model x))"
      by (simp add: keys_to_minimal_dict)
    then show "(case kv of (k, v) \<Rightarrow> k \<notin> set (dict_keys (to_minimal_dict x)))
               = (case kv of (k, v) \<Rightarrow> k \<notin> set (MINIMAL_FIELDS (obj_model x)))"
      by (simp add: case_prod_beta)
  qed
  then show ?thesis by (simp add: create_node_data_def model_dump_def Let_def)
qed

lemma node_entry_shape:
  "dict_update [(''id'', PyStr n)]
     (dict_update [] [(''table'', a), (''minimal'', b), (''others'', c)])
   = [(''id'', PyStr n), (''table'', a), (''minimal'', b), (''others'', c)]"
  by (simp add: dict_update_def)

lemma lookup_zip:
  assumes "distinct ks" and "length ks = length xs" and "map key cs = ks"
  shows "map (\<lambda>c. F c (the (map_of (zip ks xs) (key c)))) cs = map (\<lambda>(c, x). F c x) (zip cs xs)"
proof (rule nth_equalityI)
  show "length (map (\<lambda>c. F c (the (map_of (zip ks xs) (key c)))) cs)
        = length (map (\<lambda>(c, x). F c x) (zip cs xs))"
    using assms by (metis length_map length_zip min.idem)
next
  fix i assume "i < length (map (\<lambda>c. F c (the (map_of (zip ks xs) (key c)))) cs)"
  then have i: "i < length cs" by simp
  then have ik: "i < length ks" "i < length xs" using assms by auto
  have "key (cs ! i) = ks ! i" using assms(3) i by (metis nth_map)
  moreover have "map_of (zip ks xs) (ks ! i) = Some (xs ! i)"
    using assms ik by (simp add: map_of_zip_nth)
  ultimately show "map (\<lambda>c. F c (the (map_of (zip ks xs) (key c)))) cs ! i
        = map (\<lambda>(c, x). F c x) (zip cs xs) ! i"
    using i ik by simp
qed

lemma node_keys_are_constructor_keys:
  "map (\<lambda>c. fst (snd c)) node_calls = map fst (constructor_calls II)"
  by (simp add: node_calls_def constructor_calls_def)

lemma constructor_keys_distinct: "distinct (map fst (constructor_calls II))"
  by (simp add: constructor_calls_def)


text \<open>
  Claim C6, as stated, fails in its last part. The edges are not listed in the order in
  which they were added: after the nodes \<^verbatim>\<open>a\<close> and \<^verbatim>\<open>b\<close>, the edge from \<^verbatim>\<open>b\<close> to \<^verbatim>\<open>a\<close> is
  added first and the edge from \<^verbatim>\<open>a\<close> to \<^verbatim>\<open>b\<close> second, and the document lists them the
  other way round.
\<close>

theorem edge_order_counterexample:
  "graph_data (add_edges_from [(''b'', ''a''), (''a'', ''b'')]
      (add_node ''b'' [] (add_node ''a'' [] DiGraph)))
   = PyDict
       [(''nodes'', PyList [PyDict [(''id'', PyStr ''a'')], PyDict [(''id'', PyStr ''b'')]]),
        (''edges'', PyList [PyDict [(''source'', PyStr ''a''), (''target'', PyStr ''b'')],
                             PyDict [(''source'', PyStr ''b''), (''target'', PyStr ''a'')]])]"
  by (simp add: graph_data_def nodes_data_def edges_def add_edges_from_def add_edge_def
      add_node_def DiGraph_def dict_keys_def dict_update_def Let_def)

lemma graph_data_assembled:
  assumes "distinct (map fst nds)" and "distinct es"
    and "\<forall>e \<in> set es. fst e \<in> set (map fst nds) \<and> snd e \<in> set (map fst nds)"
  shows "graph_data (add_edges_from es (foldl (\<lambda>G (n, attr). add_node n attr G) DiGraph nds)) =
     PyDict
       [(''nodes'', PyList (map (\<lambda>(n, attr).
            PyDict (dict_update [(''id'', PyStr n)] (dict_update [] attr))) nds)),
        (''edges'', PyList (map (\<lambda>(s, t). PyDict [(''source'', PyStr s), (''target'', PyStr t)])
            (concat (map (\<lambda>n. filter (\<lambda>e. fst e = n) es) (map fst nds)))))]"
proof -
  let ?G0 = "foldl (\<lambda>G (n, attr). add_node n attr G) DiGraph nds"
  have "set (map fst nds) \<inter> set (dict_keys (g_succ DiGraph)) = {}"
    by (simp add: DiGraph_def dict_keys_def)
  from foldl_add_node[OF assms(1) this]
  have s0: "g_succ ?G0 = map (\<lambda>n. (n, [])) (map fst nds)"
    and n0: "g_node ?G0 = map (\<lambda>(n, attr). (n, dict_update [] attr)) nds"
    by (simp_all add: DiGraph_def)
  note r = add_edges_from_succ[OF assms(1) s0 assms(2) assms(3)]
  have e: "edges (add_edges_from es ?G0)
           = concat (map (\<lambda>n. filter (\<lambda>e. fst e = n) es) (map fst nds))"
    using edges_of_succ[of "add_edges_from es ?G0" es "map fst nds"] r by simp
  have n: "nodes_data (add_edges_from es ?G0) = map (\<lambda>(n, attr). (n, dict_update [] attr)) nds"
    using r n0 by (simp add: nodes_data_def)
  show ?thesis
    unfolding graph_data_def e n by (simp add: case_prod_beta comp_def)
qed

lemma graph_data_sample:
  assumes "create_graph II clk = Inr G"
  shows "\<exists>xs. length xs = 20
     \<and> create_pydantic_objects II clk = Inr (zip (map fst (constructor_calls II)) xs)
     \<and> graph_data G =
        PyDict
          [(''nodes'', PyList (map (\<lambda>((node_id, key, table_name), x).
               PyDict [(''id'', PyStr node_id),
                       (''table'', PyStr table_name),
                       (''minimal'', PyDict (to_minimal_dict x)),
                       (''others'', PyDict (filter
                           (\<lambda>(k, v). k \<notin> set (MINIMAL_FIELDS (obj_model x))) (model_dump x)))])
               (zip node_calls xs))),
           (''edges'', PyList (map (\<lambda>(s, t). PyDict [(''source'', PyStr s), (''target'', PyStr t)])
               declared_edges))]"
proof -
  from assms obtain data G1 where d: "create_pydantic_objects II clk = Inr data"
    and G1: "add_nodes data node_calls DiGraph = Inr G1"
    and G: "G = add_declared_edges G1"
    by (auto simp: create_graph_def split: sum.splits)
  define ks where "ks = map fst (constructor_calls II)"
  define xs where "xs = map snd data"
  have keys: "map fst data = ks" unfolding ks_def by (rule create_pydantic_objects_keys[OF d])
  have data: "zip ks xs = data" unfolding xs_def keys[symmetric] by (rule zip_map_fst_snd)
  have lk: "length ks = length xs" unfolding xs_def keys[symmetric] by simp
  have "length ks = 20" unfolding ks_def by (simp add: constructor_calls_def)
  with lk have len: "length xs = 20" by simp
  have dk: "distinct ks" unfolding ks_def by (rule constructor_keys_distinct)
  have nk: "map (\<lambda>c. fst (snd c)) node_calls = ks"
    unfolding ks_def by (rule node_keys_are_constructor_keys)
  have disj: "set (map fst node_calls) \<inter> set (dict_keys (g_succ DiGraph)) = {}"
    by (simp add: DiGraph_def dict_keys_def)
  have s1: "g_succ G1 = map (\<lambda>n. (n, [])) (map fst node_calls)"
    using add_nodes_new[OF G1 node_ids_distinct disj] by (simp add: DiGraph_def comp_def)
  have n1: "g_node G1 = map (\<lambda>(n, key, tbl).
       (n, dict_update [] (create_node_data (the (map_of data key)) tbl))) node_calls"
    using add_nodes_attrs[OF G1 node_ids_distinct disj] by (simp add: DiGraph_def)
  note r = add_edges_from_succ[OF node_ids_distinct s1 declared_edges_distinct declared_edges_mem]
  have e: "edges G = declared_edges" by (rule create_graph_structure(2)[OF assms])
  have "g_node G = g_node G1"
    unfolding G add_declared_edges_eq using r by (rule conjunct2)
  then have n: "nodes_data G = map (\<lambda>(n, key, tbl).
       (n, dict_update [] (create_node_data (the (map_of data key)) tbl))) node_calls"
    unfolding nodes_data_def n1 .
  define F where "F = (\<lambda>(c :: string \<times> string \<times> string) x.
      PyDict [(''id'', PyStr (fst c)),
              (''table'', PyStr (snd (snd c))),
              (''minimal'', PyDict (to_minimal_dict x)),
              (''others'', PyDict (filter
                  (\<lambda>(k, v). k \<notin> set (MINIMAL_FIELDS (obj_model x))) (model_dump x)))])"
  have A: "map (\<lambda>(node_id, node_data). PyDict (dict_update [(''id'', PyStr node_id)] node_data))
          (nodes_data G)
        = map (\<lambda>c. F c (the (map_of data (fst (snd c))))) node_calls"
    unfolding n F_def
    by (simp only: map_map comp_def case_prod_beta fst_conv snd_conv create_node_data_shape
        node_entry_shape)
  have B: "map (\<lambda>c. F c (the (map_of (zip ks xs) (fst (snd c))))) node_calls
           = map (\<lambda>(c, x). F c x) (zip node_calls xs)"
    by (rule lookup_zip[OF dk lk nk])
  have C: "map (\<lambda>(c, x). F c x) (zip node_calls xs)
      = map (\<lambda>((node_id, key, table_name), x).
               PyDict [(''id'', PyStr node_id),
                       (''table'', PyStr table_name),
                       (''minimal'', PyDict (to_minimal_dict x)),
                       (''others'', PyDict (filter
                           (\<lambda>(k, v). k \<notin> set (MINIMAL_FIELDS (obj_model x))) (model_dump x)))])
               (zip node_calls xs)"
    by (rule map_cong[OF refl]) (simp only: F_def case_prod_beta fst_conv snd_conv)
  have nodes: "map (\<lambda>(node_id, node_data).
        PyDict (dict_update [(''id'', PyStr node_id)] node_data)) (nodes_data G)
      = map (\<lambda>((node_id, key, table_name), x).
               PyDict [(''id'', PyStr node_id),
                       (''table'', PyStr table_name),
                       (''minimal'', PyDict (to_minimal_dict x)),
                       (''others'', PyDict (filter
                           (\<lambda>(k, v). k \<notin> set (MINIMAL_FIELDS (obj_model x))) (model_dump x)))])
               (zip node_calls xs)"
    using A B C unfolding data by (rule trans[OF trans])
  have gd: "graph_data G =
        PyDict
          [(''nodes'', PyList (map (\<lambda>((node_id, key, table_name), x).
               PyDict [(''id'', PyStr node_id),
                       (''table'', PyStr table_name),
                       (''minimal'', PyDict (to_minimal_dict x)),
                       (''others'', PyDict (filter
                           (\<lambda>(k, v). k \<notin> set (MINIMAL_FIELDS (obj_model x))) (model_dump x)))])
               (zip node_calls xs))),
           (''edges'', PyList (map (\<lambda>(s, t). PyDict [(''source'', PyStr s), (''target'', PyStr t)])
               declared_edges))]"
    unfolding graph_data_def nodes e by (rule refl)
  have cpo: "create_pydantic_objects II clk = Inr (zip (map fst (constructor_calls II)) xs)"
    unfolding ks_def[symmetric] data by (rule d)
  show ?thesis
    by (rule exI[of _ xs]) (intro conjI len cpo gd)
qed


text \<open>
  Claim C6, amended. The document is one JSON object with the two keys \<^verbatim>\<open>nodes\<close> and
  \<^verbatim>\<open>edges\<close>. For a graph assembled from nodes with distinct identifiers and then edges
  between them, the nodes are listed in the order in which they were added, each an object
  with its identifier under \<^verbatim>\<open>id\<close> followed by its attributes; the edges are listed as
  objects with \<^verbatim>\<open>source\<close> and \<^verbatim>\<open>target\<close>, grouped by source node: the sources in the order
  of the nodes, the edges of one source in the order in which they were added. In the
  document of the sample graph every node object has the keys \<^verbatim>\<open>id\<close>, \<^verbatim>\<open>table\<close>,
  \<^verbatim>\<open>minimal\<close> and \<^verbatim>\<open>others\<close>, the last holding the attributes of the object whose names
  are not in \<^verbatim>\<open>MINIMAL_FIELDS\<close>; the nodes are in the order of the \<^verbatim>\<open>add_node\<close> calls, and
  the edges are in the order in which \<^verbatim>\<open>create_graph\<close> adds them.
\<close>

theorem serialized_document_shape:
  "(distinct (map fst nds) \<and> distinct es
      \<and> (\<forall>e \<in> set es. fst e \<in> set (map fst nds) \<and> snd e \<in> set (map fst nds)) \<longrightarrow>
      graph_data (add_edges_from es (foldl (\<lambda>G (n, attr). add_node n attr G) DiGraph nds)) =
        PyDict
          [(''nodes'', PyList (map (\<lambda>(n, attr).
               PyDict (dict_update [(''id'', PyStr n)] (dict_update [] attr))) nds)),
           (''edges'', PyList (map (\<lambda>(s, t). PyDict [(''source'', PyStr s), (''target'', PyStr t)])
               (concat (map (\<lambda>n. filter (\<lambda>e. fst e = n) es) (map fst nds)))))])
   \<and> (create_graph II clk = Inr G \<longrightarrow>
        (\<exists>xs. length xs = 20
           \<and> create_pydantic_objects II clk = Inr (zip (map fst (constructor_calls II)) xs)
           \<and> graph_data G =
              PyDict
                [(''nodes'', PyList (map (\<lambda>((node_id, key, table_name), x).
                     PyDict [(''id'', PyStr node_id),
                             (''table'', PyStr table_name),
                             (''minimal'', PyDict (to_minimal_dict x)),
                             (''others'', PyDict (filter
                                 (\<lambda>(k, v). k \<notin> set (MINIMAL_FIELDS (obj_model x)))
                                 (model_dump x)))])
                     (zip node_calls xs))),
                 (''edges'', PyList (map (\<lambda>(s, t).
                     PyDict [(''source'', PyStr s), (''target'', PyStr t)]) declared_edges))]))"
  using graph_data_assembled[of nds es] graph_data_sample[of II clk G] by blast

theorem serialized_document_shape_witness:
  "graph_data (add_edges_from [(''n2'', ''n1''), (''n1'', ''n2'')]
      (foldl (\<lambda>G (n, attr). add_node n attr G) DiGraph
         [(''n1'', [(''table'', PyStr ''t'')]), (''n2'', [])]))
   = PyDict
       [(''nodes'', PyList [PyDict [(''id'', PyStr ''n1''), (''table'', PyStr ''t'')],
                             PyDict [(''id'', PyStr ''n2'')]]),
        (''edges'', PyList [PyDict [(''source'', PyStr ''n1''), (''target'', PyStr ''n2'')],
                             PyDict [(''source'', PyStr ''n2''), (''target'', PyStr ''n1'')]])]
   \<and> (\<exists>G xs. create_graph InvoiceInfo (constant_clock (DateTime 2025 6 2 15 6 43 378289)) = Inr G
         \<and> length xs = 20
         \<and> graph_data G =
              PyDict
                [(''nodes'', PyList (map (\<lambda>((node_id, key, table_name), x).
                     PyDict [(''id'', PyStr node_id),
                             (''table'', PyStr table_name),
                             (''minimal'', PyDict (to_minimal_dict x)),
                             (''others'', PyDict (filter
                                 (\<lambda>(k, v). k \<notin> set (MINIMAL_FIELDS (obj_model x)))
                                 (model_dump x)))])
                     (zip node_calls xs))),
                 (''edges'', PyList (map (\<lambda>(s, t).
                     PyDict [(''source'', PyStr s), (''target'', PyStr t)]) declared_edges))])"
proof -
  have h: "distinct (map fst [(''n1'', [(''table'', PyStr ''t'')]), (''n2'', [])])
      \<and> distinct [(''n2'', ''n1''), (''n1'', ''n2'')]
      \<and> (\<forall>e \<in> set [(''n2'', ''n1''), (''n1'', ''n2'')].
            fst e \<in> set (map fst [(''n1'', [(''table'', PyStr ''t'')]), (''n2'', [])])
            \<and> snd e \<in> set (map fst [(''n1'', [(''table'', PyStr ''t'')]), (''n2'', [])]))"
    by simp
  from serialized_document_shape[of "[(''n1'', [(''table'', PyStr ''t'')]), (''n2'', [])]"
      "[(''n2'', ''n1''), (''n1'', ''n2'')]"] h
  have "graph_data (add_edges_from [(''n2'', ''n1''), (''n1'', ''n2'')]
      (foldl (\<lambda>G (n, attr). add_node n attr G) DiGraph
         [(''n1'', [(''table'', PyStr ''t'')]), (''n2'', [])])) =
        PyDict
          [(''nodes'', PyList (map (\<lambda>(n, attr).
               PyDict (dict_update [(''id'', PyStr n)] (dict_update [] attr)))
               [(''n1'', [(''table'', PyStr ''t'')]), (''n2'', [])])),
           (''edges'', PyList (map (\<lambda>(s, t). PyDict [(''source'', PyStr s), (''target'', PyStr t)])
               (concat (map (\<lambda>n. filter (\<lambda>e. fst e = n) [(''n2'', ''n1''), (''n1'', ''n2'')])
                  (map fst [(''n1'', [(''table'', PyStr ''t'')]), (''n2'', [])])))))]"
    by blast
  then have 1: "graph_data (add_edges_from [(''n2'', ''n1''), (''n1'', ''n2'')]
      (foldl (\<lambda>G (n, attr). add_node n attr G) DiGraph
         [(''n1'', [(''table'', PyStr ''t'')]), (''n2'', [])]))
   = PyDict
       [(''nodes'', PyList [PyDict [(''id'', PyStr ''n1''), (''table'', PyStr ''t'')],
                             PyDict [(''id'', PyStr ''n2'')]]),
        (''edges'', PyList [PyDict [(''source'', PyStr ''n1''), (''target'', PyStr ''n2'')],
                             PyDict [(''source'', PyStr ''n2''), (''target'', PyStr ''n1'')]])]"
    by (simp add: dict_update_def)
  obtain G where G: "create_graph InvoiceInfo (constant_clock (DateTime 2025 6 2 15 6 43 378289)) = Inr G"
    using create_graph_Inr_iff[of InvoiceInfo] construct_invoice_info by blast
  from serialized_document_shape[of _ _ InvoiceInfo
      "constant_clock (DateTime 2025 6 2 15 6 43 378289)" G] G
  have 2: "\<exists>xs. length xs = 20
           \<and> create_pydantic_objects InvoiceInfo (constant_clock (DateTime 2025 6 2 15 6 43 378289))
               = Inr (zip (map fst (constructor_calls InvoiceInfo)) xs)
           \<and> graph_data G =
              PyDict
                [(''nodes'', PyList (map (\<lambda>((node_id, key, table_name), x).
                     PyDict [(''id'', PyStr node_id),
                             (''table'', PyStr table_name),
                             (''minimal'', PyDict (to_minimal_dict x)),
                             (''others'', PyDict (filter
                                 (\<lambda>(k, v). k \<notin> set (MINIMAL_FIELDS (obj_model x)))
                                 (model_dump x)))])
                     (zip node_calls xs))),
                 (''edges'', PyList (map (\<lambda>(s, t).
                     PyDict [(''source'', PyStr s), (''target'', PyStr t)]) declared_edges))]"
    by blast
  from 1 2 G show ?thesis by blast
qed


lemma check_constraints_None:
  "list_all (\<lambda>c. check_constraint cs c v = None) cs' \<Longrightarrow> check_constraints cs cs' v = None"
  by (induction cs') auto

lemma meets_check: "meets cs v c \<Longrightarrow> check_constraint cs c v = None"
  by (cases c; cases v) (auto simp: meets_def check_constraint_def split: option.splits)

lemma of_type_validate: "of_type t v \<Longrightarrow> validate_type t v = Inr v"
  by (cases t; cases v) (auto simp: of_type_def validate_type_def)

lemma conforms_validate: "conforms f v \<Longrightarrow> validate_field f v = Inr v"
proof (cases "v = PyNone")
  case True
  assume "conforms f v"
  with True show ?thesis by (simp add: conforms_def validate_field_def)
next
  case False
  assume c: "conforms f v"
  with False have t: "of_type (f_type f) v"
    and m: "list_all (meets (f_constraints f) v) (f_constraints f)"
    by (simp_all add: conforms_def)
  from m have "list_all (\<lambda>c. check_constraint (f_constraints f) c v = None) (f_constraints f)"
    by (auto simp: list_all_iff meets_check)
  then have "check_constraints (f_constraints f) (f_constraints f) v = None"
    by (rule check_constraints_None)
  with False of_type_validate[OF t] show ?thesis by (simp add: validate_field_def)
qed

lemma collect_error_mem: "(n, Inl e) \<in> set rs \<Longrightarrow> (n, e) \<in> set (fst (collect rs))"
proof (induction rs)
  case Nil
  then show ?case by simp
next
  case (Cons r rs)
  obtain m y where r: "r = (m, y)" by (cases r)
  show ?case
  proof (cases y)
    case (Inl e')
    with Cons r show ?thesis by (auto split: prod.splits)
  next
    case (Inr v)
    with Cons r show ?thesis by (auto split: prod.splits)
  qed
qed

lemma collect_no_error:
  "\<forall>r \<in> set rs. \<exists>v. snd r = Inr v \<Longrightarrow> fst (collect rs) = []"
proof (induction rs)
  case Nil
  then show ?case by simp
next
  case (Cons r rs)
  obtain m y where r: "r = (m, y)" by (cases r)
  from Cons.prems r obtain v where y: "y = Inr v" by auto
  from Cons have "fst (collect rs) = []" by simp
  with r y show ?case by (cases "collect rs") simp
qed

lemma construct_missing:
  assumes "f \<in> set (m_fields M)" and "f_default f = Required" and "f_name f \<notin> set (map fst kw)"
  shows "\<exists>errs. construct M now kw = Inl (ValidationError (m_name M) errs)
           \<and> (f_name f, Missing) \<in> set errs"
proof -
  let ?rs = "map (\<lambda>f. (f_name f, field_value now kw f)) (m_fields M)"
  have "map_of kw (f_name f) = None" using assms(3) by (simp add: map_of_eq_None_iff)
  then have "field_value now kw f = Inl Missing" using assms(2) by (simp add: field_value_def)
  then have "(f_name f, Inl Missing) \<in> set ?rs" using assms(1) by force
  then have mem: "(f_name f, Missing) \<in> set (fst (collect ?rs))" by (rule collect_error_mem)
  then have "fst (collect ?rs) \<noteq> []" by auto
  with mem show ?thesis by (cases "collect ?rs") (simp add: construct_def)
qed

lemma construct_acceptable:
  assumes "acceptable M kw"
  shows "\<exists>x. construct M now kw = Inr x \<and> obj_model x = M
           \<and> dict_keys (obj_dict x) = map f_name (m_fields M)"
proof -
  let ?rs = "map (\<lambda>f. (f_name f, field_value now kw f)) (m_fields M)"
  have "\<exists>v. field_value now kw f = Inr v" if "f \<in> set (m_fields M)" for f
  proof (cases "map_of kw (f_name f)")
    case None
    with assms that have "f_default f \<noteq> Required" by (auto simp: acceptable_def list_all_iff)
    with None show ?thesis by (cases "f_default f") (simp_all add: field_value_def)
  next
    case (Some v)
    with assms that have "conforms f v" by (auto simp: acceptable_def list_all_iff)
    with Some show ?thesis by (simp add: field_value_def conforms_validate)
  qed
  then have "\<forall>r \<in> set ?rs. \<exists>v. snd r = Inr v" by auto
  then have "fst (collect ?rs) = []" by (rule collect_no_error)
  then obtain x where x: "construct M now kw = Inr x"
    by (cases "collect ?rs") (simp add: construct_def)
  with construct_keys[OF x] show ?thesis by blast
qed

text \<open>
  Claim C7. For every entity class, a constructor call that leaves out a required field
  fails with a validation error that reports the field as missing, so that no object and no
  projection of it exists; a call that leaves out no required field and whose values are all
  within what their fields declare returns an object of the class with all its fields.
\<close>

theorem construction_validates:
  "(f \<in> set (m_fields M) \<and> f_default f = Required \<and> f_name f \<notin> set (map fst kw) \<longrightarrow>
      (\<exists>errs. construct M now kw = Inl (ValidationError (m_name M) errs)
         \<and> (f_name f, Missing) \<in> set errs))
   \<and> (acceptable M kw' \<longrightarrow>
      (\<exists>x. construct M now kw' = Inr x \<and> obj_model x = M
         \<and> dict_keys (obj_dict x) = map f_name (m_fields M)))"
  using construct_missing[of f M kw now] construct_acceptable[of M kw' now] by blast

theorem construction_validates_witness:
  "(\<exists>errs. construct FeeRate (constant_clock (DateTime 2025 2 25 19 36 38 626269) ''fee_rate_1'')
       (filter (\<lambda>kv. fst kv \<noteq> ''currency'') fee_rate_1_kwargs)
       = Inl (ValidationError ''FeeRate'' errs)
      \<and> (''currency'', Missing) \<in> set errs)
   \<and> acceptable FeeRate fee_rate_1_kwargs
   \<and> (\<exists>x. construct FeeRate (constant_clock (DateTime 2025 2 25 19 36 38 626269) ''fee_rate_1'')
          fee_rate_1_kwargs = Inr x
      \<and> obj_model x = FeeRate
      \<and> dict_keys (obj_dict x) = map f_name (m_fields FeeRate))"
proof -
  let ?f = "Field ''currency'' TStr False Required [MaxLength 3]"
  have h1: "?f \<in> set (m_fields FeeRate) \<and> f_default ?f = Required
      \<and> f_name ?f \<notin> set (map fst (filter (\<lambda>kv. fst kv \<noteq> ''currency'') fee_rate_1_kwargs))"
    by (simp add: FeeRate_def fee_rate_1_kwargs_def)
  have h2: "acceptable FeeRate fee_rate_1_kwargs"
    by (simp add: acceptable_def conforms_def of_type_def meets_def FeeRate_def ApplyType_def
        fee_rate_1_kwargs_def eval_simps)
  have n: "m_name FeeRate = ''FeeRate''" by (simp add: FeeRate_def)
  from construction_validates[of ?f FeeRate
      "filter (\<lambda>kv. fst kv \<noteq> ''currency'') fee_rate_1_kwargs"
      "constant_clock (DateTime 2025 2 25 19 36 38 626269) ''fee_rate_1''" fee_rate_1_kwargs]
    h1 h2 n
  show ?thesis by auto
qed


lemma strip_zeros_spec:
  "c \<noteq> 0 \<Longrightarrow> strip_zeros c e = (c', e') \<Longrightarrow> \<exists>k. e' = e + int k \<and> c = c' * 10 ^ k"
proof (induction c e rule: strip_zeros.induct)
  case (1 c e)
  show ?case
  proof (cases "c mod 10 = 0")
    case True
    with "1.prems" have nz: "c div 10 \<noteq> 0" by auto
    from True "1.prems" have "strip_zeros (c div 10) (e + 1) = (c', e')"
      by (subst (asm) strip_zeros.simps) simp
    from "1.IH"[OF _ nz this] True "1.prems"(1)
    obtain k where k: "e' = e + 1 + int k" "c div 10 = c' * 10 ^ k" by auto
    from True have "c = (c div 10) * 10" by auto
    with k have "e' = e + int (Suc k) \<and> c = c' * 10 ^ Suc k" by simp
    then show ?thesis by blast
  next
    case False
    with "1.prems" have "c' = c \<and> e' = e" by (subst (asm) strip_zeros.simps) simp
    then have "e' = e + int 0 \<and> c = c' * 10 ^ 0" by simp
    then show ?thesis by blast
  qed
qed

lemma excess_places:
  assumes "dec_exp d < - int p" and "\<not> 10 ^ nat (- int p - dec_exp d) dvd dec_int d"
  shows "p < snd (digits_info (normalize d))"
proof -
  from assms(2) have nz: "dec_int d \<noteq> 0" by (metis dvd_0_right)
  obtain c' e' where s: "strip_zeros (dec_int d) (dec_exp d) = (c', e')" by (cases "strip_zeros (dec_int d) (dec_exp d)")
  from strip_zeros_spec[OF nz s] obtain k where k: "e' = dec_exp d + int k" "dec_int d = c' * 10 ^ k"
    by blast
  have "k < nat (- int p - dec_exp d)"
  proof (rule ccontr)
    assume "\<not> k < nat (- int p - dec_exp d)"
    then have "nat (- int p - dec_exp d) \<le> k" by simp
    then have "(10::nat) ^ nat (- int p - dec_exp d) dvd 10 ^ k" by (rule le_imp_power_dvd)
    then have "10 ^ nat (- int p - dec_exp d) dvd dec_int d" using k(2) by (metis dvd_mult)
    with assms(2) show False by contradiction
  qed
  with k(1) assms(1) have "e' < - int p" by linarith
  then have "e' < 0" "p < nat (- e')" by linarith+
  with nz s show ?thesis by (simp add: normalize_def digits_info_def)
qed

lemma check_constraints_error:
  "c \<in> set cs' \<Longrightarrow> check_constraint cs c v = Some e \<Longrightarrow> \<exists>e'. check_constraints cs cs' v = Some e'"
  by (induction cs') (auto split: option.splits)

lemma decimal_places_rejected:
  assumes "f_type f = TDecimal" and "DecimalPlaces p \<in> set (f_constraints f)"
    and "dec_exp d < - int p" and "\<not> 10 ^ nat (- int p - dec_exp d) dvd dec_int d"
  shows "\<exists>e. validate_field f (PyDecimal d) = Inl e"
    and "parse_decimal s = Some d \<Longrightarrow> \<exists>e. validate_field f (PyStr s) = Inl e"
proof -
  have "check_constraint (f_constraints f) (DecimalPlaces p) (PyDecimal d) = Some DecimalMaxPlaces"
    using excess_places[OF assms(3,4)] by (simp add: check_constraint_def)
  from check_constraints_error[OF assms(2) this]
  obtain e where e: "check_constraints (f_constraints f) (f_constraints f) (PyDecimal d) = Some e"
    by blast
  show "\<exists>e. validate_field f (PyDecimal d) = Inl e"
    using e assms(1) by (simp add: validate_field_def validate_type_def)
  show "\<exists>e. validate_field f (PyStr s) = Inl e" if "parse_decimal s = Some d"
    using e assms(1) that by (simp add: validate_field_def validate_type_def)
qed

lemma construct_invalid:
  assumes "f \<in> set (m_fields M)" and "map_of kw (f_name f) = Some v"
    and "validate_field f v = Inl e"
  shows "\<exists>errs. construct M now kw = Inl (ValidationError (m_name M) errs)
           \<and> f_name f \<in> fst ` set errs"
proof -
  let ?rs = "map (\<lambda>f. (f_name f, field_value now kw f)) (m_fields M)"
  have "field_value now kw f = Inl e" using assms(2,3) by (simp add: field_value_def)
  then have "(f_name f, Inl e) \<in> set ?rs" using assms(1) by force
  then have mem: "(f_name f, e) \<in> set (fst (collect ?rs))" by (rule collect_error_mem)
  then have ne: "fst (collect ?rs) \<noteq> []" by auto
  from mem have "f_name f \<in> fst ` set (fst (collect ?rs))" by force
  with ne show ?thesis by (cases "collect ?rs") (simp add: construct_def)
qed


lemma fee_rate_amount_stored:
  "construct FeeRate now
     [(''id'', PyInt 1),
      (''uuid'', PyStr ''01H8X7Y7Z7QWERTYUIOPASDFGH''),
      (''billing_entity_uuid'', PyStr ''01H8X7Y7Z7QWERTYUIOPASDFGZ''),
      (''fee_category'', PyStr ''RECURRING''),
      (''fee_code'', PyStr ''MONTHLY_FEE''),
      (''currency'', PyStr ''USD''),
      (''effective_date'', PyStr ''2023-10-01''),
      (''apply_type'', PyStr ''PER_ITEM''),
      (''per_item_amount'', PyStr ''99.990''),
      (''percentage'', PyNone),
      (''created_timestamp'', PyStr ''2023-10-27T10:00:00.123456''),
      (''modified_timestamp'', PyStr ''2023-10-27T10:00:00.123456''),
      (''audit_id'', PyStr ''01H8X7Y7Z7QWERTYUIOPASDFGA'')]
   = Inr (Obj FeeRate
     [(''id'', PyInt 1),
      (''uuid'', PyStr ''01H8X7Y7Z7QWERTYUIOPASDFGH''),
      (''billing_entity_uuid'', PyStr ''01H8X7Y7Z7QWERTYUIOPASDFGZ''),
      (''fee_category'', PyStr ''RECURRING''),
      (''fee_code'', PyStr ''MONTHLY_FEE''),
      (''currency'', PyStr ''USD''),
      (''effective_date'', PyDate (Date 2023 10 1)),
      (''apply_type'', PyEnum ''PER_ITEM''),
      (''per_item_amount'', PyDecimal (Decimal False 99990 (- 3))),
      (''percentage'', PyNone),
      (''created_timestamp'', PyDateTime (DateTime 2023 10 27 10 0 0 123456)),
      (''modified_timestamp'', PyDateTime (DateTime 2023 10 27 10 0 0 123456)),
      (''audit_id'', PyStr ''01H8X7Y7Z7QWERTYUIOPASDFGA'')])"
  by (simp add: construct_def FeeRate_def ApplyType_def field_value_def eval_simps parse_simps)

lemma fee_rate_amount_dumped:
  "model_dump_json None (Obj FeeRate
     [(''id'', PyInt 1),
      (''uuid'', PyStr ''01H8X7Y7Z7QWERTYUIOPASDFGH''),
      (''billing_entity_uuid'', PyStr ''01H8X7Y7Z7QWERTYUIOPASDFGZ''),
      (''fee_category'', PyStr ''RECURRING''),
      (''fee_code'', PyStr ''MONTHLY_FEE''),
      (''currency'', PyStr ''USD''),
      (''effective_date'', PyDate (Date 2023 10 1)),
      (''apply_type'', PyEnum ''PER_ITEM''),
      (''per_item_amount'', PyDecimal (Decimal False 99990 (- 3))),
      (''percentage'', PyNone),
      (''created_timestamp'', PyDateTime (DateTime 2023 10 27 10 0 0 123456)),
      (''modified_timestamp'', PyDateTime (DateTime 2023 10 27 10 0 0 123456)),
      (''audit_id'', PyStr ''01H8X7Y7Z7QWERTYUIOPASDFGA'')])
   = [(''id'', PyInt 1),
      (''uuid'', PyStr ''01H8X7Y7Z7QWERTYUIOPASDFGH''),
      (''billing_entity_uuid'', PyStr ''01H8X7Y7Z7QWERTYUIOPASDFGZ''),
      (''fee_category'', PyStr ''RECURRING''),
      (''fee_code'', PyStr ''MONTHLY_FEE''),
      (''currency'', PyStr ''USD''),
      (''effective_date'', PyStr ''2023-10-01''),
      (''apply_type'', PyStr ''PER_ITEM''),
      (''per_item_amount'', PyStr ''99.990''),
      (''percentage'', PyNone),
      (''created_timestamp'', PyStr ''2023-10-27T10:00:00.123456''),
      (''modified_timestamp'', PyStr ''2023-10-27T10:00:00.123456''),
      (''audit_id'', PyStr ''01H8X7Y7Z7QWERTYUIOPASDFGA'')]"
  by (simp add: model_dump_json_def decimal_str_def date_isoformat_def datetime_isoformat_def
      datetime_format_def zfill_def eval_simps)

text \<open>
  Claim C9. A call that gives a decimal field declared with \<^verbatim>\<open>decimal_places=3\<close> a
  value with a digit of precision beyond the third decimal place (a value \<open>c * 10 ^ e\<close>,
  \<open>e < - 3\<close>, that is not a multiple of \<open>10 ^ - 3\<close>), as a \<^verbatim>\<open>Decimal\<close> or as its string,
  fails with a validation error on that field. \<^verbatim>\<open>per_item_amount\<close> of \<^verbatim>\<open>FeeRate\<close> is such a
  field; given \<^verbatim>\<open>"99.990"\<close> it holds the decimal with coefficient 99990 and exponent - 3,
  the full representation of the object writes it as \<^verbatim>\<open>"99.990"\<close>, and reading that
  representation returns the object.
\<close>

theorem decimal_places_enforced:
  "(f \<in> set (m_fields M) \<and> f_type f = TDecimal \<and> DecimalPlaces 3 \<in> set (f_constraints f)
      \<and> (map_of kw (f_name f) = Some (PyDecimal d)
          \<or> (\<exists>s. map_of kw (f_name f) = Some (PyStr s) \<and> parse_decimal s = Some d))
      \<and> dec_exp d < - 3 \<and> \<not> 10 ^ nat (- 3 - dec_exp d) dvd dec_int d
    \<longrightarrow> (\<exists>errs. construct M now kw = Inl (ValidationError (m_name M) errs)
           \<and> f_name f \<in> fst ` set errs))
   \<and> Field ''per_item_amount'' TDecimal True (Default PyNone) [MaxDigits 12, DecimalPlaces 3]
       \<in> set (m_fields FeeRate)
   \<and> (\<exists>x. construct FeeRate now
         [(''id'', PyInt 1),
          (''uuid'', PyStr ''01H8X7Y7Z7QWERTYUIOPASDFGH''),
          (''billing_entity_uuid'', PyStr ''01H8X7Y7Z7QWERTYUIOPASDFGZ''),
          (''fee_category'', PyStr ''RECURRING''),
          (''fee_code'', PyStr ''MONTHLY_FEE''),
          (''currency'', PyStr ''USD''),
          (''effective_date'', PyStr ''2023-10-01''),
          (''apply_type'', PyStr ''PER_ITEM''),
          (''per_item_amount'', PyStr ''99.990''),
          (''percentage'', PyNone),
          (''created_timestamp'', PyStr ''2023-10-27T10:00:00.123456''),
          (''modified_timestamp'', PyStr ''2023-10-27T10:00:00.123456''),
          (''audit_id'', PyStr ''01H8X7Y7Z7QWERTYUIOPASDFGA'')] = Inr x
       \<and> map_of (obj_dict x) ''per_item_amount'' = Some (PyDecimal (Decimal False 99990 (- 3)))
       \<and> map_of (model_dump_json None x) ''per_item_amount'' = Some (PyStr ''99.990'')
       \<and> model_validate_json FeeRate now' (model_dump_json None x) = Inr x)"
proof -
  have a: "\<exists>errs. construct M now kw = Inl (ValidationError (m_name M) errs)
           \<and> f_name f \<in> fst ` set errs"
    if h: "f \<in> set (m_fields M)" "f_type f = TDecimal" "DecimalPlaces 3 \<in> set (f_constraints f)"
      "map_of kw (f_name f) = Some (PyDecimal d)
          \<or> (\<exists>s. map_of kw (f_name f) = Some (PyStr s) \<and> parse_decimal s = Some d)"
      "dec_exp d < - 3" "\<not> 10 ^ nat (- 3 - dec_exp d) dvd dec_int d"
  proof -
    from h(5,6) have e: "dec_exp d < - int 3" "\<not> 10 ^ nat (- int 3 - dec_exp d) dvd dec_int d"
      by simp_all
    from h(4) obtain v where v: "map_of kw (f_name f) = Some v"
      "v = PyDecimal d \<or> (\<exists>s. v = PyStr s \<and> parse_decimal s = Some d)" by blast
    from v(2) decimal_places_rejected[OF h(2,3) e]
    obtain er where "validate_field f v = Inl er" by blast
    from construct_invalid[OF h(1) v(1) this] show ?thesis .
  qed
  have b: "Field ''per_item_amount'' TDecimal True (Default PyNone) [MaxDigits 12, DecimalPlaces 3]
       \<in> set (m_fields FeeRate)" by (simp add: FeeRate_def)
  have r: "model_validate_json FeeRate now' = construct FeeRate now'"
    by (simp add: model_validate_json_def fun_eq_iff)
  show ?thesis
    apply (intro conjI impI)
    subgoal using a by blast
    subgoal by (rule b)
    subgoal
      apply (rule exI, rule conjI, rule fee_rate_amount_stored)
      apply (simp only: fee_rate_amount_dumped r fee_rate_amount_stored[of now'])
      apply simp
      done
    done
qed

theorem decimal_places_enforced_witness:
  "parse_decimal ''9.9999'' = Some (Decimal False 99999 (- 4))
   \<and> \<not> 10 ^ nat (- 3 - (- 4)) dvd (99999 :: nat)
   \<and> (\<exists>errs. construct FeeRate (\<lambda>field. DateTime 2023 10 27 10 0 0 123456)
         [(''id'', PyInt 1),
          (''uuid'', PyStr ''01H8X7Y7Z7QWERTYUIOPASDFGH''),
          (''billing_entity_uuid'', PyStr ''01H8X7Y7Z7QWERTYUIOPASDFGZ''),
          (''fee_category'', PyStr ''RECURRING''),
          (''fee_code'', PyStr ''MONTHLY_FEE''),
          (''currency'', PyStr ''USD''),
          (''effective_date'', PyStr ''2023-10-01''),
          (''apply_type'', PyStr ''PER_ITEM''),
          (''per_item_amount'', PyStr ''9.9999'')]
        = Inl (ValidationError ''FeeRate'' errs)
       \<and> ''per_item_amount'' \<in> fst ` set errs)"
proof -
  let ?f = "Field ''per_item_amount'' TDecimal True (Default PyNone) [MaxDigits 12, DecimalPlaces 3]"
  let ?kw = "[(''id'', PyInt 1),
          (''uuid'', PyStr ''01H8X7Y7Z7QWERTYUIOPASDFGH''),
          (''billing_entity_uuid'', PyStr ''01H8X7Y7Z7QWERTYUIOPASDFGZ''),
          (''fee_category'', PyStr ''RECURRING''),
          (''fee_code'', PyStr ''MONTHLY_FEE''),
          (''currency'', PyStr ''USD''),
          (''effective_date'', PyStr ''2023-10-01''),
          (''apply_type'', PyStr ''PER_ITEM''),
          (''per_item_amount'', PyStr ''9.9999'')]"
  let ?d = "Decimal False 99999 (- 4)"
  have p: "parse_decimal ''9.9999'' = Some ?d" by (simp add: parse_simps eval_simps)
  have q: "\<not> 10 ^ nat (- 3 - (- 4)) dvd (99999 :: nat)" by simp
  have h: "?f \<in> set (m_fields FeeRate) \<and> f_type ?f = TDecimal
      \<and> DecimalPlaces 3 \<in> set (f_constraints ?f)
      \<and> (map_of ?kw (f_name ?f) = Some (PyDecimal ?d)
          \<or> (\<exists>s. map_of ?kw (f_name ?f) = Some (PyStr s) \<and> parse_decimal s = Some ?d))
      \<and> dec_exp ?d < - 3 \<and> \<not> 10 ^ nat (- 3 - dec_exp ?d) dvd dec_int ?d"
    using p by (simp add: FeeRate_def)
  have n: "m_name FeeRate = ''FeeRate''" "f_name ?f = ''per_item_amount''"
    by (simp_all add: FeeRate_def)
  from decimal_places_enforced[of ?f FeeRate ?kw ?d "\<lambda>field. DateTime 2023 10 27 10 0 0 123456"]
    h n p q
  show ?thesis by (simp only: simp_thms)
qed

end
